theory Spec2Isabelle
  imports Main "HOL-Library.Sublist" "HOL-Library.Multiset"
begin

section \<open>Go strings\<close>

text \<open>
  A Go string is a sequence of bytes; \<^typ>\<open>string\<close> is a list of 8-bit characters.
  The functions below are the ones of package \<^verbatim>\<open>strings\<close> that the provisioner calls.
\<close>

definition backslash :: char where
  "backslash = CHR 0x5C"

definition newline :: char where
  "newline = CHR 0x0A"

text \<open>
  The UTF-8 encodings of the code points for which \<^verbatim>\<open>unicode.IsSpace\<close> holds:
  U+0009 to U+000D, U+0020, U+0085, U+00A0, U+1680, U+2000 to U+200A, U+2028, U+2029,
  U+202F, U+205F and U+3000. Every one starts with a byte that is not a UTF-8
  continuation byte, so looking for them bytewise finds the same white space as decoding
  runes does.
\<close>

definition spaceSeqs :: "string list" where
  "spaceSeqs =
    [[CHR 0x09], [CHR 0x0A], [CHR 0x0B], [CHR 0x0C], [CHR 0x0D], [CHR 0x20],
     [CHR 0xC2, CHR 0x85], [CHR 0xC2, CHR 0xA0],
     [CHR 0xE1, CHR 0x9A, CHR 0x80],
     [CHR 0xE2, CHR 0x80, CHR 0x80], [CHR 0xE2, CHR 0x80, CHR 0x81],
     [CHR 0xE2, CHR 0x80, CHR 0x82], [CHR 0xE2, CHR 0x80, CHR 0x83],
     [CHR 0xE2, CHR 0x80, CHR 0x84], [CHR 0xE2, CHR 0x80, CHR 0x85],
     [CHR 0xE2, CHR 0x80, CHR 0x86], [CHR 0xE2, CHR 0x80, CHR 0x87],
     [CHR 0xE2, CHR 0x80, CHR 0x88], [CHR 0xE2, CHR 0x80, CHR 0x89],
     [CHR 0xE2, CHR 0x80, CHR 0x8A],
     [CHR 0xE2, CHR 0x80, CHR 0xA8], [CHR 0xE2, CHR 0x80, CHR 0xA9],
     [CHR 0xE2, CHR 0x80, CHR 0xAF],
     [CHR 0xE2, CHR 0x81, CHR 0x9F],
     [CHR 0xE3, CHR 0x80, CHR 0x80]]"

text \<open>The width in bytes of the white-space rune a string starts with (0: none).\<close>

definition leadingSpace :: "string \<Rightarrow> nat" where
  "leadingSpace s = (case List.find (\<lambda>w. prefix w s) spaceSeqs of None \<Rightarrow> 0 | Some w \<Rightarrow> length w)"

text \<open>The width in bytes of the white-space rune a string ends with (0: none).\<close>

definition trailingSpace :: "string \<Rightarrow> nat" where
  "trailingSpace s = (case List.find (\<lambda>w. suffix w s) spaceSeqs of None \<Rightarrow> 0 | Some w \<Rightarrow> length w)"

lemma spaceSeqs_nonempty: "w \<in> set spaceSeqs \<Longrightarrow> w \<noteq> []"
  by (auto simp: spaceSeqs_def)

lemma leadingSpace_le: "leadingSpace s \<le> length s"
  by (auto simp: leadingSpace_def prefix_length_le find_Some_iff split: option.splits)

lemma leadingSpace_Nil [simp]: "leadingSpace [] = 0"
  by (simp add: leadingSpace_def spaceSeqs_def)

lemma trailingSpace_le: "trailingSpace s \<le> length s"
  by (auto simp: trailingSpace_def suffix_length_le find_Some_iff split: option.splits)

lemma trailingSpace_Nil [simp]: "trailingSpace [] = 0"
  by (simp add: trailingSpace_def spaceSeqs_def)

function TrimLeftSpace :: "string \<Rightarrow> string" where
  "TrimLeftSpace s = (if 0 < leadingSpace s then TrimLeftSpace (drop (leadingSpace s) s) else s)"
  by pat_completeness auto
termination
proof (relation "measure length")
  show "wf (measure length)" by simp
next
  fix s :: string
  assume "0 < leadingSpace s"
  moreover have "leadingSpace s \<le> length s" by (rule leadingSpace_le)
  ultimately show "(drop (leadingSpace s) s, s) \<in> measure length" by simp
qed

function TrimRightSpace :: "string \<Rightarrow> string" where
  "TrimRightSpace s =
     (if 0 < trailingSpace s then TrimRightSpace (take (length s - trailingSpace s) s) else s)"
  by pat_completeness auto
termination
proof (relation "measure length")
  show "wf (measure length)" by simp
next
  fix s :: string
  assume "0 < trailingSpace s"
  moreover have "trailingSpace s \<le> length s" by (rule trailingSpace_le)
  ultimately show "(take (length s - trailingSpace s) s, s) \<in> measure length" by simp
qed

declare TrimLeftSpace.simps [simp del] TrimRightSpace.simps [simp del]

text \<open>\<^verbatim>\<open>strings.TrimSpace\<close>: the string without leading and trailing white space.\<close>

definition TrimSpace :: "string \<Rightarrow> string" where
  "TrimSpace s = TrimRightSpace (TrimLeftSpace s)"

text \<open>\<^verbatim>\<open>strings.HasPrefix\<close> and \<^verbatim>\<open>strings.TrimPrefix\<close>.\<close>

definition HasPrefix :: "string \<Rightarrow> string \<Rightarrow> bool" where
  "HasPrefix s p = prefix p s"

definition TrimPrefix :: "string \<Rightarrow> string \<Rightarrow> string" where
  "TrimPrefix s p = (if HasPrefix s p then drop (length p) s else s)"

text \<open>\<^verbatim>\<open>strings.Contains\<close>: some position of \<open>s\<close> starts with \<open>sub\<close>.\<close>

fun Contains :: "string \<Rightarrow> string \<Rightarrow> bool" where
  "Contains [] sub = (sub = [])"
| "Contains (c # cs) sub = (prefix sub (c # cs) \<or> Contains cs sub)"

text \<open>
  \<^verbatim>\<open>strings.Split\<close> for a separator that is not empty (the code splits at a line feed
  and at a flag name only): the pieces between the leftmost non-overlapping occurrences
  of the separator. \<open>cur\<close> is the piece read so far.
\<close>

function splitFrom :: "string \<Rightarrow> string \<Rightarrow> string \<Rightarrow> string list" where
  "splitFrom sep cur [] = [cur]"
| "splitFrom sep cur (c # cs) =
     (if sep \<noteq> [] \<and> prefix sep (c # cs)
      then cur # splitFrom sep [] (drop (length sep) (c # cs))
      else splitFrom sep (cur @ [c]) cs)"
  by pat_completeness auto
termination
  by (relation "measure (\<lambda>(sep, cur, s). length s)") auto

definition Split :: "string \<Rightarrow> string \<Rightarrow> string list" where
  "Split s sep = splitFrom sep [] s"

text \<open>
  \<^verbatim>\<open>strings.Fields\<close>: the maximal runs of bytes between white space, none of them empty.
  \<open>cur\<close> is the field read so far.
\<close>

function fieldsFrom :: "string \<Rightarrow> string \<Rightarrow> string list" where
  "fieldsFrom cur [] = (if cur = [] then [] else [cur])"
| "fieldsFrom cur (c # cs) =
     (if 0 < leadingSpace (c # cs)
      then (if cur = [] then [] else [cur]) @ fieldsFrom [] (drop (leadingSpace (c # cs)) (c # cs))
      else fieldsFrom (cur @ [c]) cs)"
  by pat_completeness auto
termination
  by (relation "measure (\<lambda>(cur, s). length s)") auto

definition Fields :: "string \<Rightarrow> string list" where
  "Fields s = fieldsFrom [] s"

section \<open>Parsing the output of kubeadm init\<close>

datatype panic = IndexOutOfRange | NilDereference

text \<open>
  The inner loop of \<^verbatim>\<open>extractJoinCommand\<close>: the lines after the one that holds the
  command are appended while they start, once trimmed, with two dashes or a backslash.
\<close>

fun joinContinuation :: "string \<Rightarrow> string list \<Rightarrow> string" where
  "joinContinuation joinCmd [] = joinCmd"
| "joinContinuation joinCmd (l # ls) =
     (let nextLine = TrimSpace l in
      if nextLine \<noteq> [] \<and> (HasPrefix nextLine ''--'' \<or> HasPrefix nextLine [backslash])
      then joinContinuation (joinCmd @ '' '' @ TrimPrefix nextLine [backslash]) ls
      else joinCmd)"

text \<open>
  The outer loop: the first line that contains \<^verbatim>\<open>kubeadm join\<close> decides. The inner
  index runs over \<open>j = i + 1\<close> while \<open>j < len(lines)\<close> and \<open>j < i + 5\<close>, that is over
  at most four following lines.
\<close>

fun extractJoinLines :: "string list \<Rightarrow> string" where
  "extractJoinLines [] = []"
| "extractJoinLines (line # rest) =
     (if Contains line ''kubeadm join''
      then TrimSpace (joinContinuation (TrimSpace line) (take 4 rest))
      else extractJoinLines rest)"

definition extractJoinCommand :: "string \<Rightarrow> string" where
  "extractJoinCommand output = extractJoinLines (Split output [newline])"

text \<open>
  \<^verbatim>\<open>extractCertificateKey\<close>: \<^verbatim>\<open>strings.Fields(key)[0]\<close> is an index into a slice, which
  panics when the slice is empty.
\<close>

fun extractCertificateKeyLines :: "string list \<Rightarrow> panic + string" where
  "extractCertificateKeyLines [] = Inr []"
| "extractCertificateKeyLines (line # rest) =
     (if Contains line ''--certificate-key''
      then (let parts = Split line ''--certificate-key'' in
            if 1 < length parts
            then (let key = TrimSpace (parts ! 1) in
                  case Fields key of [] \<Rightarrow> Inl IndexOutOfRange | k # _ \<Rightarrow> Inr k)
            else extractCertificateKeyLines rest)
      else extractCertificateKeyLines rest)"

definition extractCertificateKey :: "string \<Rightarrow> panic + string" where
  "extractCertificateKey output = extractCertificateKeyLines (Split output [newline])"

section \<open>Cluster and host specifications\<close>

text \<open>A Go \<^verbatim>\<open>error\<close> value, by the text its \<^verbatim>\<open>Error()\<close> method returns.\<close>

datatype error = Error string

fun errorText :: "error \<Rightarrow> string" where
  "errorText (Error m) = m"

text \<open>An instant of \<^verbatim>\<open>time.Time\<close>, in nanoseconds.\<close>

type_synonym Time = int

record HostSpec =
  HostSpec_Hostname :: string
  HostSpec_Address :: string
  HostSpec_User :: string
  HostSpec_SSHKey :: string
  HostSpec_SSHKeyPath :: string
  HostSpec_Port :: int
  HostSpec_Role :: string
  HostSpec_Labels :: "string \<rightharpoonup> string"
  HostSpec_Taints :: "string list"

record ClusterSpec =
  ClusterSpec_Name :: string
  ClusterSpec_ControlPlanes :: "HostSpec list"
  ClusterSpec_Workers :: "HostSpec list"
  ClusterSpec_K8sVersion :: string
  ClusterSpec_PodNetworkCIDR :: string
  ClusterSpec_ServiceCIDR :: string
  ClusterSpec_CNI :: string
  ClusterSpec_ContainerRuntime :: string
  ClusterSpec_APIServerEndpoint :: string
  ClusterSpec_LoadBalancerIP :: string
  ClusterSpec_CertificateKey :: string

definition ErrInvalidSpec :: "string \<Rightarrow> error" where
  "ErrInvalidSpec m = Error (''invalid spec: '' @ m)"

text \<open>
  \<^verbatim>\<open>(*HostSpec).Validate\<close> changes the host it is called on and returns an error or nil:
  the model returns the error and the host as the call leaves it. When the key is
  missing, the user and the port have been defaulted already.
\<close>

definition HostSpec_Validate :: "HostSpec \<Rightarrow> error option \<times> HostSpec" where
  "HostSpec_Validate hs =
     (if HostSpec_Address hs = [] then (Some (ErrInvalidSpec ''host address is required''), hs)
      else
        let hs1 = (if HostSpec_User hs = [] then hs\<lparr>HostSpec_User := ''root''\<rparr> else hs);
            hs2 = (if HostSpec_Port hs1 = 0 then hs1\<lparr>HostSpec_Port := 22\<rparr> else hs1)
        in if HostSpec_SSHKey hs2 = [] \<and> HostSpec_SSHKeyPath hs2 = []
           then (Some (ErrInvalidSpec
                   (''SSH key or key path is required for host '' @ HostSpec_Address hs2)), hs2)
           else (None,
                 if HostSpec_Hostname hs2 = []
                 then hs2\<lparr>HostSpec_Hostname := HostSpec_Address hs2\<rparr> else hs2))"

text \<open>
  The loop \<^verbatim>\<open>for _, host := range append(cs.ControlPlanes, cs.Workers...)\<close> of
  \<^verbatim>\<open>(*ClusterSpec).Validate\<close>. The loop variable \<^verbatim>\<open>host\<close> is a copy of the slice
  element and \<^verbatim>\<open>host.Validate()\<close> works on that copy: only the error leaves the loop
  body, the defaulted copy is dropped.
\<close>

fun validateHosts :: "HostSpec list \<Rightarrow> error option" where
  "validateHosts [] = None"
| "validateHosts (host # rest) =
     (case fst (HostSpec_Validate host) of
        Some err \<Rightarrow> Some err
      | None \<Rightarrow> validateHosts rest)"

text \<open>
  \<^verbatim>\<open>(*ClusterSpec).Validate\<close>: the error (or nil) and the specification as the call
  leaves it.
\<close>

definition ClusterSpec_Validate :: "ClusterSpec \<Rightarrow> error option \<times> ClusterSpec" where
  "ClusterSpec_Validate cs =
     (if ClusterSpec_Name cs = [] then (Some (ErrInvalidSpec ''cluster name is required''), cs)
      else if length (ClusterSpec_ControlPlanes cs) = 0
      then (Some (ErrInvalidSpec ''at least one control plane is required''), cs)
      else
        let cs1 = (if ClusterSpec_K8sVersion cs = []
                   then cs\<lparr>ClusterSpec_K8sVersion := ''1.28.0''\<rparr> else cs);
            cs2 = (if ClusterSpec_PodNetworkCIDR cs1 = []
                   then cs1\<lparr>ClusterSpec_PodNetworkCIDR := ''10.244.0.0/16''\<rparr> else cs1);
            cs3 = (if ClusterSpec_ServiceCIDR cs2 = []
                   then cs2\<lparr>ClusterSpec_ServiceCIDR := ''10.96.0.0/12''\<rparr> else cs2);
            cs4 = (if ClusterSpec_CNI cs3 = []
                   then cs3\<lparr>ClusterSpec_CNI := ''calico''\<rparr> else cs3);
            cs5 = (if ClusterSpec_ContainerRuntime cs4 = []
                   then cs4\<lparr>ClusterSpec_ContainerRuntime := ''containerd''\<rparr> else cs4)
        in (validateHosts (ClusterSpec_ControlPlanes cs5 @ ClusterSpec_Workers cs5), cs5))"

text \<open>The specification a call of \<open>ClusterSpec_Validate\<close> leaves once both guards are passed.\<close>

definition withDefaults :: "ClusterSpec \<Rightarrow> ClusterSpec" where
  "withDefaults cs =
     cs\<lparr>ClusterSpec_K8sVersion :=
          (if ClusterSpec_K8sVersion cs = [] then ''1.28.0'' else ClusterSpec_K8sVersion cs),
        ClusterSpec_PodNetworkCIDR :=
          (if ClusterSpec_PodNetworkCIDR cs = [] then ''10.244.0.0/16''
           else ClusterSpec_PodNetworkCIDR cs),
        ClusterSpec_ServiceCIDR :=
          (if ClusterSpec_ServiceCIDR cs = [] then ''10.96.0.0/12''
           else ClusterSpec_ServiceCIDR cs),
        ClusterSpec_CNI := (if ClusterSpec_CNI cs = [] then ''calico'' else ClusterSpec_CNI cs),
        ClusterSpec_ContainerRuntime :=
          (if ClusterSpec_ContainerRuntime cs = [] then ''containerd''
           else ClusterSpec_ContainerRuntime cs)\<rparr>"

text \<open>Two specifications the properties below are tried on.\<close>

definition host_plain :: HostSpec where
  "host_plain = \<lparr>HostSpec_Hostname = [], HostSpec_Address = ''10.0.0.1'', HostSpec_User = [],
     HostSpec_SSHKey = [], HostSpec_SSHKeyPath = ''/k'', HostSpec_Port = 0,
     HostSpec_Role = [], HostSpec_Labels = Map.empty, HostSpec_Taints = []\<rparr>"

definition spec_plain :: ClusterSpec where
  "spec_plain = \<lparr>ClusterSpec_Name = ''c1'', ClusterSpec_ControlPlanes = [host_plain],
     ClusterSpec_Workers = [], ClusterSpec_K8sVersion = [], ClusterSpec_PodNetworkCIDR = [],
     ClusterSpec_ServiceCIDR = [], ClusterSpec_CNI = [], ClusterSpec_ContainerRuntime = [],
     ClusterSpec_APIServerEndpoint = [], ClusterSpec_LoadBalancerIP = [],
     ClusterSpec_CertificateKey = []\<rparr>"

definition spec_no_control_plane :: ClusterSpec where
  "spec_no_control_plane = spec_plain\<lparr>ClusterSpec_ControlPlanes := []\<rparr>"

text \<open>The same specification with a worker that has neither a key nor a key file.\<close>

definition spec_keyless_worker :: ClusterSpec where
  "spec_keyless_worker =
     spec_plain\<lparr>ClusterSpec_Workers :=
       [host_plain\<lparr>HostSpec_Address := ''10.0.0.2'', HostSpec_SSHKeyPath := []\<rparr>]\<rparr>"

section \<open>The repository records\<close>

record Node =
  Node_ID :: nat
  Node_ClusterID :: nat
  Node_Hostname :: string
  Node_Address :: string
  Node_User :: string
  Node_SSHKeyPath :: string
  Node_Port :: int
  Node_Role :: string
  Node_Status :: string
  Node_K8sVersion :: string
  Node_ContainerRuntime :: string
  Node_Labels :: string
  Node_Taints :: string
  Node_JoinedAt :: "Time option"
  Node_CreatedAt :: Time
  Node_UpdatedAt :: Time
  Node_DeletedAt :: "Time option"

record Event =
  Event_ID :: nat
  Event_ClusterID :: nat
  Event_Timestamp :: Time
  Event_Level :: string
  Event_Host :: string
  Event_Step :: string
  Event_Message :: string
  Event_Output :: string
  Event_CreatedAt :: Time

record Cluster =
  Cluster_ID :: nat
  Cluster_Name :: string
  Cluster_K8sVersion :: string
  Cluster_PodNetworkCIDR :: string
  Cluster_ServiceCIDR :: string
  Cluster_CNI :: string
  Cluster_ContainerRuntime :: string
  Cluster_APIServerEndpoint :: string
  Cluster_LoadBalancerIP :: string
  Cluster_Provider :: string
  Cluster_Status :: string
  Cluster_Kubeconfig :: "string option"
  Cluster_JoinCommand :: string
  Cluster_CertificateKey :: string
  Cluster_CreatedAt :: Time
  Cluster_UpdatedAt :: Time
  Cluster_DeletedAt :: "Time option"
  Cluster_Nodes :: "Node list"
  Cluster_Events :: "Event list"

record Job =
  Job_ID :: nat
  Job_ClusterID :: nat
  Job_Type :: string
  Job_Status :: string
  Job_Progress :: int
  Job_Error :: string
  Job_Metadata :: string
  Job_StartedAt :: "Time option"
  Job_FinishedAt :: "Time option"
  Job_CreatedAt :: Time
  Job_UpdatedAt :: Time

section \<open>The world outside the process\<close>

text \<open>
  Remote hosts, key files, the clock and the keys the database hands out are not part of
  the program. They are an oracle: each external interaction is answered by a function
  of the number of interactions made so far (\<open>tick\<close>) and of what is asked, so that the
  same question may get different answers at different moments. The loop of the
  WebSocket hub runs in a goroutine of its own; to a provisioning task it is part of the
  outside as well.
\<close>

record env =
  env_readFile :: "nat \<Rightarrow> string \<Rightarrow> error + string"
  env_parsePrivateKey :: "string \<Rightarrow> error option"
  env_dial :: "nat \<Rightarrow> string \<Rightarrow> string \<Rightarrow> string \<Rightarrow> error option"
  env_run :: "nat \<Rightarrow> HostSpec \<Rightarrow> string \<Rightarrow> string \<times> string \<times> error option"
  env_now :: "nat \<Rightarrow> Time"
  env_insert :: "nat \<Rightarrow> nat"
  env_hubReceives :: "nat option"

text \<open>
  \<open>env_readFile\<close> is \<^verbatim>\<open>os.ReadFile\<close>, \<open>env_parsePrivateKey\<close> is \<^verbatim>\<open>ssh.ParsePrivateKey\<close>
  (only its error matters), \<open>env_dial\<close> is \<^verbatim>\<open>ssh.Dial\<close> on an address for a user and a
  key, \<open>env_run\<close> is one command run to its end in a session on a host (standard output,
  standard error, error), \<open>env_now\<close> is \<^verbatim>\<open>time.Now\<close> and \<open>env_insert\<close> is the primary key
  the database gives an inserted row. \<open>env_hubReceives\<close> is the number of messages the
  hub's loop receives from its broadcast channel before it stops receiving (after a
  failed write to a connection the loop blocks for ever in a send to itself); \<open>None\<close>
  when it never stops.
\<close>

record ProvisionEvent =
  ProvisionEvent_Timestamp :: Time
  ProvisionEvent_Level :: string
  ProvisionEvent_Host :: string
  ProvisionEvent_Step :: string
  ProvisionEvent_Message :: string
  ProvisionEvent_Output :: string

record NodeInfo =
  NodeInfo_Hostname :: string
  NodeInfo_Address :: string
  NodeInfo_Role :: string
  NodeInfo_Status :: string
  NodeInfo_K8sVersion :: string
  NodeInfo_ContainerRuntime :: string
  NodeInfo_JoinedAt :: Time

record ProvisionResult =
  ProvisionResult_Kubeconfig :: "string option"
  ProvisionResult_JoinCommand :: string
  ProvisionResult_JoinToken :: string
  ProvisionResult_CertificateKey :: string
  ProvisionResult_Nodes :: "NodeInfo list"
  ProvisionResult_Events :: "ProvisionEvent list"
  ProvisionResult_Metadata :: "string \<rightharpoonup> string"
  ProvisionResult_Error :: "error option"

text \<open>
  What the process does to the outside, as far as the properties speak of it: a call of
  \<^verbatim>\<open>NewSSHClient\<close> for a host, a command run on a host, an event inserted in the table
  \<^verbatim>\<open>events\<close>, a value written to the status of the cluster.
\<close>

datatype action =
    Connect HostSpec
  | Command HostSpec string
  | Insert Event
  | Update string

text \<open>
  What the functions of package \<^verbatim>\<open>provision\<close> change: the count of external
  interactions and the events handed to the provisioner's callback. \<open>trace\<close> is a history
  variable: the actions of the process so far, in order.
\<close>

record pstate =
  tick :: nat
  emitted :: "ProvisionEvent list"
  trace :: "action list"

text \<open>
  \<^verbatim>\<open>KubeadmProvisioner\<close> has one field, the callback. What the callback does with an
  event is its own business; the model records whether there is one and which events it
  is called with.
\<close>

record KubeadmProvisioner =
  eventCallback_set :: bool

definition NewKubeadmProvisioner :: KubeadmProvisioner where
  "NewKubeadmProvisioner = \<lparr>eventCallback_set = False\<rparr>"

definition NewProvisionEvent :: "Time \<Rightarrow> string \<Rightarrow> string \<Rightarrow> string \<Rightarrow> string \<Rightarrow> ProvisionEvent" where
  "NewProvisionEvent t level host step message =
     \<lparr>ProvisionEvent_Timestamp = t, ProvisionEvent_Level = level, ProvisionEvent_Host = host,
      ProvisionEvent_Step = step, ProvisionEvent_Message = message, ProvisionEvent_Output = []\<rparr>"

definition emitEvent ::
  "env \<Rightarrow> KubeadmProvisioner \<Rightarrow> string \<Rightarrow> string \<Rightarrow> string \<Rightarrow> string \<Rightarrow> pstate \<Rightarrow> pstate" where
  "emitEvent env p level host step message st =
     (if eventCallback_set p
      then st\<lparr>tick := Suc (tick st),
              emitted := emitted st @ [NewProvisionEvent (env_now env (tick st)) level host step message]\<rparr>
      else st)"

subsection \<open>The SSH client\<close>

fun digitChar :: "nat \<Rightarrow> char" where
  "digitChar n = ''0123456789'' ! n"

function natDigits :: "nat \<Rightarrow> string" where
  "natDigits n = (if n < 10 then [digitChar n] else natDigits (n div 10) @ [digitChar (n mod 10)])"
  by pat_completeness auto
termination
  by (relation "measure id") auto

declare natDigits.simps [simp del]

text \<open>The verb \<^verbatim>\<open>%d\<close> of \<^verbatim>\<open>fmt.Sprintf\<close> on an \<^verbatim>\<open>int\<close>.\<close>

definition Itoa :: "int \<Rightarrow> string" where
  "Itoa i = (if i < 0 then CHR ''-'' # natDigits (nat (- i)) else natDigits (nat i))"

record SSHClient =
  SSHClient_host :: HostSpec

text \<open>The second half of \<^verbatim>\<open>NewSSHClient\<close>, once the key bytes are there: parse and dial.\<close>

definition NewSSHClient_dial :: "env \<Rightarrow> HostSpec \<Rightarrow> string \<Rightarrow> pstate \<Rightarrow> (error + SSHClient) \<times> pstate" where
  "NewSSHClient_dial env host key st =
     (case env_parsePrivateKey env key of
        Some err \<Rightarrow> (Inl (Error (''failed to parse SSH key: '' @ errorText err)), st)
      | None \<Rightarrow>
          (let addr = HostSpec_Address host @ '':'' @ Itoa (HostSpec_Port host) in
           case env_dial env (tick st) addr (HostSpec_User host) key of
             Some err \<Rightarrow>
               (Inl (Error (''failed to connect to '' @ addr @ '': '' @ errorText err)),
                st\<lparr>tick := Suc (tick st)\<rparr>)
           | None \<Rightarrow> (Inr \<lparr>SSHClient_host = host\<rparr>, st\<lparr>tick := Suc (tick st)\<rparr>)))"

definition NewSSHClient :: "env \<Rightarrow> HostSpec \<Rightarrow> pstate \<Rightarrow> (error + SSHClient) \<times> pstate" where
  "NewSSHClient env host st0 =
     (let st = st0\<lparr>trace := trace st0 @ [Connect host]\<rparr> in
      if HostSpec_SSHKey host \<noteq> [] then NewSSHClient_dial env host (HostSpec_SSHKey host) st
      else if HostSpec_SSHKeyPath host \<noteq> []
      then (case env_readFile env (tick st) (HostSpec_SSHKeyPath host) of
              Inl err \<Rightarrow>
                (Inl (Error (''failed to read SSH key from '' @ HostSpec_SSHKeyPath host @ '': ''
                        @ errorText err)),
                 st\<lparr>tick := Suc (tick st)\<rparr>)
            | Inr key \<Rightarrow> NewSSHClient_dial env host key (st\<lparr>tick := Suc (tick st)\<rparr>))
      else (Inl (Error (''no SSH key provided for host '' @ HostSpec_Address host)), st))"

text \<open>
  \<^verbatim>\<open>RunCommand\<close> with a context that is never cancelled (the orchestrator passes
  \<^verbatim>\<open>context.Background()\<close>): standard output, standard error and the error of the run.
\<close>

definition RunCommand ::
  "env \<Rightarrow> SSHClient \<Rightarrow> string \<Rightarrow> pstate \<Rightarrow> (string \<times> string \<times> error option) \<times> pstate" where
  "RunCommand env client command st =
     (env_run env (tick st) (SSHClient_host client) command,
      st\<lparr>tick := Suc (tick st), trace := trace st @ [Command (SSHClient_host client) command]\<rparr>)"

definition TestConnection :: "env \<Rightarrow> SSHClient \<Rightarrow> pstate \<Rightarrow> error option \<times> pstate" where
  "TestConnection env client st =
     (case RunCommand env client (''echo '' @ [CHR 0x27] @ ''test'' @ [CHR 0x27]) st of
        ((out, serr, err), st1) \<Rightarrow> (err, st1))"

definition osReleaseCommand :: string where
  \<open>osReleaseCommand =
     ''cat /etc/os-release | grep PRETTY_NAME | cut -d'' @ [CHR 0x27] @ ''='' @ [CHR 0x27] @
     '' -f2 | tr -d '' @ [CHR 0x27] @ ''"'' @ [CHR 0x27]\<close>

definition GetHostInfo :: "env \<Rightarrow> SSHClient \<Rightarrow> pstate \<Rightarrow> (string \<rightharpoonup> string) \<times> pstate" where
  "GetHostInfo env client st =
     (case RunCommand env client ''hostname'' st of ((out1, serr1, err1), st1) \<Rightarrow>
      case RunCommand env client osReleaseCommand st1 of ((out2, serr2, err2), st2) \<Rightarrow>
      case RunCommand env client ''uname -r'' st2 of ((out3, serr3, err3), st3) \<Rightarrow>
      case RunCommand env client ''swapon --show'' st3 of ((out4, serr4, err4), st4) \<Rightarrow>
        (let info1 = (if err1 = None then Map.empty(''hostname'' \<mapsto> out1) else Map.empty);
             info2 = (if err2 = None then info1(''os'' \<mapsto> out2) else info1);
             info3 = (if err3 = None then info2(''kernel'' \<mapsto> out3) else info2)
         in (if err4 = None \<and> out4 \<noteq> []
             then info3(''swap_enabled'' \<mapsto> ''true'')
             else info3(''swap_enabled'' \<mapsto> ''false''), st4)))"

text \<open>Reading a Go map of strings: a missing key reads as the empty string.\<close>

definition mapIndex :: "(string \<rightharpoonup> string) \<Rightarrow> string \<Rightarrow> string" where
  "mapIndex m k = (case m k of None \<Rightarrow> [] | Some v \<Rightarrow> v)"

section \<open>The kubeadm provisioner\<close>

text \<open>\<^verbatim>\<open>fmt.Errorf(prefix + "%w", err)\<close>: an error whose text ends with the text of \<open>err\<close>.\<close>

definition wrapError :: "string \<Rightarrow> error \<Rightarrow> error" where
  "wrapError pre err = Error (pre @ errorText err)"

text \<open>The shell scripts of \<^verbatim>\<open>prepareHost\<close>, \<^verbatim>\<open>installContainerd\<close> and \<^verbatim>\<open>installKubernetesTools\<close>.\<close>

definition swapoffCommand :: string where
  \<open>swapoffCommand =
     ''swapoff -a && sed -i '' @ [CHR 0x27] @ ''/ swap / s/^/#/'' @ [CHR 0x27] @ '' /etc/fstab''\<close>

definition loadModulesScript :: string where
  \<open>loadModulesScript =
     [newline] @ ''cat <<EOF | tee /etc/modules-load.d/k8s.conf'' @ [newline] @ ''overlay'' @
     [newline] @ ''br_netfilter'' @ [newline] @ ''EOF'' @ [newline] @ ''modprobe overlay'' @
     [newline] @ ''modprobe br_netfilter'' @ [newline]\<close>

definition sysctlScript :: string where
  \<open>sysctlScript =
     [newline] @ ''cat <<EOF | tee /etc/sysctl.d/k8s.conf'' @ [newline] @
     ''net.bridge.bridge-nf-call-iptables  = 1'' @ [newline] @
     ''net.bridge.bridge-nf-call-ip6tables = 1'' @ [newline] @
     ''net.ipv4.ip_forward                 = 1'' @ [newline] @ ''EOF'' @ [newline] @
     ''sysctl --system'' @ [newline]\<close>

definition containerdScript :: string where
  \<open>containerdScript =
     [newline] @ ''# Install dependencies'' @ [newline] @ ''apt-get update'' @ [newline] @
     ''apt-get install -y apt-transport-https ca-certificates curl gnupg lsb-re'' @
     ''lease'' @ [newline, newline] @ ''# Add Docker'' @ [CHR 0x27] @
     ''s official GPG key'' @ [newline] @ ''mkdir -p /etc/apt/keyrings'' @ [newline] @
     ''curl -fsSL https://download.docker.com/linux/ubuntu/gpg | gpg --dearmor '' @
     ''-o /etc/apt/keyrings/docker.gpg'' @ [newline, newline] @ ''# Set up the repository'' @
     [newline] @
     ''echo "deb [arch=$(dpkg --print-architecture) signed-by=/etc/apt/keyrings'' @
     ''/docker.gpg] https://download.docker.com/linux/ubuntu $(lsb_release -cs)'' @
     '' stable" | tee /etc/apt/sources.list.d/docker.list > /dev/null'' @
     [newline, newline] @ ''# Install containerd'' @ [newline] @ ''apt-get update'' @
     [newline] @ ''apt-get install -y containerd.io'' @ [newline, newline] @
     ''# Configure containerd'' @ [newline] @ ''mkdir -p /etc/containerd'' @ [newline] @
     ''containerd config default | tee /etc/containerd/config.toml'' @ [newline] @
     ''sed -i '' @ [CHR 0x27] @ ''s/SystemdCgroup = false/SystemdCgroup = true/g'' @
     [CHR 0x27] @ '' /etc/containerd/config.toml'' @ [newline, newline] @
     ''# Restart containerd'' @ [newline] @ ''systemctl restart containerd'' @ [newline] @
     ''systemctl enable containerd'' @ [newline]\<close>

definition k8sToolsScript :: "string \<Rightarrow> string" where
  \<open>k8sToolsScript majorMinor =
     [newline] @ ''# Add Kubernetes apt repository'' @ [newline] @ ''apt-get update'' @
     [newline] @ ''apt-get install -y apt-transport-https ca-certificates curl gpg'' @
     [newline, newline] @ ''mkdir -p /etc/apt/keyrings'' @ [newline] @
     ''curl -fsSL https://pkgs.k8s.io/core:/stable:/v'' @ majorMinor @
     ''/deb/Release.key | gpg --dearmor -o /etc/apt/keyrings/kubernetes-apt-key'' @
     ''ring.gpg'' @ [newline, newline] @
     ''echo "deb [signed-by=/etc/apt/keyrings/kubernetes-apt-keyring.gpg] https'' @
     ''://pkgs.k8s.io/core:/stable:/v'' @ majorMinor @
     ''/deb/ /" | tee /etc/apt/sources.list.d/kubernetes.list'' @ [newline, newline] @
     ''# Install kubelet, kubeadm, kubectl'' @ [newline] @ ''apt-get update'' @ [newline] @
     ''apt-get install -y kubelet kubeadm kubectl'' @ [newline] @
     ''apt-mark hold kubelet kubeadm kubectl'' @ [newline, newline] @ ''# Enable kubelet'' @
     [newline] @ ''systemctl enable kubelet'' @ [newline]\<close>

definition installContainerd ::
  "env \<Rightarrow> KubeadmProvisioner \<Rightarrow> SSHClient \<Rightarrow> HostSpec \<Rightarrow> pstate \<Rightarrow> error option \<times> pstate" where
  "installContainerd env p client host st =
     (case RunCommand env client containerdScript st of
        ((out, serr, Some err), st1) \<Rightarrow>
          (Some (Error (''containerd installation failed: '' @ serr @ '': '' @ errorText err)), st1)
      | ((out, serr, None), st1) \<Rightarrow>
          (None, emitEvent env p ''info'' (HostSpec_Address host) ''install-runtime''
                   ''Containerd installed successfully'' st1))"

definition installCRIO ::
  "env \<Rightarrow> KubeadmProvisioner \<Rightarrow> SSHClient \<Rightarrow> HostSpec \<Rightarrow> pstate \<Rightarrow> error option \<times> pstate" where
  "installCRIO env p client host st = (Some (Error ''CRI-O installation not yet implemented''), st)"

definition installContainerRuntime ::
  "env \<Rightarrow> KubeadmProvisioner \<Rightarrow> SSHClient \<Rightarrow> HostSpec \<Rightarrow> string \<Rightarrow> pstate \<Rightarrow> error option \<times> pstate" where
  "installContainerRuntime env p client host runtime st =
     (let st1 = emitEvent env p ''info'' (HostSpec_Address host) ''install-runtime''
                  (''Installing '' @ runtime) st in
      if runtime = ''containerd'' then installContainerd env p client host st1
      else if runtime = ''cri-o'' then installCRIO env p client host st1
      else (Some (Error (''unsupported runtime: '' @ runtime)), st1))"

definition installKubernetesTools ::
  "env \<Rightarrow> KubeadmProvisioner \<Rightarrow> SSHClient \<Rightarrow> HostSpec \<Rightarrow> string \<Rightarrow> pstate \<Rightarrow> error option \<times> pstate" where
  "installKubernetesTools env p client host k8sVersion st =
     (let st1 = emitEvent env p ''info'' (HostSpec_Address host) ''install-k8s''
                  (''Installing Kubernetes '' @ k8sVersion @ '' tools'') st;
          versionParts = Split k8sVersion ''.''
      in if length versionParts < 2
         then (Some (Error (''invalid k8s version format: '' @ k8sVersion)), st1)
         else
           (case RunCommand env client
                   (k8sToolsScript (versionParts ! 0 @ ''.'' @ versionParts ! 1)) st1 of
              ((out, serr, Some err), st2) \<Rightarrow>
                (Some (Error (''kubernetes tools installation failed: '' @ serr @ '': ''
                         @ errorText err)), st2)
            | ((out, serr, None), st2) \<Rightarrow>
                (None, emitEvent env p ''info'' (HostSpec_Address host) ''install-k8s''
                         ''Kubernetes tools installed successfully'' st2)))"

text \<open>The swap step of \<^verbatim>\<open>prepareHost\<close>: nothing is run unless the host reports active swap.\<close>

definition disableSwap ::
  "env \<Rightarrow> KubeadmProvisioner \<Rightarrow> SSHClient \<Rightarrow> HostSpec \<Rightarrow> (string \<rightharpoonup> string) \<Rightarrow> pstate
   \<Rightarrow> error option \<times> pstate" where
  "disableSwap env p client host info st =
     (if mapIndex info ''swap_enabled'' = ''true''
      then (case RunCommand env client swapoffCommand
                   (emitEvent env p ''info'' (HostSpec_Address host) ''prepare'' ''Disabling swap'' st) of
              ((out, serr, err), st1) \<Rightarrow> (err, st1))
      else (None, st))"

definition prepareHost ::
  "env \<Rightarrow> KubeadmProvisioner \<Rightarrow> HostSpec \<Rightarrow> string \<Rightarrow> string \<Rightarrow> pstate \<Rightarrow> error option \<times> pstate" where
  "prepareHost env p host runtime k8sVersion st =
     (case NewSSHClient env host st of
        (Inl err, st1) \<Rightarrow> (Some (wrapError ''failed to connect: '' err), st1)
      | (Inr client, st1) \<Rightarrow>
     (case TestConnection env client
             (emitEvent env p ''info'' (HostSpec_Address host) ''prepare'' ''Connected to host'' st1) of
        (Some err, st2) \<Rightarrow> (Some (wrapError ''connection test failed: '' err), st2)
      | (None, st2) \<Rightarrow>
     (case GetHostInfo env client st2 of (info, st3) \<Rightarrow>
     (case disableSwap env p client host info st3 of
        (Some err, st4) \<Rightarrow> (Some (wrapError ''failed to disable swap: '' err), st4)
      | (None, st4) \<Rightarrow>
     (case RunCommand env client loadModulesScript
             (emitEvent env p ''info'' (HostSpec_Address host) ''prepare'' ''Loading kernel modules'' st4) of
        ((out5, serr5, Some err), st5) \<Rightarrow>
          (Some (wrapError ''failed to load kernel modules: '' err), st5)
      | ((out5, serr5, None), st5) \<Rightarrow>
     (case RunCommand env client sysctlScript
             (emitEvent env p ''info'' (HostSpec_Address host) ''prepare''
                ''Configuring sysctl parameters'' st5) of
        ((out6, serr6, Some err), st6) \<Rightarrow> (Some (wrapError ''failed to configure sysctl: '' err), st6)
      | ((out6, serr6, None), st6) \<Rightarrow>
     (case installContainerRuntime env p client host runtime st6 of
        (Some err, st7) \<Rightarrow> (Some (wrapError ''failed to install container runtime: '' err), st7)
      | (None, st7) \<Rightarrow>
     (case installKubernetesTools env p client host k8sVersion st7 of
        (Some err, st8) \<Rightarrow> (Some (wrapError ''failed to install kubernetes tools: '' err), st8)
      | (None, st8) \<Rightarrow>
          (None, emitEvent env p ''info'' (HostSpec_Address host) ''prepare''
                   ''Host prepared successfully'' st8)))))))))"

fun PrepareHosts ::
  "env \<Rightarrow> KubeadmProvisioner \<Rightarrow> HostSpec list \<Rightarrow> string \<Rightarrow> string \<Rightarrow> pstate \<Rightarrow> error option \<times> pstate" where
  "PrepareHosts env p [] runtime k8sVersion st = (None, st)"
| "PrepareHosts env p (host # hosts) runtime k8sVersion st =
     (case prepareHost env p host runtime k8sVersion st of
        (Some err, st1) \<Rightarrow>
          (Some (wrapError (''failed to prepare host '' @ HostSpec_Address host @ '': '') err), st1)
      | (None, st1) \<Rightarrow> PrepareHosts env p hosts runtime k8sVersion st1)"

definition AddEvent ::
  "Time \<Rightarrow> string \<Rightarrow> string \<Rightarrow> string \<Rightarrow> string \<Rightarrow> ProvisionResult \<Rightarrow> ProvisionResult" where
  "AddEvent t level host step message pr =
     pr\<lparr>ProvisionResult_Events :=
          ProvisionResult_Events pr @ [NewProvisionEvent t level host step message]\<rparr>"

definition kubeadmInitCommand :: "ClusterSpec \<Rightarrow> string" where
  "kubeadmInitCommand spec =
     ''kubeadm init --pod-network-cidr='' @ ClusterSpec_PodNetworkCIDR spec @
     '' --kubernetes-version='' @ ClusterSpec_K8sVersion spec @
     (if ClusterSpec_APIServerEndpoint spec \<noteq> []
      then '' --control-plane-endpoint='' @ ClusterSpec_APIServerEndpoint spec else []) @
     '' --upload-certs''"

definition copyKubeconfigCommand :: string where
  "copyKubeconfigCommand =
     ''mkdir -p $HOME/.kube && cp -i /etc/kubernetes/admin.conf $HOME/.kube/config && '' @
     ''chown $(id -u):$(id -g) $HOME/.kube/config''"

definition emptyResult :: ProvisionResult where
  "emptyResult =
     \<lparr>ProvisionResult_Kubeconfig = None, ProvisionResult_JoinCommand = [],
      ProvisionResult_JoinToken = [], ProvisionResult_CertificateKey = [],
      ProvisionResult_Nodes = [], ProvisionResult_Events = [],
      ProvisionResult_Metadata = Map.empty, ProvisionResult_Error = None\<rparr>"

text \<open>
  The part of \<^verbatim>\<open>BootstrapControlPlane\<close> after \<^verbatim>\<open>kubeadm init\<close> has succeeded with the
  output \<open>out\<close>: the join artifacts are extracted (where the certificate-key extractor
  may panic) and the admin credentials are fetched.
\<close>

definition bootstrapArtifacts ::
  "env \<Rightarrow> KubeadmProvisioner \<Rightarrow> SSHClient \<Rightarrow> HostSpec \<Rightarrow> ClusterSpec \<Rightarrow> string \<Rightarrow> pstate
   \<Rightarrow> (panic + ProvisionResult option \<times> error option) \<times> pstate" where
  "bootstrapArtifacts env p client host spec out st4 =
     (let result1 = AddEvent (env_now env (tick st4)) ''info'' (HostSpec_Address host) ''bootstrap''
                      ''kubeadm init completed'' emptyResult;
          st5 = st4\<lparr>tick := Suc (tick st4)\<rparr>;
          result2 = result1\<lparr>ProvisionResult_JoinCommand := extractJoinCommand out\<rparr>
      in case extractCertificateKey out of
           Inl pan \<Rightarrow> (Inl pan, st5)
         | Inr key \<Rightarrow>
     (let result3 = result2\<lparr>ProvisionResult_CertificateKey := key\<rparr> in
      case RunCommand env client copyKubeconfigCommand
             (emitEvent env p ''info'' (HostSpec_Address host) ''bootstrap'' ''Retrieving kubeconfig'' st5) of
        ((out6, serr6, Some err), st6) \<Rightarrow>
          (Inr (Some result3, Some (wrapError ''failed to setup kubeconfig: '' err)), st6)
      | ((out6, serr6, None), st6) \<Rightarrow>
     (case RunCommand env client ''cat /etc/kubernetes/admin.conf'' st6 of
        ((kubeconfigContent, serr7, Some err), st7) \<Rightarrow>
          (Inr (Some result3, Some (wrapError ''failed to retrieve kubeconfig: '' err)), st7)
      | ((kubeconfigContent, serr7, None), st7) \<Rightarrow>
     (let st8 = emitEvent env p ''info'' (HostSpec_Address host) ''bootstrap''
                  ''Control plane bootstrapped successfully'' st7;
          result4 = result3\<lparr>ProvisionResult_Kubeconfig := Some kubeconfigContent\<rparr>
      in (Inr (Some (result4\<lparr>ProvisionResult_Nodes := ProvisionResult_Nodes result4 @
                 [\<lparr>NodeInfo_Hostname = HostSpec_Hostname host,
                   NodeInfo_Address = HostSpec_Address host,
                   NodeInfo_Role = ''control-plane'', NodeInfo_Status = ''ready'',
                   NodeInfo_K8sVersion = ClusterSpec_K8sVersion spec,
                   NodeInfo_ContainerRuntime = [],
                   NodeInfo_JoinedAt = env_now env (tick st8)\<rparr>]\<rparr>), None),
          st8\<lparr>tick := Suc (tick st8)\<rparr>)))))"

text \<open>
  \<^verbatim>\<open>BootstrapControlPlane\<close> returns a result (nil when the connection fails) and an error,
  or panics.
\<close>

definition BootstrapControlPlane ::
  "env \<Rightarrow> KubeadmProvisioner \<Rightarrow> HostSpec \<Rightarrow> ClusterSpec \<Rightarrow> pstate
   \<Rightarrow> (panic + ProvisionResult option \<times> error option) \<times> pstate" where
  "BootstrapControlPlane env p host spec st =
     (case NewSSHClient env host st of
        (Inl err, st1) \<Rightarrow> (Inr (None, Some (wrapError ''failed to connect: '' err)), st1)
      | (Inr client, st1) \<Rightarrow>
     (case RunCommand env client (kubeadmInitCommand spec)
             (emitEvent env p ''info'' (HostSpec_Address host) ''bootstrap''
                ''Running kubeadm init (this may take a few minutes)''
                (emitEvent env p ''info'' (HostSpec_Address host) ''bootstrap''
                   ''Initializing control plane'' st1)) of
        ((out, serr, Some err), st4) \<Rightarrow>
          (Inr (Some (AddEvent (env_now env (tick st4)) ''error'' (HostSpec_Address host) ''bootstrap''
                        (''kubeadm init failed: '' @ serr) emptyResult),
                Some (wrapError ''kubeadm init failed: '' err)),
           st4\<lparr>tick := Suc (tick st4)\<rparr>)
      | ((out, serr, None), st4) \<Rightarrow> bootstrapArtifacts env p client host spec out st4))"

text \<open>The \<^verbatim>\<open>switch\<close> of \<^verbatim>\<open>InstallCNI\<close>: the manifest of a plugin, or the error returned.\<close>

definition cniManifest :: "string \<Rightarrow> error + string" where
  "cniManifest cni =
     (if cni = ''calico''
      then Inr (''https://raw.githubusercontent.com/projectcalico/calico/v3.26.1/'' @
                ''manifests/calico.yaml'')
      else if cni = ''flannel''
      then Inr ''https://github.com/flannel-io/flannel/releases/latest/download/kube-flannel.yml''
      else if cni = ''weave''
      then Inr (''https://github.com/weaveworks/weave/releases/download/v2.8.1/'' @
                ''weave-daemonset-k8s.yaml'')
      else if cni = ''cilium''
      then Inl (Error ''cilium installation requires Helm or CLI, not yet implemented'')
      else Inl (Error (''unsupported CNI: '' @ cni)))"

definition cniWaitCommand :: string where
  "cniWaitCommand = ''kubectl wait --for=condition=Ready pods --all -n kube-system --timeout=300s''"

definition InstallCNI ::
  "env \<Rightarrow> KubeadmProvisioner \<Rightarrow> string option \<Rightarrow> string \<Rightarrow> HostSpec \<Rightarrow> pstate \<Rightarrow> error option \<times> pstate" where
  "InstallCNI env p kubeconfig cni controlPlane st =
     (let st1 = emitEvent env p ''info'' (HostSpec_Address controlPlane) ''install-cni''
                  (''Installing '' @ cni @ '' CNI'') st in
      case cniManifest cni of
        Inl err \<Rightarrow> (Some err, st1)
      | Inr manifest \<Rightarrow>
     (case NewSSHClient env controlPlane st1 of
        (Inl err, st2) \<Rightarrow> (Some (wrapError ''failed to connect to control plane: '' err), st2)
      | (Inr client, st2) \<Rightarrow>
     (case RunCommand env client (''kubectl apply -f '' @ manifest) st2 of
        ((out, serr, Some err), st3) \<Rightarrow>
          (Some (Error (''failed to apply CNI manifest: '' @ serr @ '': '' @ errorText err)),
           emitEvent env p ''error'' (HostSpec_Address controlPlane) ''install-cni''
             (''Failed to apply CNI: '' @ serr) st3)
      | ((out, serr, None), st3) \<Rightarrow>
     (case RunCommand env client cniWaitCommand
             (emitEvent env p ''info'' (HostSpec_Address controlPlane) ''install-cni''
                (''CNI applied successfully: '' @ out) st3) of
        ((out5, serr5, Some err), st5) \<Rightarrow>
          (None, emitEvent env p ''warn'' (HostSpec_Address controlPlane) ''install-cni''
                   ''CNI pods may not be fully ready yet'' st5)
      | ((out5, serr5, None), st5) \<Rightarrow>
          (None, emitEvent env p ''info'' (HostSpec_Address controlPlane) ''install-cni''
                   ''CNI pods are ready'' st5)))))"

definition JoinControlPlane ::
  "env \<Rightarrow> KubeadmProvisioner \<Rightarrow> HostSpec \<Rightarrow> string \<Rightarrow> string \<Rightarrow> pstate \<Rightarrow> error option \<times> pstate" where
  "JoinControlPlane env p host joinCommand certificateKey st =
     (case NewSSHClient env host st of
        (Inl err, st1) \<Rightarrow> (Some (wrapError ''failed to connect: '' err), st1)
      | (Inr client, st1) \<Rightarrow>
     (case RunCommand env client
             (joinCommand @ '' --control-plane --certificate-key '' @ certificateKey)
             (emitEvent env p ''info'' (HostSpec_Address host) ''join-cp'' ''Joining control plane'' st1) of
        ((out, serr, Some err), st2) \<Rightarrow>
          (Some (Error (''failed to join control plane: '' @ serr @ '': '' @ errorText err)), st2)
      | ((out, serr, None), st2) \<Rightarrow>
          (None, emitEvent env p ''info'' (HostSpec_Address host) ''join-cp''
                   ''Control plane joined successfully'' st2)))"

definition JoinWorker ::
  "env \<Rightarrow> KubeadmProvisioner \<Rightarrow> HostSpec \<Rightarrow> string \<Rightarrow> pstate \<Rightarrow> error option \<times> pstate" where
  "JoinWorker env p host joinCommand st =
     (case NewSSHClient env host st of
        (Inl err, st1) \<Rightarrow> (Some (wrapError ''failed to connect: '' err), st1)
      | (Inr client, st1) \<Rightarrow>
     (case RunCommand env client joinCommand
             (emitEvent env p ''info'' (HostSpec_Address host) ''join-worker'' ''Joining worker node'' st1) of
        ((out, serr, Some err), st2) \<Rightarrow>
          (Some (Error (''failed to join worker: '' @ serr @ '': '' @ errorText err)), st2)
      | ((out, serr, None), st2) \<Rightarrow>
          (None, emitEvent env p ''info'' (HostSpec_Address host) ''join-worker''
                   ''Worker node joined successfully'' st2)))"

text \<open>
  The registry of provisioners after the package's \<^verbatim>\<open>init\<close> has run: the one entry is
  \<^verbatim>\<open>kubeadm\<close>.
\<close>

definition ErrProvisionerNotFound :: error where
  "ErrProvisionerNotFound = Error ''provisioner not found''"

definition GetProvisioner :: "string \<Rightarrow> error + KubeadmProvisioner" where
  "GetProvisioner name =
     (if name = ''kubeadm'' then Inr NewKubeadmProvisioner
      else Inl (Error (errorText ErrProvisionerNotFound @ '': '' @ name)))"

definition ValidateSpec :: "KubeadmProvisioner \<Rightarrow> ClusterSpec \<Rightarrow> error option \<times> ClusterSpec" where
  "ValidateSpec p spec = ClusterSpec_Validate spec"

section \<open>The orchestrator\<close>

record CreateClusterRequest =
  Request_Name :: string
  Request_K8sVersion :: string
  Request_PodNetworkCIDR :: string
  Request_ServiceCIDR :: string
  Request_CNI :: string
  Request_ContainerRuntime :: string
  Request_APIServerEndpoint :: string
  Request_ControlPlanes :: "HostSpec list"
  Request_Workers :: "HostSpec list"

text \<open>
  What a provisioning task works on: the state of package \<^verbatim>\<open>provision\<close>, the row of the
  cluster with the task's id in table \<^verbatim>\<open>clusters\<close>, the job row \<^verbatim>\<open>CreateCluster\<close>
  inserted for it, the rows of table \<^verbatim>\<open>events\<close> in insertion order and the messages
  sent on the hub's broadcast channel so far, in order. \<open>statusWrites\<close> is a history
  variable: the values written to the column \<^verbatim>\<open>status\<close> of the cluster, in order.
  \<open>parked\<close> tells that the task is blocked for ever in a send on the broadcast channel:
  it never runs its next statement.
\<close>

record sys =
  pst :: pstate
  db_cluster :: Cluster
  db_job :: Job
  db_events :: "Event list"
  hub_broadcasts :: "(nat \<times> Event) list"
  statusWrites :: "string list"
  parked :: bool

text \<open>
  The job row of \<^verbatim>\<open>CreateCluster\<close>, inserted before the task is started: \<open>i\<close> is the key
  the database assigns, \<open>t1\<close> and \<open>t2\<close> are the two readings of the clock.
\<close>

definition newProvisionJob :: "nat \<Rightarrow> nat \<Rightarrow> Time \<Rightarrow> Time \<Rightarrow> Job" where
  "newProvisionJob i clusterID t1 t2 =
     \<lparr>Job_ID = i, Job_ClusterID = clusterID, Job_Type = ''provision'', Job_Status = ''pending'',
      Job_Progress = 0, Job_Error = [], Job_Metadata = [], Job_StartedAt = None,
      Job_FinishedAt = None, Job_CreatedAt = t1, Job_UpdatedAt = t2\<rparr>"

text \<open>
  \<^verbatim>\<open>db.DB.Model(&db.Cluster{}).Where("id = ?", clusterID).Update("status", v)\<close>: the
  status of the row is set, and the update stamps the row's \<^verbatim>\<open>updated_at\<close>.
\<close>

definition updateStatus :: "env \<Rightarrow> nat \<Rightarrow> string \<Rightarrow> sys \<Rightarrow> sys" where
  "updateStatus env clusterID v s =
     s\<lparr>pst := (pst s)\<lparr>tick := Suc (tick (pst s)), trace := trace (pst s) @ [Update v]\<rparr>,
       db_cluster := (db_cluster s)\<lparr>Cluster_Status := v,
                                    Cluster_UpdatedAt := env_now env (tick (pst s))\<rparr>,
       statusWrites := statusWrites s @ [v]\<rparr>"

text \<open>The \<^verbatim>\<open>Updates\<close> call that stores the artifacts of the bootstrap.\<close>

definition saveArtifacts :: "env \<Rightarrow> nat \<Rightarrow> ProvisionResult \<Rightarrow> sys \<Rightarrow> sys" where
  "saveArtifacts env clusterID result s =
     s\<lparr>pst := (pst s)\<lparr>tick := Suc (tick (pst s))\<rparr>,
       db_cluster := (db_cluster s)\<lparr>Cluster_Kubeconfig := ProvisionResult_Kubeconfig result,
                                    Cluster_JoinCommand := ProvisionResult_JoinCommand result,
                                    Cluster_CertificateKey := ProvisionResult_CertificateKey result,
                                    Cluster_UpdatedAt := env_now env (tick (pst s))\<rparr>\<rparr>"

text \<open>
  The event \<^verbatim>\<open>logEvent\<close> builds and inserts when \<open>n\<close> interactions have been made: two
  readings of the clock, then the insertion, where the database assigns the key.
\<close>

definition eventAt :: "env \<Rightarrow> nat \<Rightarrow> nat \<Rightarrow> string \<Rightarrow> string \<Rightarrow> string \<Rightarrow> string \<Rightarrow> Event" where
  "eventAt env n clusterID level host step message =
     \<lparr>Event_ID = env_insert env (n + 2), Event_ClusterID = clusterID,
      Event_Timestamp = env_now env n, Event_Level = level, Event_Host = host,
      Event_Step = step, Event_Message = message, Event_Output = [],
      Event_CreatedAt = env_now env (n + 1)\<rparr>"

text \<open>
  \<^verbatim>\<open>Hub.BroadcastEvent\<close> sends on a channel with a buffer of 256 messages. When the
  hub's loop has stopped receiving and 256 messages wait in the buffer, the send never
  completes. The model follows one task: \<open>hub_broadcasts\<close> holds the messages sent on the
  channel so far, whoever sent them, and while the task runs no other goroutine sends.
\<close>

definition broadcastBlocks :: "env \<Rightarrow> sys \<Rightarrow> bool" where
  "broadcastBlocks env s =
     (case env_hubReceives env of
        None \<Rightarrow> False
      | Some r \<Rightarrow> r + 256 \<le> length (hub_broadcasts s))"

text \<open>
  \<^verbatim>\<open>logEvent\<close>: the event is built and inserted, then handed to the hub; the task is
  parked when that send never completes.
\<close>

definition logEvent :: "env \<Rightarrow> nat \<Rightarrow> string \<Rightarrow> string \<Rightarrow> string \<Rightarrow> string \<Rightarrow> sys \<Rightarrow> sys" where
  "logEvent env clusterID level host step message s =
     (let event = eventAt env (tick (pst s)) clusterID level host step message;
          s1 = s\<lparr>pst := (pst s)\<lparr>tick := tick (pst s) + 3,
                                  trace := trace (pst s) @ [Insert event]\<rparr>,
                 db_events := db_events s @ [event]\<rparr>
      in if broadcastBlocks env s then s1\<lparr>parked := True\<rparr>
         else s1\<lparr>hub_broadcasts := hub_broadcasts s @ [(clusterID, event)]\<rparr>)"

definition logError :: "env \<Rightarrow> nat \<Rightarrow> string \<Rightarrow> error \<Rightarrow> sys \<Rightarrow> sys" where
  "logError env clusterID message err s =
     (let s1 = logEvent env clusterID ''error'' ''localhost'' ''error''
                 (message @ '': '' @ errorText err) s
      in if parked s1 then s1 else updateStatus env clusterID ''failed'' s1)"

definition specOfRequest :: "CreateClusterRequest \<Rightarrow> ClusterSpec" where
  "specOfRequest req =
     \<lparr>ClusterSpec_Name = Request_Name req,
      ClusterSpec_ControlPlanes = Request_ControlPlanes req,
      ClusterSpec_Workers = Request_Workers req,
      ClusterSpec_K8sVersion = Request_K8sVersion req,
      ClusterSpec_PodNetworkCIDR = Request_PodNetworkCIDR req,
      ClusterSpec_ServiceCIDR = Request_ServiceCIDR req,
      ClusterSpec_CNI = Request_CNI req,
      ClusterSpec_ContainerRuntime = Request_ContainerRuntime req,
      ClusterSpec_APIServerEndpoint = Request_APIServerEndpoint req,
      ClusterSpec_LoadBalancerIP = [], ClusterSpec_CertificateKey = []\<rparr>"

text \<open>The loop over the control planes after the first.\<close>

fun joinControlPlanes ::
  "env \<Rightarrow> nat \<Rightarrow> KubeadmProvisioner \<Rightarrow> ProvisionResult \<Rightarrow> HostSpec list \<Rightarrow> sys \<Rightarrow> sys" where
  "joinControlPlanes env clusterID provisioner result [] s = s"
| "joinControlPlanes env clusterID provisioner result (cp # rest) s =
     (let s1 = logEvent env clusterID ''info'' (HostSpec_Address cp) ''join'' ''Joining control plane'' s in
      if parked s1 then s1
      else
        (case JoinControlPlane env provisioner cp (ProvisionResult_JoinCommand result)
                (ProvisionResult_CertificateKey result) (pst s1) of
           (Some err, st) \<Rightarrow>
             (let s2 = logError env clusterID ''Failed to join control plane'' err (s1\<lparr>pst := st\<rparr>) in
              if parked s2 then s2 else joinControlPlanes env clusterID provisioner result rest s2)
         | (None, st) \<Rightarrow> joinControlPlanes env clusterID provisioner result rest (s1\<lparr>pst := st\<rparr>)))"

text \<open>The loop over the workers.\<close>

fun joinWorkers ::
  "env \<Rightarrow> nat \<Rightarrow> KubeadmProvisioner \<Rightarrow> ProvisionResult \<Rightarrow> HostSpec list \<Rightarrow> sys \<Rightarrow> sys" where
  "joinWorkers env clusterID provisioner result [] s = s"
| "joinWorkers env clusterID provisioner result (worker # rest) s =
     (let s1 = logEvent env clusterID ''info'' (HostSpec_Address worker) ''join'' ''Joining worker'' s in
      if parked s1 then s1
      else
        (case JoinWorker env provisioner worker (ProvisionResult_JoinCommand result) (pst s1) of
           (Some err, st) \<Rightarrow>
             (let s2 = logError env clusterID ''Failed to join worker'' err (s1\<lparr>pst := st\<rparr>) in
              if parked s2 then s2 else joinWorkers env clusterID provisioner result rest s2)
         | (None, st) \<Rightarrow> joinWorkers env clusterID provisioner result rest (s1\<lparr>pst := st\<rparr>)))"

text \<open>The CNI step of \<^verbatim>\<open>provisionCluster\<close>: an error is logged and nothing else.\<close>

definition installCNIStep ::
  "env \<Rightarrow> nat \<Rightarrow> KubeadmProvisioner \<Rightarrow> ClusterSpec \<Rightarrow> HostSpec \<Rightarrow> ProvisionResult \<Rightarrow> sys \<Rightarrow> sys" where
  "installCNIStep env clusterID provisioner spec cp0 result s =
     (let s1 = logEvent env clusterID ''info'' (HostSpec_Address cp0) ''cni'' ''Installing CNI'' s in
      if parked s1 then s1
      else
        (case InstallCNI env provisioner (ProvisionResult_Kubeconfig result) (ClusterSpec_CNI spec) cp0
                (pst s1) of
           (Some err, st) \<Rightarrow> logError env clusterID ''Failed to install CNI'' err (s1\<lparr>pst := st\<rparr>)
         | (None, st) \<Rightarrow> s1\<lparr>pst := st\<rparr>))"

text \<open>
  The statements of \<^verbatim>\<open>provisionCluster\<close> after a bootstrap that returned \<open>result\<close>
  without an error: store the artifacts, install the CNI, join the other control planes
  (index 1 and up), join the workers, set the status to ready, log the end.
\<close>

definition completeProvisioning ::
  "env \<Rightarrow> nat \<Rightarrow> KubeadmProvisioner \<Rightarrow> ClusterSpec \<Rightarrow> HostSpec \<Rightarrow> ProvisionResult \<Rightarrow> sys \<Rightarrow> sys" where
  "completeProvisioning env clusterID provisioner spec cp0 result s =
     (let s1 = installCNIStep env clusterID provisioner spec cp0 result
                 (saveArtifacts env clusterID result s) in
      if parked s1 then s1
      else
        (let s2 = joinControlPlanes env clusterID provisioner result
                    (drop 1 (ClusterSpec_ControlPlanes spec)) s1 in
         if parked s2 then s2
         else
           (let s3 = joinWorkers env clusterID provisioner result (ClusterSpec_Workers spec) s2 in
            if parked s3 then s3
            else logEvent env clusterID ''info'' ''localhost'' ''complete''
                   ''Cluster provisioned successfully'' (updateStatus env clusterID ''ready'' s3))))"

text \<open>
  \<^verbatim>\<open>provisionCluster\<close>, the task started by \<^verbatim>\<open>go h.provisionCluster(cluster.ID, req)\<close>:
  the state it leaves, and the panic that ended it if one did; when the state it leaves
  is parked, the task has not returned. An index into an empty list of control planes
  and a nil result are written out, although validation and the provisioner exclude both.
\<close>

definition provisionCluster ::
  "env \<Rightarrow> nat \<Rightarrow> CreateClusterRequest \<Rightarrow> sys \<Rightarrow> panic option \<times> sys" where
  "provisionCluster env clusterID req s =
     (let s1 = updateStatus env clusterID ''provisioning'' s in
      case GetProvisioner ''kubeadm'' of
        Inl err \<Rightarrow> (None, logError env clusterID ''Failed to get provisioner'' err s1)
      | Inr provisioner \<Rightarrow>
     (case ValidateSpec provisioner (specOfRequest req) of
        (Some err, spec) \<Rightarrow> (None, logError env clusterID ''Invalid cluster spec'' err s1)
      | (None, spec) \<Rightarrow>
     (let s2 = logEvent env clusterID ''info'' ''localhost'' ''prepare'' ''Preparing hosts'' s1 in
      if parked s2 then (None, s2)
      else
     (case PrepareHosts env provisioner (ClusterSpec_ControlPlanes spec @ ClusterSpec_Workers spec)
             (ClusterSpec_ContainerRuntime spec) (ClusterSpec_K8sVersion spec) (pst s2) of
        (Some err, st3) \<Rightarrow>
          (None, logError env clusterID ''Failed to prepare hosts'' err (s2\<lparr>pst := st3\<rparr>))
      | (None, st3) \<Rightarrow>
     (case ClusterSpec_ControlPlanes spec of
        [] \<Rightarrow> (Some IndexOutOfRange, s2\<lparr>pst := st3\<rparr>)
      | cp0 # others \<Rightarrow>
     (let s3 = logEvent env clusterID ''info'' (HostSpec_Address cp0) ''bootstrap''
                 ''Bootstrapping control plane'' (s2\<lparr>pst := st3\<rparr>) in
      if parked s3 then (None, s3)
      else
     (case BootstrapControlPlane env provisioner cp0 spec (pst s3) of
        (Inl pan, st4) \<Rightarrow> (Some pan, s3\<lparr>pst := st4\<rparr>)
      | (Inr (res, Some err), st4) \<Rightarrow>
          (None, logError env clusterID ''Failed to bootstrap control plane'' err (s3\<lparr>pst := st4\<rparr>))
      | (Inr (None, None), st4) \<Rightarrow> (Some NilDereference, s3\<lparr>pst := st4\<rparr>)
      | (Inr (Some result, None), st4) \<Rightarrow>
          (None, completeProvisioning env clusterID provisioner spec cp0 result
                   (s3\<lparr>pst := st4\<rparr>)))))))))"

text \<open>
  The cluster row of \<^verbatim>\<open>CreateCluster\<close>, with the defaults the handler sets before it
  inserts the row: \<open>i\<close> is the key the database assigns.
\<close>

definition newClusterRow :: "nat \<Rightarrow> CreateClusterRequest \<Rightarrow> Time \<Rightarrow> Time \<Rightarrow> Cluster" where
  "newClusterRow i req t1 t2 =
     \<lparr>Cluster_ID = i, Cluster_Name = Request_Name req,
      Cluster_K8sVersion =
        (if Request_K8sVersion req = [] then ''1.28.0'' else Request_K8sVersion req),
      Cluster_PodNetworkCIDR =
        (if Request_PodNetworkCIDR req = [] then ''10.244.0.0/16'' else Request_PodNetworkCIDR req),
      Cluster_ServiceCIDR =
        (if Request_ServiceCIDR req = [] then ''10.96.0.0/12'' else Request_ServiceCIDR req),
      Cluster_CNI = (if Request_CNI req = [] then ''calico'' else Request_CNI req),
      Cluster_ContainerRuntime =
        (if Request_ContainerRuntime req = [] then ''containerd''
         else Request_ContainerRuntime req),
      Cluster_APIServerEndpoint = Request_APIServerEndpoint req,
      Cluster_LoadBalancerIP = [], Cluster_Provider = ''kubeadm'', Cluster_Status = ''pending'',
      Cluster_Kubeconfig = None, Cluster_JoinCommand = [], Cluster_CertificateKey = [],
      Cluster_CreatedAt = t1, Cluster_UpdatedAt = t2, Cluster_DeletedAt = None,
      Cluster_Nodes = [], Cluster_Events = []\<rparr>"

section \<open>A scripted remote side\<close>

text \<open>
  The inputs the properties are tried on: a remote side on which every connection and
  every command succeeds, except the one command \<open>failing\<close>; \<^verbatim>\<open>kubeadm init\<close> prints a
  transcript with a certificate key and a join command. The clock shows the count of
  interactions, the database gives it as key, and the hub's loop receives nothing: what
  the task sends stays in the buffer of the channel.
\<close>

definition initTranscript :: string where
  "initTranscript =
     ''  --certificate-key KEY'' @ [newline] @
     ''kubeadm join 10.0.0.1:6443 --token abc --discovery-token-ca-cert-hash sha256:xyz''"

definition scriptedEnv :: "string \<Rightarrow> env" where
  "scriptedEnv failing =
     \<lparr>env_readFile = (\<lambda>n path. Inr ''PRIVATE KEY''),
      env_parsePrivateKey = (\<lambda>key. None),
      env_dial = (\<lambda>n addr user key. None),
      env_run = (\<lambda>n host command.
         if command = failing then ([], ''boom'', Some (Error ''exit status 1''))
         else if HasPrefix command ''kubeadm init'' then (initTranscript, [], None)
         else ([], [], None)),
      env_now = int,
      env_insert = id,
      env_hubReceives = Some 0\<rparr>"

definition hostAt :: "string \<Rightarrow> string \<Rightarrow> HostSpec" where
  "hostAt name addr =
     \<lparr>HostSpec_Hostname = name, HostSpec_Address = addr, HostSpec_User = ''u'',
      HostSpec_SSHKey = [], HostSpec_SSHKeyPath = ''/k'', HostSpec_Port = 22,
      HostSpec_Role = [], HostSpec_Labels = Map.empty, HostSpec_Taints = []\<rparr>"

definition requestWith :: "string \<Rightarrow> HostSpec list \<Rightarrow> CreateClusterRequest" where
  "requestWith cni workers =
     \<lparr>Request_Name = ''c1'', Request_K8sVersion = [], Request_PodNetworkCIDR = [],
      Request_ServiceCIDR = [], Request_CNI = cni, Request_ContainerRuntime = [],
      Request_APIServerEndpoint = [],
      Request_ControlPlanes = [hostAt ''cp1'' ''10.0.0.1''], Request_Workers = workers\<rparr>"

text \<open>The state before anything has happened in package \<^verbatim>\<open>provision\<close>.\<close>

definition startState :: pstate where
  "startState = \<lparr>tick = 0, emitted = [], trace = []\<rparr>"

text \<open>
  The state in which \<^verbatim>\<open>CreateCluster\<close> starts the task: the rows of the cluster and of
  the job are inserted, there is no event yet and the channel of the hub is empty.
\<close>

definition createdState :: "CreateClusterRequest \<Rightarrow> sys" where
  "createdState req =
     \<lparr>pst = startState,
      db_cluster = newClusterRow 1 req 0 0,
      db_job = newProvisionJob 1 1 0 0,
      db_events = [], hub_broadcasts = [], statusWrites = [], parked = False\<rparr>"

definition workerJoinCommand :: string where
  "workerJoinCommand =
     ''kubeadm join 10.0.0.1:6443 --token abc --discovery-token-ca-cert-hash sha256:xyz''"

section \<open>Observations on a run\<close>

text \<open>The events a run has inserted between the states \<open>s\<close> and \<open>s'\<close>.\<close>

definition eventsSince :: "sys \<Rightarrow> sys \<Rightarrow> Event list" where
  "eventsSince s s' = drop (length (db_events s)) (db_events s')"

text \<open>An event of \<^verbatim>\<open>logError\<close> whose message starts with \<open>context\<close>.\<close>

definition isErrorEvent :: "string \<Rightarrow> Event \<Rightarrow> bool" where
  "isErrorEvent context ev =
     (Event_Level ev = ''error'' \<and> Event_Step ev = ''error'' \<and> Event_Host ev = ''localhost''
      \<and> HasPrefix (Event_Message ev) context)"

text \<open>What a step adds to the table of events and to the status history.\<close>

definition adds :: "sys \<Rightarrow> sys \<Rightarrow> Event list \<Rightarrow> string list \<Rightarrow> bool" where
  "adds s s' es vs = (db_events s' = db_events s @ es \<and> statusWrites s' = statusWrites s @ vs)"

text \<open>
  The task is running and its next \<open>k\<close> sends on the broadcast channel complete: either
  the hub's loop never stops receiving, or the messages sent so far and \<open>k\<close> more are
  received or fit in the buffer.
\<close>

definition roomFor :: "env \<Rightarrow> sys \<Rightarrow> nat \<Rightarrow> bool" where
  "roomFor env s k =
     (\<not> parked s \<and>
      (case env_hubReceives env of
         None \<Rightarrow> True
       | Some r \<Rightarrow> length (hub_broadcasts s) + k \<le> r + 256))"

text \<open>
  What a stretch of the trace shows of the joins: the info-level events with step
  \<^verbatim>\<open>join\<close>, by the host they name, the connections, by address, and the commands run.
\<close>

datatype mark = Announced string | Connected string | Ran string string

fun marks :: "action list \<Rightarrow> mark list" where
  "marks [] = []"
| "marks (Insert e # tr) =
     (if Event_Level e = ''info'' \<and> Event_Step e = ''join'' then Announced (Event_Host e) # marks tr
      else marks tr)"
| "marks (Connect h # tr) = Connected (HostSpec_Address h) # marks tr"
| "marks (Command h c # tr) = Ran (HostSpec_Address h) c # marks tr"
| "marks (Update v # tr) = marks tr"

text \<open>
  The marks of a loop that joins the hosts of \<open>rounds\<close> in order with \<open>command\<close>: each host
  is announced, then connected to, and the command is run where the connection was made
  (the second component of the round).
\<close>

fun joinMarks :: "string \<Rightarrow> (HostSpec \<times> bool) list \<Rightarrow> mark list" where
  "joinMarks command [] = []"
| "joinMarks command ((h, made) # rounds) =
     [Announced (HostSpec_Address h), Connected (HostSpec_Address h)] @
     (if made then [Ran (HostSpec_Address h) command] else []) @ joinMarks command rounds"

section \<open>Scripted runs\<close>

text \<open>The commands of the preparation of a host for Kubernetes 1.28.\<close>

definition prepareCommands :: "string list" where
  "prepareCommands =
     [''echo '' @ [CHR 0x27] @ ''test'' @ [CHR 0x27], ''hostname'', osReleaseCommand, ''uname -r'',
      ''swapon --show'', loadModulesScript, sysctlScript, containerdScript, k8sToolsScript ''1.28'']"


text \<open>
  Requests for one control plane: with one worker and the CNI cilium, which \<open>InstallCNI\<close>
  refuses; with one worker and the CNI calico; with a worker that has no key; with the
  CNI cilium and no worker.
\<close>

definition ciliumRequest :: CreateClusterRequest where
  "ciliumRequest = requestWith ''cilium'' [hostAt ''w1'' ''10.0.0.2'']"

definition calicoRequest :: CreateClusterRequest where
  "calicoRequest = requestWith ''calico'' [hostAt ''w1'' ''10.0.0.2'']"

definition keylessRequest :: CreateClusterRequest where
  "keylessRequest = requestWith ''calico'' [(hostAt ''w1'' ''10.0.0.2'')\<lparr>HostSpec_SSHKeyPath := []\<rparr>]"

definition soloCiliumRequest :: CreateClusterRequest where
  "soloCiliumRequest = requestWith ''cilium'' []"

text \<open>The specification validation leaves for a request of \<open>requestWith\<close>.\<close>

definition scriptedSpec :: "string \<Rightarrow> HostSpec list \<Rightarrow> ClusterSpec" where
  "scriptedSpec cni workers =
     \<lparr>ClusterSpec_Name = ''c1'', ClusterSpec_ControlPlanes = [hostAt ''cp1'' ''10.0.0.1''],
      ClusterSpec_Workers = workers, ClusterSpec_K8sVersion = ''1.28.0'',
      ClusterSpec_PodNetworkCIDR = ''10.244.0.0/16'', ClusterSpec_ServiceCIDR = ''10.96.0.0/12'',
      ClusterSpec_CNI = cni, ClusterSpec_ContainerRuntime = ''containerd'',
      ClusterSpec_APIServerEndpoint = [], ClusterSpec_LoadBalancerIP = [],
      ClusterSpec_CertificateKey = []\<rparr>"

section \<open>JSON views of the repository records\<close>

text \<open>
  What \<^verbatim>\<open>encoding/json\<close> makes of a value, as a tree. An instant stays an instant (the
  encoder prints it in RFC 3339), an object keeps the order of the struct's fields.
\<close>

datatype json =
    JNull
  | JBool bool
  | JNumber int
  | JString string
  | JTime Time
  | JArray "json list"
  | JObject "(string \<times> json) list"

text \<open>A field with the option \<^verbatim>\<open>omitempty\<close>: left out when \<open>isEmpty\<close> holds.\<close>

definition omitempty :: "bool \<Rightarrow> string \<Rightarrow> json \<Rightarrow> (string \<times> json) list" where
  "omitempty isEmpty name v = (if isEmpty then [] else [(name, v)])"

text \<open>
  The fields of \<^verbatim>\<open>db.Node\<close> in the order of the struct, under the names of their
  \<^verbatim>\<open>json\<close> tags; \<^verbatim>\<open>DeletedAt\<close> has the tag \<^verbatim>\<open>json:"-"\<close> and is skipped.
\<close>

definition marshalNode :: "Node \<Rightarrow> json" where
  "marshalNode n = JObject (
     [(''id'', JNumber (int (Node_ID n))),
      (''cluster_id'', JNumber (int (Node_ClusterID n))),
      (''hostname'', JString (Node_Hostname n)),
      (''address'', JString (Node_Address n)),
      (''user'', JString (Node_User n))] @
     omitempty (Node_SSHKeyPath n = []) ''ssh_key_path'' (JString (Node_SSHKeyPath n)) @
     [(''port'', JNumber (Node_Port n)),
      (''role'', JString (Node_Role n)),
      (''status'', JString (Node_Status n)),
      (''k8s_version'', JString (Node_K8sVersion n)),
      (''container_runtime'', JString (Node_ContainerRuntime n))] @
     omitempty (Node_Labels n = []) ''labels'' (JString (Node_Labels n)) @
     omitempty (Node_Taints n = []) ''taints'' (JString (Node_Taints n)) @
     (case Node_JoinedAt n of None \<Rightarrow> [] | Some t \<Rightarrow> [(''joined_at'', JTime t)]) @
     [(''created_at'', JTime (Node_CreatedAt n)),
      (''updated_at'', JTime (Node_UpdatedAt n))])"

definition marshalEvent :: "Event \<Rightarrow> json" where
  "marshalEvent e = JObject (
     [(''id'', JNumber (int (Event_ID e))),
      (''cluster_id'', JNumber (int (Event_ClusterID e))),
      (''timestamp'', JTime (Event_Timestamp e)),
      (''level'', JString (Event_Level e)),
      (''host'', JString (Event_Host e)),
      (''step'', JString (Event_Step e)),
      (''message'', JString (Event_Message e))] @
     omitempty (Event_Output e = []) ''output'' (JString (Event_Output e)) @
     [(''created_at'', JTime (Event_CreatedAt e))])"

text \<open>
  \<^verbatim>\<open>db.Cluster\<close>: the fields \<^verbatim>\<open>Kubeconfig\<close>, \<^verbatim>\<open>JoinCommand\<close>, \<^verbatim>\<open>CertificateKey\<close> and
  \<^verbatim>\<open>DeletedAt\<close> carry the tag \<^verbatim>\<open>json:"-"\<close>, so the encoder skips them.
\<close>

definition marshalCluster :: "Cluster \<Rightarrow> json" where
  "marshalCluster c = JObject (
     [(''id'', JNumber (int (Cluster_ID c))),
      (''name'', JString (Cluster_Name c)),
      (''k8s_version'', JString (Cluster_K8sVersion c)),
      (''pod_network_cidr'', JString (Cluster_PodNetworkCIDR c)),
      (''service_cidr'', JString (Cluster_ServiceCIDR c)),
      (''cni'', JString (Cluster_CNI c)),
      (''container_runtime'', JString (Cluster_ContainerRuntime c)),
      (''api_server_endpoint'', JString (Cluster_APIServerEndpoint c))] @
     omitempty (Cluster_LoadBalancerIP c = []) ''load_balancer_ip''
       (JString (Cluster_LoadBalancerIP c)) @
     [(''provider'', JString (Cluster_Provider c)),
      (''status'', JString (Cluster_Status c)),
      (''created_at'', JTime (Cluster_CreatedAt c)),
      (''updated_at'', JTime (Cluster_UpdatedAt c))] @
     omitempty (Cluster_Nodes c = []) ''nodes'' (JArray (map marshalNode (Cluster_Nodes c))) @
     omitempty (Cluster_Events c = []) ''events'' (JArray (map marshalEvent (Cluster_Events c))))"

text \<open>
  The envelope \<^verbatim>\<open>Response\<close> of a success: \<^verbatim>\<open>Data\<close> holds a value, so it is present, and
  \<^verbatim>\<open>Error\<close> is nil, so it is left out. \<open>WriteSuccess\<close> and \<open>WriteCreated\<close> give the
  status code and the body.
\<close>

definition WriteSuccess :: "json \<Rightarrow> nat \<times> json" where
  "WriteSuccess data = (200, JObject [(''success'', JBool True), (''data'', data)])"

definition WriteCreated :: "json \<Rightarrow> nat \<times> json" where
  "WriteCreated data = (201, JObject [(''success'', JBool True), (''data'', data)])"

text \<open>The responses of \<^verbatim>\<open>GetCluster\<close>, \<^verbatim>\<open>CreateCluster\<close> and \<^verbatim>\<open>ListClusters\<close> for the rows read.\<close>

definition GetCluster_response :: "Cluster \<Rightarrow> nat \<times> json" where
  "GetCluster_response cluster = WriteSuccess (marshalCluster cluster)"

definition CreateCluster_response :: "Cluster \<Rightarrow> nat \<times> json" where
  "CreateCluster_response cluster = WriteCreated (marshalCluster cluster)"

definition ListClusters_response :: "Cluster list \<Rightarrow> nat \<times> json" where
  "ListClusters_response clusters = WriteSuccess (JArray (map marshalCluster clusters))"

text \<open>A cluster with other secrets.\<close>

definition withSecrets :: "string option \<Rightarrow> string \<Rightarrow> string \<Rightarrow> Cluster \<Rightarrow> Cluster" where
  "withSecrets kubeconfig joinCommand certificateKey c =
     c\<lparr>Cluster_Kubeconfig := kubeconfig, Cluster_JoinCommand := joinCommand,
       Cluster_CertificateKey := certificateKey\<rparr>"

section \<open>The event stream\<close>

text \<open>
  The query of the replay,
  \<^verbatim>\<open>Where("cluster_id = ?", clusterID).Order("timestamp desc").Limit(50).Find(&events)\<close>,
  on the rows of table \<^verbatim>\<open>events\<close>: the rows of the cluster, latest first, at most 50.
  Among rows of equal timestamp the database fixes no order; the model takes the one of
  a stable sort.
\<close>

definition recentEvents :: "nat \<Rightarrow> Event list \<Rightarrow> Event list" where
  "recentEvents clusterID table =
     take 50 (rev (sort_key Event_Timestamp (filter (\<lambda>e. Event_ClusterID e = clusterID) table)))"

text \<open>
  The goroutines that take part in the stream, each with the places where it can stand.
  The loop \<^verbatim>\<open>Hub.Run\<close> is at its \<^verbatim>\<open>select\<close>, or in the broadcast case with a message and
  the connections it has still to write to, or in its send on the channel \<^verbatim>\<open>unregister\<close>
  after a failed write: that channel has no buffer and no other receiver than the loop
  itself, so the loop stays there. (\<^verbatim>\<open>Hub.Run\<close> is started outside the files at hand; a hub
  that was never started would leave every handler in its send on \<^verbatim>\<open>register\<close>.)
\<close>

datatype hubState = Selecting | Delivering "nat \<times> Event" "nat list" | Unregistering

text \<open>
  \<^verbatim>\<open>HandleWebSocket\<close> for a connection, after the upgrade: in its send
  \<^verbatim>\<open>Hub.register <- client\<close>, or past it, the two goroutines started.
\<close>

datatype handlerState = Registering nat | Serving nat

text \<open>
  The goroutine that sends the recent events: before its query, or in the loop
  \<^verbatim>\<open>for i := len(events) - 1; i >= 0; i--\<close> with the events found and \<open>i + 1\<close>; with 0
  the loop is over. A failed query ends it at once.
\<close>

datatype replayState = Querying nat | Writing "Event list" nat

text \<open>
  The state of the stream: the table of events, the buffer of the channel \<^verbatim>\<open>broadcast\<close>
  (256 places), the call of \<^verbatim>\<open>logEvent\<close> that has inserted its event and not yet sent it,
  the loop of the hub, the map \<^verbatim>\<open>clients\<close> as the list of the connections registered with
  their cluster, the handlers and replays by connection, and what each connection has
  carried so far.
\<close>

record stream =
  table :: "Event list"
  broadcast :: "(nat \<times> Event) list"
  pending :: "(nat \<times> Event) option"
  hub :: hubState
  clients :: "(nat \<times> nat) list"
  handlers :: "nat \<rightharpoonup> handlerState"
  replays :: "nat \<rightharpoonup> replayState"
  carried :: "nat \<Rightarrow> Event list"

text \<open>
  The steps, one per statement that other goroutines can see. Which goroutine moves
  next is for the scheduler, which event is logged and whether a write to a connection
  succeeds is for the outside: a label names the choice.
\<close>

datatype label =
    Upgrade nat nat
  | Register nat
  | Query nat bool
  | ReplayWrite nat bool
  | Create Event
  | Send
  | Receive
  | HubWrite bool

text \<open>
  \<open>Upgrade c cid\<close>: \<^verbatim>\<open>HandleWebSocket\<close> has upgraded connection \<open>c\<close> for cluster \<open>cid\<close> and
  reaches its send on \<^verbatim>\<open>register\<close>. \<open>Register c\<close>: the loop of the hub receives the client
  and enters it in the map; the handler goes on and starts the replay. \<open>Query c ok\<close>: the
  replay runs its query. \<open>ReplayWrite c ok\<close>: the replay writes \<^verbatim>\<open>events[i]\<close> to the
  connection (the error of \<^verbatim>\<open>WriteJSON\<close> is dropped) and counts down. \<open>Create e\<close>: a call
  of \<^verbatim>\<open>logEvent\<close> inserts its event. \<open>Send\<close>: that call sends the event on \<^verbatim>\<open>broadcast\<close>,
  which has room. \<open>Receive\<close>: the loop of the hub receives a message and reads the
  connections of its cluster (in the order of registration, where Go fixes none).
  \<open>HubWrite ok\<close>: the loop writes the message to the next connection; after a failed write
  it sends on \<^verbatim>\<open>unregister\<close>. \<open>deliverTo\<close> is the place of the loop with the
  connections left: back at the \<^verbatim>\<open>select\<close> when there is none. A step that cannot be taken
  gives \<open>None\<close>.
\<close>

definition deliverTo :: "nat \<times> Event \<Rightarrow> nat list \<Rightarrow> hubState" where
  "deliverTo m cs = (if cs = [] then Selecting else Delivering m cs)"

fun fire :: "label \<Rightarrow> stream \<Rightarrow> stream option" where
  "fire (Upgrade c cid) s =
     (case handlers s c of
        None \<Rightarrow> Some (s\<lparr>handlers := (handlers s)(c \<mapsto> Registering cid)\<rparr>)
      | Some h \<Rightarrow> None)"
| "fire (Register c) s =
     (case (hub s, handlers s c) of
        (Selecting, Some (Registering cid)) \<Rightarrow>
          Some (s\<lparr>clients := clients s @ [(cid, c)],
                  handlers := (handlers s)(c \<mapsto> Serving cid),
                  replays := (replays s)(c \<mapsto> Querying cid)\<rparr>)
      | other \<Rightarrow> None)"
| "fire (Query c ok) s =
     (case replays s c of
        Some (Querying cid) \<Rightarrow>
          Some (s\<lparr>replays := (replays s)(c \<mapsto>
                    (if ok then Writing (recentEvents cid (table s))
                                  (length (recentEvents cid (table s)))
                     else Writing [] 0))\<rparr>)
      | other \<Rightarrow> None)"
| "fire (ReplayWrite c ok) s =
     (case replays s c of
        Some (Writing events (Suc i)) \<Rightarrow>
          Some (s\<lparr>replays := (replays s)(c \<mapsto> Writing events i),
                  carried := (carried s)(c := carried s c @ (if ok then [events ! i] else []))\<rparr>)
      | other \<Rightarrow> None)"
| "fire (Create e) s =
     (case pending s of
        None \<Rightarrow> Some (s\<lparr>table := table s @ [e], pending := Some (Event_ClusterID e, e)\<rparr>)
      | Some m \<Rightarrow> None)"
| "fire Send s =
     (case pending s of
        Some m \<Rightarrow>
          (if length (broadcast s) < 256
           then Some (s\<lparr>broadcast := broadcast s @ [m], pending := None\<rparr>)
           else None)
      | None \<Rightarrow> None)"
| "fire Receive s =
     (case (hub s, broadcast s) of
        (Selecting, m # rest) \<Rightarrow>
          Some (s\<lparr>broadcast := rest,
                  hub := deliverTo m (map snd (filter (\<lambda>r. fst r = fst m) (clients s)))\<rparr>)
      | other \<Rightarrow> None)"
| "fire (HubWrite ok) s =
     (case hub s of
        Delivering m (c # cs) \<Rightarrow>
          (if ok
           then Some (s\<lparr>hub := deliverTo m cs,
                        carried := (carried s)(c := carried s c @ [snd m])\<rparr>)
           else Some (s\<lparr>hub := Unregistering\<rparr>))
      | other \<Rightarrow> None)"

text \<open>A schedule, run from a state: \<open>None\<close> when one of its steps cannot be taken.\<close>

fun exec :: "label list \<Rightarrow> stream \<Rightarrow> stream option" where
  "exec [] s = Some s"
| "exec (l # ls) s = (case fire l s of None \<Rightarrow> None | Some s' \<Rightarrow> exec ls s')"

text \<open>The server with the rows \<open>rows\<close> in the table, before any connection.\<close>

definition idle :: "Event list \<Rightarrow> stream" where
  "idle rows =
     \<lparr>table = rows, broadcast = [], pending = None, hub = Selecting, clients = [],
      handlers = Map.empty, replays = Map.empty, carried = (\<lambda>c. [])\<rparr>"

text \<open>Two events of cluster 1 as \<open>logEvent\<close> makes them, the second later than the first.\<close>

definition historyEvent :: Event where
  "historyEvent =
     \<lparr>Event_ID = 3, Event_ClusterID = 1, Event_Timestamp = 1, Event_Level = ''info'',
      Event_Host = ''localhost'', Event_Step = ''prepare'', Event_Message = ''Preparing hosts'',
      Event_Output = [], Event_CreatedAt = 2\<rparr>"

definition liveEvent :: Event where
  "liveEvent =
     \<lparr>Event_ID = 28, Event_ClusterID = 1, Event_Timestamp = 26, Event_Level = ''info'',
      Event_Host = ''10.0.0.1'', Event_Step = ''bootstrap'',
      Event_Message = ''Bootstrapping control plane'', Event_Output = [],
      Event_CreatedAt = 27\<rparr>"

text \<open>
  A schedule: a client connects for cluster 1 and is registered, its replay runs the
  query, the task logs an event, the hub delivers it, and only then the replay writes.
\<close>

definition liveFirst :: "label list" where
  "liveFirst =
     [Upgrade 7 1, Register 7, Query 7 True, Create liveEvent, Send, Receive, HubWrite True,
      ReplayWrite 7 True]"

text \<open>
  Another: the task logs the event between the registration and the query, so that the
  event is both found by the query and delivered by the hub.
\<close>

definition liveTwice :: "label list" where
  "liveTwice =
     [Upgrade 7 1, Register 7, Create liveEvent, Send, Query 7 True, ReplayWrite 7 True,
      Receive, HubWrite True, ReplayWrite 7 True]"

section \<open>Properties of the parsers\<close>

text \<open>
  C2 (join-artifact parsing). The bootstrap output
  \<^verbatim>\<open>kubeadm join 10.0.0.1:6443 --token abc \\<close> followed by the continuation line
  \<^verbatim>\<open>    --discovery-token-ca-cert-hash sha256:xyz\<close> should give the single-line command
  with both flags and nothing else. \<^verbatim>\<open>extractJoinCommand\<close> strips a backslash only from
  the start of a continuation line, so the backslash that ends the first line stays in
  the command it returns.
\<close>

theorem extractJoinCommand_keeps_backslash:
  "extractJoinCommand
     (''kubeadm join 10.0.0.1:6443 --token abc '' @ [backslash, newline] @
      ''    --discovery-token-ca-cert-hash sha256:xyz'')
   = ''kubeadm join 10.0.0.1:6443 --token abc '' @ [backslash] @
     '' --discovery-token-ca-cert-hash sha256:xyz''
   \<and> extractJoinCommand
     (''kubeadm join 10.0.0.1:6443 --token abc '' @ [backslash, newline] @
      ''    --discovery-token-ca-cert-hash sha256:xyz'')
   \<noteq> ''kubeadm join 10.0.0.1:6443 --token abc --discovery-token-ca-cert-hash sha256:xyz''"
  by code_simp

text \<open>
  C10 (totality of the certificate-key extractor). On the output \<^verbatim>\<open>--certificate-key\<close>,
  a line that ends with the flag, the text after the flag has no field and the index
  \<^verbatim>\<open>strings.Fields(key)[0]\<close> is out of range: the extractor panics.
\<close>

theorem extractCertificateKey_panics:
  "extractCertificateKey ''--certificate-key'' = Inl IndexOutOfRange"
  by code_simp

section \<open>Properties of validation\<close>

lemma default_K8sVersion:
  "(if ClusterSpec_K8sVersion cs = [] then cs\<lparr>ClusterSpec_K8sVersion := d\<rparr> else cs)
   = cs\<lparr>ClusterSpec_K8sVersion :=
          (if ClusterSpec_K8sVersion cs = [] then d else ClusterSpec_K8sVersion cs)\<rparr>"
  by simp

lemma default_PodNetworkCIDR:
  "(if ClusterSpec_PodNetworkCIDR cs = [] then cs\<lparr>ClusterSpec_PodNetworkCIDR := d\<rparr> else cs)
   = cs\<lparr>ClusterSpec_PodNetworkCIDR :=
          (if ClusterSpec_PodNetworkCIDR cs = [] then d else ClusterSpec_PodNetworkCIDR cs)\<rparr>"
  by simp

lemma default_ServiceCIDR:
  "(if ClusterSpec_ServiceCIDR cs = [] then cs\<lparr>ClusterSpec_ServiceCIDR := d\<rparr> else cs)
   = cs\<lparr>ClusterSpec_ServiceCIDR :=
          (if ClusterSpec_ServiceCIDR cs = [] then d else ClusterSpec_ServiceCIDR cs)\<rparr>"
  by simp

lemma default_CNI:
  "(if ClusterSpec_CNI cs = [] then cs\<lparr>ClusterSpec_CNI := d\<rparr> else cs)
   = cs\<lparr>ClusterSpec_CNI := (if ClusterSpec_CNI cs = [] then d else ClusterSpec_CNI cs)\<rparr>"
  by simp

lemma default_ContainerRuntime:
  "(if ClusterSpec_ContainerRuntime cs = [] then cs\<lparr>ClusterSpec_ContainerRuntime := d\<rparr> else cs)
   = cs\<lparr>ClusterSpec_ContainerRuntime :=
          (if ClusterSpec_ContainerRuntime cs = [] then d else ClusterSpec_ContainerRuntime cs)\<rparr>"
  by simp

lemmas default_steps =
  default_K8sVersion default_PodNetworkCIDR default_ServiceCIDR default_CNI
  default_ContainerRuntime

lemma ClusterSpec_Validate_accepted:
  assumes "ClusterSpec_Name cs \<noteq> []" "ClusterSpec_ControlPlanes cs \<noteq> []"
  shows "ClusterSpec_Validate cs =
    (validateHosts (ClusterSpec_ControlPlanes cs @ ClusterSpec_Workers cs), withDefaults cs)"
  unfolding ClusterSpec_Validate_def default_steps Let_def withDefaults_def using assms
  by (simp del: if_split cong: if_cong)

lemma ClusterSpec_Validate_no_name:
  "ClusterSpec_Name cs = [] \<Longrightarrow>
   ClusterSpec_Validate cs = (Some (ErrInvalidSpec ''cluster name is required''), cs)"
  by (simp add: ClusterSpec_Validate_def)

lemma ClusterSpec_Validate_no_control_plane:
  "ClusterSpec_Name cs \<noteq> [] \<Longrightarrow> ClusterSpec_ControlPlanes cs = [] \<Longrightarrow>
   ClusterSpec_Validate cs = (Some (ErrInvalidSpec ''at least one control plane is required''), cs)"
  by (simp add: ClusterSpec_Validate_def)

lemma ClusterSpec_Validate_rejected:
  assumes "ClusterSpec_Name cs = [] \<or> ClusterSpec_ControlPlanes cs = []"
  shows "fst (ClusterSpec_Validate cs) \<noteq> None" "snd (ClusterSpec_Validate cs) = cs"
proof -
  have "fst (ClusterSpec_Validate cs) \<noteq> None \<and> snd (ClusterSpec_Validate cs) = cs"
  proof (cases "ClusterSpec_Name cs = []")
    case True
    then show ?thesis by (simp add: ClusterSpec_Validate_no_name)
  next
    case False
    with assms show ?thesis by (simp add: ClusterSpec_Validate_no_control_plane)
  qed
  then show "fst (ClusterSpec_Validate cs) \<noteq> None" "snd (ClusterSpec_Validate cs) = cs"
    by simp_all
qed

lemma withDefaults_fields [simp]:
  "ClusterSpec_Name (withDefaults cs) = ClusterSpec_Name cs"
  "ClusterSpec_ControlPlanes (withDefaults cs) = ClusterSpec_ControlPlanes cs"
  "ClusterSpec_Workers (withDefaults cs) = ClusterSpec_Workers cs"
  "ClusterSpec_APIServerEndpoint (withDefaults cs) = ClusterSpec_APIServerEndpoint cs"
  "ClusterSpec_K8sVersion (withDefaults cs) =
     (if ClusterSpec_K8sVersion cs = [] then ''1.28.0'' else ClusterSpec_K8sVersion cs)"
  "ClusterSpec_PodNetworkCIDR (withDefaults cs) =
     (if ClusterSpec_PodNetworkCIDR cs = [] then ''10.244.0.0/16''
      else ClusterSpec_PodNetworkCIDR cs)"
  "ClusterSpec_ServiceCIDR (withDefaults cs) =
     (if ClusterSpec_ServiceCIDR cs = [] then ''10.96.0.0/12'' else ClusterSpec_ServiceCIDR cs)"
  "ClusterSpec_CNI (withDefaults cs) =
     (if ClusterSpec_CNI cs = [] then ''calico'' else ClusterSpec_CNI cs)"
  "ClusterSpec_ContainerRuntime (withDefaults cs) =
     (if ClusterSpec_ContainerRuntime cs = [] then ''containerd''
      else ClusterSpec_ContainerRuntime cs)"
  by (simp_all add: withDefaults_def)

lemma withDefaults_idem: "withDefaults (withDefaults cs) = withDefaults cs"
proof -
  have "withDefaults (withDefaults cs) =
    (withDefaults cs)\<lparr>ClusterSpec_K8sVersion := ClusterSpec_K8sVersion (withDefaults cs),
        ClusterSpec_PodNetworkCIDR := ClusterSpec_PodNetworkCIDR (withDefaults cs),
        ClusterSpec_ServiceCIDR := ClusterSpec_ServiceCIDR (withDefaults cs),
        ClusterSpec_CNI := ClusterSpec_CNI (withDefaults cs),
        ClusterSpec_ContainerRuntime := ClusterSpec_ContainerRuntime (withDefaults cs)\<rparr>"
    by (subst withDefaults_def) (simp del: withDefaults_fields add: withDefaults_fields [of cs])
  then show ?thesis by simp
qed

text \<open>
  C6 as stated fails twice. A specification without control planes is rejected before
  the defaults are set, so its empty \<^verbatim>\<open>k8s_version\<close> stays empty; and validating
  \<open>spec_plain\<close> succeeds and sets the defaults of the cluster, but its host keeps the
  empty user, the port 0 and the empty host name, since the loop validates copies.
\<close>

theorem Validate_claim_counterexample:
  "fst (ClusterSpec_Validate spec_no_control_plane) \<noteq> None
   \<and> ClusterSpec_K8sVersion (snd (ClusterSpec_Validate spec_no_control_plane)) = []
   \<and> fst (ClusterSpec_Validate spec_plain) = None
   \<and> ClusterSpec_K8sVersion (snd (ClusterSpec_Validate spec_plain)) = ''1.28.0''
   \<and> map HostSpec_User (ClusterSpec_ControlPlanes (snd (ClusterSpec_Validate spec_plain))) = [[]]
   \<and> map HostSpec_Port (ClusterSpec_ControlPlanes (snd (ClusterSpec_Validate spec_plain))) = [0]
   \<and> map HostSpec_Hostname (ClusterSpec_ControlPlanes (snd (ClusterSpec_Validate spec_plain))) = [[]]"
  by (simp add: ClusterSpec_Validate_def HostSpec_Validate_def spec_no_control_plane_def
      spec_plain_def host_plain_def ErrInvalidSpec_def)

lemma HostSpec_Validate_accepts:
  "fst (HostSpec_Validate h) = None \<longleftrightarrow>
     HostSpec_Address h \<noteq> [] \<and> (HostSpec_SSHKey h \<noteq> [] \<or> HostSpec_SSHKeyPath h \<noteq> [])"
  by (simp add: HostSpec_Validate_def Let_def)

lemma validateHosts_accepts:
  "validateHosts hosts = None \<longleftrightarrow> (\<forall>h\<in>set hosts. fst (HostSpec_Validate h) = None)"
  by (induction hosts) (auto split: option.splits)

lemma ClusterSpec_Validate_accepts:
  "fst (ClusterSpec_Validate cs) = None \<longleftrightarrow>
     ClusterSpec_Name cs \<noteq> [] \<and> ClusterSpec_ControlPlanes cs \<noteq> []
     \<and> (\<forall>h\<in>set (ClusterSpec_ControlPlanes cs @ ClusterSpec_Workers cs).
           HostSpec_Address h \<noteq> [] \<and> (HostSpec_SSHKey h \<noteq> [] \<or> HostSpec_SSHKeyPath h \<noteq> []))"
proof (cases "ClusterSpec_Name cs \<noteq> [] \<and> ClusterSpec_ControlPlanes cs \<noteq> []")
  case True
  then show ?thesis
    by (simp add: ClusterSpec_Validate_accepted validateHosts_accepts HostSpec_Validate_accepts
        del: set_append)
next
  case False
  then have "fst (ClusterSpec_Validate cs) \<noteq> None"
    by (intro ClusterSpec_Validate_rejected(1)) simp
  with False show ?thesis by blast
qed

text \<open>
  C6, amended. Validating a cluster specification that has a name and at least one
  control plane sets an empty \<^verbatim>\<open>k8s_version\<close> to 1.28.0, an empty \<^verbatim>\<open>pod_network_cidr\<close>
  to 10.244.0.0/16, an empty \<^verbatim>\<open>service_cidr\<close> to 10.96.0.0/12, an empty \<^verbatim>\<open>cni\<close> to
  calico and an empty \<^verbatim>\<open>container_runtime\<close> to containerd, and keeps the values that are
  not empty; a specification with no control-plane hosts is rejected and left as it was.
  A specification that holds a host, control plane or worker, with neither key material
  nor a key file path is rejected; a specification is accepted exactly when it has a
  name, a control plane, and every host of it has an address and key material or a key
  file path. Validating a host that has an address and inline key material or a key file
  path succeeds and sets an empty user to root, a zero port to 22 and an empty host name
  to the address; a host with neither key material nor a key file path is rejected.
\<close>

theorem Validate_defaults_and_host_normalization:
  "(ClusterSpec_Name cs \<noteq> [] \<and> ClusterSpec_ControlPlanes cs \<noteq> [] \<longrightarrow>
      ClusterSpec_K8sVersion (snd (ClusterSpec_Validate cs)) =
        (if ClusterSpec_K8sVersion cs = [] then ''1.28.0'' else ClusterSpec_K8sVersion cs)
    \<and> ClusterSpec_PodNetworkCIDR (snd (ClusterSpec_Validate cs)) =
        (if ClusterSpec_PodNetworkCIDR cs = [] then ''10.244.0.0/16''
         else ClusterSpec_PodNetworkCIDR cs)
    \<and> ClusterSpec_ServiceCIDR (snd (ClusterSpec_Validate cs)) =
        (if ClusterSpec_ServiceCIDR cs = [] then ''10.96.0.0/12'' else ClusterSpec_ServiceCIDR cs)
    \<and> ClusterSpec_CNI (snd (ClusterSpec_Validate cs)) =
        (if ClusterSpec_CNI cs = [] then ''calico'' else ClusterSpec_CNI cs)
    \<and> ClusterSpec_ContainerRuntime (snd (ClusterSpec_Validate cs)) =
        (if ClusterSpec_ContainerRuntime cs = [] then ''containerd''
         else ClusterSpec_ContainerRuntime cs))
   \<and> (ClusterSpec_ControlPlanes cs = [] \<longrightarrow>
        fst (ClusterSpec_Validate cs) \<noteq> None \<and> snd (ClusterSpec_Validate cs) = cs)
   \<and> (h \<in> set (ClusterSpec_ControlPlanes cs @ ClusterSpec_Workers cs)
        \<and> HostSpec_SSHKey h = [] \<and> HostSpec_SSHKeyPath h = [] \<longrightarrow>
        fst (ClusterSpec_Validate cs) \<noteq> None)
   \<and> (fst (ClusterSpec_Validate cs) = None \<longleftrightarrow>
        ClusterSpec_Name cs \<noteq> [] \<and> ClusterSpec_ControlPlanes cs \<noteq> []
        \<and> (\<forall>h\<in>set (ClusterSpec_ControlPlanes cs @ ClusterSpec_Workers cs).
              HostSpec_Address h \<noteq> []
              \<and> (HostSpec_SSHKey h \<noteq> [] \<or> HostSpec_SSHKeyPath h \<noteq> [])))
   \<and> (HostSpec_Address hs \<noteq> [] \<and> (HostSpec_SSHKey hs \<noteq> [] \<or> HostSpec_SSHKeyPath hs \<noteq> []) \<longrightarrow>
        HostSpec_Validate hs =
          (None, hs\<lparr>HostSpec_Hostname :=
                       (if HostSpec_Hostname hs = [] then HostSpec_Address hs
                        else HostSpec_Hostname hs),
                     HostSpec_User := (if HostSpec_User hs = [] then ''root'' else HostSpec_User hs),
                     HostSpec_Port := (if HostSpec_Port hs = 0 then 22 else HostSpec_Port hs)\<rparr>))
   \<and> (HostSpec_SSHKey hs = [] \<and> HostSpec_SSHKeyPath hs = [] \<longrightarrow>
        fst (HostSpec_Validate hs) \<noteq> None)"
proof -
  have "ClusterSpec_Name cs \<noteq> [] \<and> ClusterSpec_ControlPlanes cs \<noteq> [] \<longrightarrow>
      snd (ClusterSpec_Validate cs) = withDefaults cs"
    by (simp add: ClusterSpec_Validate_accepted)
  moreover have "ClusterSpec_ControlPlanes cs = [] \<longrightarrow>
      fst (ClusterSpec_Validate cs) \<noteq> None \<and> snd (ClusterSpec_Validate cs) = cs"
    by (simp add: ClusterSpec_Validate_rejected)
  moreover have "h \<in> set (ClusterSpec_ControlPlanes cs @ ClusterSpec_Workers cs)
        \<and> HostSpec_SSHKey h = [] \<and> HostSpec_SSHKeyPath h = [] \<longrightarrow>
        fst (ClusterSpec_Validate cs) \<noteq> None"
    unfolding ClusterSpec_Validate_accepts by blast
  moreover note ClusterSpec_Validate_accepts [of cs]
  moreover have "HostSpec_Address hs \<noteq> [] \<and> (HostSpec_SSHKey hs \<noteq> [] \<or> HostSpec_SSHKeyPath hs \<noteq> []) \<longrightarrow>
        HostSpec_Validate hs =
          (None, hs\<lparr>HostSpec_Hostname :=
                       (if HostSpec_Hostname hs = [] then HostSpec_Address hs
                        else HostSpec_Hostname hs),
                     HostSpec_User := (if HostSpec_User hs = [] then ''root'' else HostSpec_User hs),
                     HostSpec_Port := (if HostSpec_Port hs = 0 then 22 else HostSpec_Port hs)\<rparr>)"
    by (simp add: HostSpec_Validate_def Let_def)
  moreover have "HostSpec_SSHKey hs = [] \<and> HostSpec_SSHKeyPath hs = [] \<longrightarrow>
        fst (HostSpec_Validate hs) \<noteq> None"
    by (simp add: HostSpec_Validate_def Let_def)
  ultimately show ?thesis
    by (simp del: split_paired_All set_append)
qed

text \<open>
  On \<open>spec_plain\<close>, which has every field that can be defaulted empty, on the same
  specification without its control plane, on the same with a worker that has no key,
  and on its host.
\<close>

theorem Validate_defaults_and_host_normalization_witness:
  "ClusterSpec_K8sVersion (snd (ClusterSpec_Validate spec_plain)) = ''1.28.0''
   \<and> ClusterSpec_PodNetworkCIDR (snd (ClusterSpec_Validate spec_plain)) = ''10.244.0.0/16''
   \<and> ClusterSpec_ServiceCIDR (snd (ClusterSpec_Validate spec_plain)) = ''10.96.0.0/12''
   \<and> ClusterSpec_CNI (snd (ClusterSpec_Validate spec_plain)) = ''calico''
   \<and> ClusterSpec_ContainerRuntime (snd (ClusterSpec_Validate spec_plain)) = ''containerd''
   \<and> fst (ClusterSpec_Validate spec_plain) = None
   \<and> fst (ClusterSpec_Validate spec_no_control_plane) \<noteq> None
   \<and> snd (ClusterSpec_Validate spec_no_control_plane) = spec_no_control_plane
   \<and> fst (ClusterSpec_Validate spec_keyless_worker) \<noteq> None
   \<and> HostSpec_Validate host_plain =
       (None, host_plain\<lparr>HostSpec_Hostname := ''10.0.0.1'', HostSpec_User := ''root'',
                         HostSpec_Port := 22\<rparr>)
   \<and> fst (HostSpec_Validate (host_plain\<lparr>HostSpec_SSHKeyPath := []\<rparr>)) \<noteq> None"
  using Validate_defaults_and_host_normalization [where cs = spec_plain and h = host_plain
      and hs = host_plain]
    Validate_defaults_and_host_normalization [where cs = spec_no_control_plane
      and h = host_plain and hs = "host_plain\<lparr>HostSpec_SSHKeyPath := []\<rparr>"]
    Validate_defaults_and_host_normalization [where cs = spec_keyless_worker
      and h = "host_plain\<lparr>HostSpec_Address := ''10.0.0.2'', HostSpec_SSHKeyPath := []\<rparr>"
      and hs = host_plain]
  by (simp add: spec_no_control_plane_def spec_keyless_worker_def spec_plain_def host_plain_def)

text \<open>
  C7 (idempotence of defaulting). When validating \<open>x\<close> succeeds and leaves the
  specification \<open>y\<close>, validating \<open>y\<close> succeeds and leaves \<open>y\<close>.
\<close>

theorem Validate_idempotent:
  assumes "ClusterSpec_Validate x = (None, y)"
  shows "ClusterSpec_Validate y = (None, y)"
proof -
  have name: "ClusterSpec_Name x \<noteq> []" and cps: "ClusterSpec_ControlPlanes x \<noteq> []"
    using assms ClusterSpec_Validate_rejected(1) [of x] by auto
  from assms have y: "y = withDefaults x"
    and hosts: "validateHosts (ClusterSpec_ControlPlanes x @ ClusterSpec_Workers x) = None"
    by (simp_all add: ClusterSpec_Validate_accepted [OF name cps])
  have "ClusterSpec_Validate (withDefaults x) =
      (validateHosts (ClusterSpec_ControlPlanes x @ ClusterSpec_Workers x),
       withDefaults (withDefaults x))"
    using ClusterSpec_Validate_accepted [of "withDefaults x"] name cps by simp
  with y hosts show ?thesis
    by (simp add: withDefaults_idem)
qed

theorem Validate_idempotent_witness:
  "ClusterSpec_Validate spec_plain = (None, snd (ClusterSpec_Validate spec_plain))
   \<and> ClusterSpec_Validate (snd (ClusterSpec_Validate spec_plain))
       = (None, snd (ClusterSpec_Validate spec_plain))"
proof -
  have ok: "ClusterSpec_Validate spec_plain = (None, snd (ClusterSpec_Validate spec_plain))"
    by (simp add: ClusterSpec_Validate_def HostSpec_Validate_def spec_plain_def host_plain_def)
  from Validate_idempotent [OF ok] ok show ?thesis by simp
qed

section \<open>Properties of the orchestrator\<close>

lemma eventAt_fields [simp]:
  "Event_ClusterID (eventAt env n cid level host step message) = cid"
  "Event_Level (eventAt env n cid level host step message) = level"
  "Event_Host (eventAt env n cid level host step message) = host"
  "Event_Step (eventAt env n cid level host step message) = step"
  "Event_Message (eventAt env n cid level host step message) = message"
  by (simp_all add: eventAt_def)

lemma logEvent_fields [simp]:
  "db_job (logEvent env cid level host step message s) = db_job s"
  "db_cluster (logEvent env cid level host step message s) = db_cluster s"
  "statusWrites (logEvent env cid level host step message s) = statusWrites s"
  "db_events (logEvent env cid level host step message s) =
     db_events s @ [eventAt env (tick (pst s)) cid level host step message]"
  "pst (logEvent env cid level host step message s) =
     (pst s)\<lparr>tick := tick (pst s) + 3,
             trace := trace (pst s) @ [Insert (eventAt env (tick (pst s)) cid level host step message)]\<rparr>"
  "parked (logEvent env cid level host step message s) = (parked s \<or> broadcastBlocks env s)"
  by (simp_all add: logEvent_def Let_def)

lemma updateStatus_fields [simp]:
  "db_job (updateStatus env cid v s) = db_job s"
  "db_events (updateStatus env cid v s) = db_events s"
  "statusWrites (updateStatus env cid v s) = statusWrites s @ [v]"
  "Cluster_Status (db_cluster (updateStatus env cid v s)) = v"
  "parked (updateStatus env cid v s) = parked s"
  "hub_broadcasts (updateStatus env cid v s) = hub_broadcasts s"
  "pst (updateStatus env cid v s) =
     (pst s)\<lparr>tick := Suc (tick (pst s)), trace := trace (pst s) @ [Update v]\<rparr>"
  by (simp_all add: updateStatus_def)

lemma saveArtifacts_fields [simp]:
  "db_job (saveArtifacts env cid result s) = db_job s"
  "db_events (saveArtifacts env cid result s) = db_events s"
  "statusWrites (saveArtifacts env cid result s) = statusWrites s"
  "parked (saveArtifacts env cid result s) = parked s"
  "hub_broadcasts (saveArtifacts env cid result s) = hub_broadcasts s"
  "pst (saveArtifacts env cid result s) = (pst s)\<lparr>tick := Suc (tick (pst s))\<rparr>"
  by (simp_all add: saveArtifacts_def)

lemma logError_job [simp]: "db_job (logError env cid message err s) = db_job s"
  by (simp add: logError_def Let_def)

text \<open>The budget of sends.\<close>

lemma roomFor_running: "roomFor env s k \<Longrightarrow> \<not> parked s"
  by (simp add: roomFor_def)

lemma roomFor_less: "roomFor env s k \<Longrightarrow> j \<le> k \<Longrightarrow> roomFor env s j"
  by (auto simp: roomFor_def split: option.splits)

lemma roomFor_pst [simp]: "roomFor env (s\<lparr>pst := st\<rparr>) k = roomFor env s k"
  by (simp add: roomFor_def split: option.splits)

lemma roomFor_updateStatus [simp]: "roomFor env (updateStatus env cid v s) k = roomFor env s k"
  by (simp add: roomFor_def split: option.splits)

lemma roomFor_saveArtifacts [simp]: "roomFor env (saveArtifacts env cid result s) k = roomFor env s k"
  by (simp add: roomFor_def split: option.splits)

lemma logEvent_sent:
  assumes "roomFor env s (Suc k)"
  shows "roomFor env (logEvent env cid level host step message s) k"
    and "\<not> parked (logEvent env cid level host step message s)"
  using assms by (auto simp: roomFor_def logEvent_def broadcastBlocks_def Let_def split: option.splits)

lemma logError_sent:
  assumes "roomFor env s (Suc k)"
  shows "roomFor env (logError env cid message err s) k"
    and "\<not> parked (logError env cid message err s)"
    and "logError env cid message err s =
           updateStatus env cid ''failed''
             (logEvent env cid ''error'' ''localhost'' ''error'' (message @ '': '' @ errorText err) s)"
  using logEvent_sent [OF assms, of cid "''error''" "''localhost''" "''error''"
      "message @ '': '' @ errorText err"]
  by (simp_all add: logError_def Let_def)

text \<open>What the steps add to the table of events and to the status history.\<close>

lemma adds_refl: "adds s s [] []"
  by (simp add: adds_def)

lemma adds_trans: "adds s s' es vs \<Longrightarrow> adds s' s'' es' vs' \<Longrightarrow> adds s s'' (es @ es') (vs @ vs')"
  by (simp add: adds_def)

lemma adds_pst [simp]: "adds s (s'\<lparr>pst := st\<rparr>) es vs = adds s s' es vs"
  by (simp add: adds_def)

lemma adds_pst' [simp]: "adds (s\<lparr>pst := st\<rparr>) s' es vs = adds s s' es vs"
  by (simp add: adds_def)

lemma adds_logEvent:
  "adds s (logEvent env cid level host step message s)
     [eventAt env (tick (pst s)) cid level host step message] []"
  by (simp add: adds_def)

lemma adds_logError:
  assumes "roomFor env s (Suc k)"
  shows "adds s (logError env cid message err s)
     [eventAt env (tick (pst s)) cid ''error'' ''localhost'' ''error'' (message @ '': '' @ errorText err)]
     [''failed'']"
  by (simp add: adds_def logError_sent(3) [OF assms])

lemma isErrorEvent_eventAt:
  "isErrorEvent (message @ '': '') (eventAt env n cid ''error'' ''localhost'' ''error''
      (message @ '': '' @ text))"
  by (simp add: isErrorEvent_def HasPrefix_def)

lemma isErrorEvent_fields:
  "isErrorEvent context ev \<Longrightarrow> Event_Step ev = ''error'' \<and> Event_Host ev = ''localhost''"
  by (simp add: isErrorEvent_def)

text \<open>What the trace shows.\<close>

lemma marks_append [simp]: "marks (tr @ tr') = marks tr @ marks tr'"
  by (induction tr rule: marks.induct) simp_all

lemma joinMarks_append [simp]: "joinMarks c (rs @ rs') = joinMarks c rs @ joinMarks c rs'"
  by (induction c rs rule: joinMarks.induct) simp_all

lemma emitEvent_trace [simp]: "trace (emitEvent env p level host step message st) = trace st"
  by (simp add: emitEvent_def)

lemma NewSSHClient_trace:
  "trace (snd (NewSSHClient env host st)) = trace st @ [Connect host]"
  by (simp add: NewSSHClient_def NewSSHClient_dial_def Let_def split: option.splits sum.splits)

lemma RunCommand_trace:
  "trace (snd (RunCommand env client command st)) =
     trace st @ [Command (SSHClient_host client) command]"
  by (simp add: RunCommand_def)

lemma NewSSHClient_host:
  "NewSSHClient env host st = (Inr client, st') \<Longrightarrow> SSHClient_host client = host"
  by (auto simp: NewSSHClient_def NewSSHClient_dial_def Let_def split: option.splits sum.splits if_splits)

text \<open>
  A join connects to the host and, where the connection is made, runs its command;
  nothing else shows in the trace.
\<close>

lemma JoinWorker_trace:
  "\<exists>made. trace (snd (JoinWorker env p host jc st)) =
     trace st @ Connect host # (if made then [Command host jc] else [])"
proof (cases "NewSSHClient env host st")
  case (Pair r st1)
  have tr1: "trace st1 = trace st @ [Connect host]"
    using NewSSHClient_trace [of env host st] Pair by simp
  show ?thesis
  proof (cases r)
    case (Inl err)
    with Pair tr1 show ?thesis
      by (intro exI [of _ False]) (simp add: JoinWorker_def)
  next
    case (Inr client)
    with Pair have host: "SSHClient_host client = host"
      by (simp add: NewSSHClient_host)
    obtain out st2 where run: "RunCommand env client jc
        (emitEvent env p ''info'' (HostSpec_Address host) ''join-worker'' ''Joining worker node'' st1)
        = (out, st2)"
      by (cases "RunCommand env client jc
        (emitEvent env p ''info'' (HostSpec_Address host) ''join-worker'' ''Joining worker node'' st1)")
    have tr2: "trace st2 = trace st @ [Connect host, Command host jc]"
      using RunCommand_trace [of env client jc
          "emitEvent env p ''info'' (HostSpec_Address host) ''join-worker'' ''Joining worker node'' st1"]
        run tr1 host by simp
    from Pair Inr run tr2 show ?thesis
      by (intro exI [of _ True]) (simp add: JoinWorker_def split: prod.splits option.splits)
  qed
qed

lemma JoinControlPlane_trace:
  "\<exists>made. trace (snd (JoinControlPlane env p host jc ck st)) =
     trace st @ Connect host #
       (if made then [Command host (jc @ '' --control-plane --certificate-key '' @ ck)] else [])"
proof (cases "NewSSHClient env host st")
  case (Pair r st1)
  have tr1: "trace st1 = trace st @ [Connect host]"
    using NewSSHClient_trace [of env host st] Pair by simp
  show ?thesis
  proof (cases r)
    case (Inl err)
    with Pair tr1 show ?thesis
      by (intro exI [of _ False]) (simp add: JoinControlPlane_def)
  next
    case (Inr client)
    with Pair have host: "SSHClient_host client = host"
      by (simp add: NewSSHClient_host)
    let ?c = "jc @ '' --control-plane --certificate-key '' @ ck"
    obtain out st2 where run: "RunCommand env client ?c
        (emitEvent env p ''info'' (HostSpec_Address host) ''join-cp'' ''Joining control plane'' st1)
        = (out, st2)"
      by (cases "RunCommand env client ?c
        (emitEvent env p ''info'' (HostSpec_Address host) ''join-cp'' ''Joining control plane'' st1)")
    have tr2: "trace st2 = trace st @ [Connect host, Command host ?c]"
      using RunCommand_trace [of env client ?c
          "emitEvent env p ''info'' (HostSpec_Address host) ''join-cp'' ''Joining control plane'' st1"]
        run tr1 host by simp
    from Pair Inr run tr2 show ?thesis
      by (intro exI [of _ True]) (simp add: JoinControlPlane_def split: prod.splits option.splits)
  qed
qed

text \<open>One round of the loop over the workers, and the loop.\<close>

lemma joinWorker_round:
  assumes room: "roomFor env s (Suc (Suc k))"
    and s1: "s1 = logEvent env cid ''info'' (HostSpec_Address w) ''join'' ''Joining worker'' s"
    and run: "JoinWorker env p w jc (pst s1) = (r, st)"
    and s2: "s2 = (case r of Some err \<Rightarrow> logError env cid ''Failed to join worker'' err (s1\<lparr>pst := st\<rparr>)
                   | None \<Rightarrow> s1\<lparr>pst := st\<rparr>)"
  shows "\<exists>tr made es j.
           roomFor env s2 k
           \<and> trace (pst s2) = trace (pst s) @ tr
           \<and> marks tr = joinMarks jc [(w, made)]
           \<and> adds s s2 es (replicate j ''failed'') \<and> j \<le> 1
           \<and> (\<forall>ev\<in>set es. Event_Level ev = ''error'' \<longrightarrow> isErrorEvent ''Failed to join worker: '' ev)"
proof -
  let ?ev1 = "eventAt env (tick (pst s)) cid ''info'' (HostSpec_Address w) ''join'' ''Joining worker''"
  have r1: "roomFor env s1 (Suc k)"
    unfolding s1 by (rule logEvent_sent(1) [OF room])
  obtain made where tr: "trace st = trace (pst s1) @ Connect w # (if made then [Command w jc] else [])"
    using JoinWorker_trace [of env p w jc "pst s1"] run by auto
  have tr1: "trace (pst s1) = trace (pst s) @ [Insert ?ev1]"
    by (simp add: s1)
  have a1: "adds s s1 [?ev1] []"
    unfolding s1 by (rule adds_logEvent)
  show ?thesis
  proof (cases r)
    case None
    then have eq: "s2 = s1\<lparr>pst := st\<rparr>" by (simp add: s2)
    have c1: "roomFor env s2 k"
      using roomFor_less [OF r1, of k] by (simp add: eq)
    have c2: "trace (pst s2) = trace (pst s) @
        (Insert ?ev1 # Connect w # (if made then [Command w jc] else []))"
      by (simp add: eq tr tr1)
    have c3: "marks (Insert ?ev1 # Connect w # (if made then [Command w jc] else []))
        = joinMarks jc [(w, made)]"
      by simp
    have c4: "adds s s2 [?ev1] (replicate 0 ''failed'')"
      using a1 by (simp add: eq)
    have c5: "(0::nat) \<le> 1"
      by simp
    have c6: "\<forall>ev\<in>set [?ev1]. Event_Level ev = ''error'' \<longrightarrow>
        isErrorEvent ''Failed to join worker: '' ev"
      by simp
    from c1 c2 c3 c4 c5 c6 show ?thesis
      by (intro exI [of _ "Insert ?ev1 # Connect w # (if made then [Command w jc] else [])"]
          exI [of _ made] exI [of _ "[?ev1]"] exI [of _ "0::nat"] conjI)
  next
    case (Some err)
    let ?ev2 = "eventAt env (tick st) cid ''error'' ''localhost'' ''error''
        (''Failed to join worker'' @ '': '' @ errorText err)"
    have eq: "s2 = logError env cid ''Failed to join worker'' err (s1\<lparr>pst := st\<rparr>)"
      by (simp add: s2 Some)
    have r1': "roomFor env (s1\<lparr>pst := st\<rparr>) (Suc k)"
      using r1 by simp
    have c1: "roomFor env s2 k"
      unfolding eq by (rule logError_sent(1) [OF r1'])
    have c2: "trace (pst s2) = trace (pst s) @
        (Insert ?ev1 # Connect w # (if made then [Command w jc] else []) @ [Insert ?ev2, Update ''failed''])"
      by (simp add: eq logError_sent(3) [OF r1'] tr tr1)
    have c3: "marks (Insert ?ev1 # Connect w # (if made then [Command w jc] else [])
          @ [Insert ?ev2, Update ''failed''])
        = joinMarks jc [(w, made)]"
      by simp
    have c4: "adds s s2 [?ev1, ?ev2] (replicate 1 ''failed'')"
      using adds_trans [OF a1, of s2 "[?ev2]" "[''failed'']"] adds_logError [OF r1', of cid
          "''Failed to join worker''" err]
      by (simp add: eq)
    have c5: "(1::nat) \<le> 1"
      by simp
    have c6: "\<forall>ev\<in>set [?ev1, ?ev2]. Event_Level ev = ''error'' \<longrightarrow>
        isErrorEvent ''Failed to join worker: '' ev"
      using isErrorEvent_eventAt [of "''Failed to join worker''" env "tick st" cid "errorText err"]
      by simp
    from c1 c2 c3 c4 c5 c6 show ?thesis
      by (intro exI [of _ "Insert ?ev1 # Connect w # (if made then [Command w jc] else [])
            @ [Insert ?ev2, Update ''failed'']"]
          exI [of _ made] exI [of _ "[?ev1, ?ev2]"] exI [of _ "1::nat"] conjI)
  qed
qed

lemma joinWorkers_run:
  assumes "roomFor env s (2 * length ws + k)"
  shows "\<exists>tr rounds es j.
     roomFor env (joinWorkers env cid p result ws s) k
     \<and> trace (pst (joinWorkers env cid p result ws s)) = trace (pst s) @ tr
     \<and> map fst rounds = ws
     \<and> marks tr = joinMarks (ProvisionResult_JoinCommand result) rounds
     \<and> adds s (joinWorkers env cid p result ws s) es (replicate j ''failed'') \<and> j \<le> length ws
     \<and> (\<forall>ev\<in>set es. Event_Level ev = ''error'' \<longrightarrow> isErrorEvent ''Failed to join worker: '' ev)"
  using assms
proof (induction ws arbitrary: s)
  case Nil
  then have "roomFor env s k" by simp
  then show ?case
    by (intro exI [of _ "[]"] exI [of _ 0]) (simp add: adds_refl)
next
  case (Cons w ws)
  let ?jc = "ProvisionResult_JoinCommand result"
  from Cons.prems have room: "roomFor env s (Suc (Suc (2 * length ws + k)))" by simp
  define s1 where "s1 = logEvent env cid ''info'' (HostSpec_Address w) ''join'' ''Joining worker'' s"
  obtain r st where run: "JoinWorker env p w ?jc (pst s1) = (r, st)"
    by (cases "JoinWorker env p w ?jc (pst s1)")
  define s2 where "s2 = (case r of Some err \<Rightarrow> logError env cid ''Failed to join worker'' err (s1\<lparr>pst := st\<rparr>)
                 | None \<Rightarrow> s1\<lparr>pst := st\<rparr>)"
  obtain tr1 made es1 j1 where round: "roomFor env s2 (2 * length ws + k)"
      "trace (pst s2) = trace (pst s) @ tr1" "marks tr1 = joinMarks ?jc [(w, made)]"
      "adds s s2 es1 (replicate j1 ''failed'')" "j1 \<le> 1"
      "\<forall>ev\<in>set es1. Event_Level ev = ''error'' \<longrightarrow> isErrorEvent ''Failed to join worker: '' ev"
    using joinWorker_round [OF room s1_def run s2_def] by (elim exE conjE) (rule that, assumption+)
  have p1: "\<not> parked s1"
    unfolding s1_def by (rule logEvent_sent(2) [OF room])
  have p2: "\<not> parked s2"
    by (rule roomFor_running [OF round(1)])
  have unfold: "joinWorkers env cid p result (w # ws) s = joinWorkers env cid p result ws s2"
    using run p1 p2 by (simp add: s1_def [symmetric] s2_def Let_def split: option.splits)
  obtain tr2 rounds es2 j2 where rest:
      "roomFor env (joinWorkers env cid p result ws s2) k"
      "trace (pst (joinWorkers env cid p result ws s2)) = trace (pst s2) @ tr2"
      "map fst rounds = ws" "marks tr2 = joinMarks ?jc rounds"
      "adds s2 (joinWorkers env cid p result ws s2) es2 (replicate j2 ''failed'')" "j2 \<le> length ws"
      "\<forall>ev\<in>set es2. Event_Level ev = ''error'' \<longrightarrow> isErrorEvent ''Failed to join worker: '' ev"
    using Cons.IH [OF round(1)] by (elim exE conjE) (rule that, assumption+)
  have "trace (pst (joinWorkers env cid p result ws s2)) = trace (pst s) @ (tr1 @ tr2)"
    by (simp add: rest(2) round(2))
  moreover have "map fst ((w, made) # rounds) = w # ws"
    by (simp add: rest(3))
  moreover have "marks (tr1 @ tr2) = joinMarks ?jc ((w, made) # rounds)"
    using round(3) rest(4) by simp
  moreover have "adds s (joinWorkers env cid p result ws s2) (es1 @ es2) (replicate (j1 + j2) ''failed'')"
    using adds_trans [OF round(4) rest(5)] by (simp add: replicate_add)
  moreover have "j1 + j2 \<le> length (w # ws)"
    using round(5) rest(6) by simp
  moreover have "\<forall>ev\<in>set (es1 @ es2). Event_Level ev = ''error'' \<longrightarrow>
      isErrorEvent ''Failed to join worker: '' ev"
    using round(6) rest(7) by auto
  ultimately show ?case
    unfolding unfold using rest(1)
    by (intro exI [of _ "tr1 @ tr2"] exI [of _ "(w, made) # rounds"] exI [of _ "es1 @ es2"]
        exI [of _ "j1 + j2"] conjI)
qed

text \<open>The same for the control planes after the first.\<close>

lemma joinControlPlane_round:
  assumes room: "roomFor env s (Suc (Suc k))"
    and s1: "s1 = logEvent env cid ''info'' (HostSpec_Address w) ''join'' ''Joining control plane'' s"
    and run: "JoinControlPlane env p w jc ck (pst s1) = (r, st)"
    and s2: "s2 = (case r of Some err \<Rightarrow> logError env cid ''Failed to join control plane'' err (s1\<lparr>pst := st\<rparr>)
                   | None \<Rightarrow> s1\<lparr>pst := st\<rparr>)"
  shows "\<exists>tr made es j.
           roomFor env s2 k
           \<and> trace (pst s2) = trace (pst s) @ tr
           \<and> marks tr = joinMarks (jc @ '' --control-plane --certificate-key '' @ ck) [(w, made)]
           \<and> adds s s2 es (replicate j ''failed'') \<and> j \<le> 1
           \<and> (\<forall>ev\<in>set es. Event_Level ev = ''error'' \<longrightarrow>
                 isErrorEvent ''Failed to join control plane: '' ev)"
proof -
  let ?c = "jc @ '' --control-plane --certificate-key '' @ ck"
  let ?ev1 = "eventAt env (tick (pst s)) cid ''info'' (HostSpec_Address w) ''join'' ''Joining control plane''"
  have r1: "roomFor env s1 (Suc k)"
    unfolding s1 by (rule logEvent_sent(1) [OF room])
  obtain made where tr: "trace st = trace (pst s1) @ Connect w # (if made then [Command w ?c] else [])"
    using JoinControlPlane_trace [of env p w jc ck "pst s1"] run by auto
  have tr1: "trace (pst s1) = trace (pst s) @ [Insert ?ev1]"
    by (simp add: s1)
  have a1: "adds s s1 [?ev1] []"
    unfolding s1 by (rule adds_logEvent)
  show ?thesis
  proof (cases r)
    case None
    then have eq: "s2 = s1\<lparr>pst := st\<rparr>" by (simp add: s2)
    have c1: "roomFor env s2 k"
      using roomFor_less [OF r1, of k] by (simp add: eq)
    have c2: "trace (pst s2) = trace (pst s) @
        (Insert ?ev1 # Connect w # (if made then [Command w ?c] else []))"
      by (simp add: eq tr tr1)
    have c3: "marks (Insert ?ev1 # Connect w # (if made then [Command w ?c] else []))
        = joinMarks ?c [(w, made)]"
      by simp
    have c4: "adds s s2 [?ev1] (replicate 0 ''failed'')"
      using a1 by (simp add: eq)
    have c5: "(0::nat) \<le> 1"
      by simp
    have c6: "\<forall>ev\<in>set [?ev1]. Event_Level ev = ''error'' \<longrightarrow>
        isErrorEvent ''Failed to join control plane: '' ev"
      by simp
    from c1 c2 c3 c4 c5 c6 show ?thesis
      by (intro exI [of _ "Insert ?ev1 # Connect w # (if made then [Command w ?c] else [])"]
          exI [of _ made] exI [of _ "[?ev1]"] exI [of _ "0::nat"] conjI)
  next
    case (Some err)
    let ?ev2 = "eventAt env (tick st) cid ''error'' ''localhost'' ''error''
        (''Failed to join control plane'' @ '': '' @ errorText err)"
    have eq: "s2 = logError env cid ''Failed to join control plane'' err (s1\<lparr>pst := st\<rparr>)"
      by (simp add: s2 Some)
    have r1': "roomFor env (s1\<lparr>pst := st\<rparr>) (Suc k)"
      using r1 by simp
    have c1: "roomFor env s2 k"
      unfolding eq by (rule logError_sent(1) [OF r1'])
    have c2: "trace (pst s2) = trace (pst s) @
        (Insert ?ev1 # Connect w # (if made then [Command w ?c] else []) @ [Insert ?ev2, Update ''failed''])"
      by (simp add: eq logError_sent(3) [OF r1'] tr tr1)
    have c3: "marks (Insert ?ev1 # Connect w # (if made then [Command w ?c] else [])
          @ [Insert ?ev2, Update ''failed''])
        = joinMarks ?c [(w, made)]"
      by simp
    have c4: "adds s s2 [?ev1, ?ev2] (replicate 1 ''failed'')"
      using adds_trans [OF a1, of s2 "[?ev2]" "[''failed'']"] adds_logError [OF r1', of cid
          "''Failed to join control plane''" err]
      by (simp add: eq)
    have c5: "(1::nat) \<le> 1"
      by simp
    have c6: "\<forall>ev\<in>set [?ev1, ?ev2]. Event_Level ev = ''error'' \<longrightarrow>
        isErrorEvent ''Failed to join control plane: '' ev"
      using isErrorEvent_eventAt [of "''Failed to join control plane''" env "tick st" cid "errorText err"]
      by simp
    from c1 c2 c3 c4 c5 c6 show ?thesis
      by (intro exI [of _ "Insert ?ev1 # Connect w # (if made then [Command w ?c] else [])
            @ [Insert ?ev2, Update ''failed'']"]
          exI [of _ made] exI [of _ "[?ev1, ?ev2]"] exI [of _ "1::nat"] conjI)
  qed
qed

lemma joinControlPlanes_run:
  assumes "roomFor env s (2 * length ws + k)"
  shows "\<exists>tr rounds es j.
     roomFor env (joinControlPlanes env cid p result ws s) k
     \<and> trace (pst (joinControlPlanes env cid p result ws s)) = trace (pst s) @ tr
     \<and> map fst rounds = ws
     \<and> marks tr = joinMarks (ProvisionResult_JoinCommand result @ '' --control-plane --certificate-key ''
                               @ ProvisionResult_CertificateKey result) rounds
     \<and> adds s (joinControlPlanes env cid p result ws s) es (replicate j ''failed'')
     \<and> j \<le> length ws
     \<and> (\<forall>ev\<in>set es. Event_Level ev = ''error'' \<longrightarrow>
           isErrorEvent ''Failed to join control plane: '' ev)"
  using assms
proof (induction ws arbitrary: s)
  case Nil
  then have "roomFor env s k" by simp
  then show ?case
    by (intro exI [of _ "[]"] exI [of _ 0]) (simp add: adds_refl)
next
  case (Cons w ws)
  let ?jc = "ProvisionResult_JoinCommand result"
  let ?ck = "ProvisionResult_CertificateKey result"
  let ?c = "?jc @ '' --control-plane --certificate-key '' @ ?ck"
  from Cons.prems have room: "roomFor env s (Suc (Suc (2 * length ws + k)))" by simp
  define s1 where "s1 = logEvent env cid ''info'' (HostSpec_Address w) ''join'' ''Joining control plane'' s"
  obtain r st where run: "JoinControlPlane env p w ?jc ?ck (pst s1) = (r, st)"
    by (cases "JoinControlPlane env p w ?jc ?ck (pst s1)")
  define s2 where "s2 = (case r of Some err \<Rightarrow> logError env cid ''Failed to join control plane'' err (s1\<lparr>pst := st\<rparr>)
                 | None \<Rightarrow> s1\<lparr>pst := st\<rparr>)"
  obtain tr1 made es1 j1 where round: "roomFor env s2 (2 * length ws + k)"
      "trace (pst s2) = trace (pst s) @ tr1" "marks tr1 = joinMarks ?c [(w, made)]"
      "adds s s2 es1 (replicate j1 ''failed'')" "j1 \<le> 1"
      "\<forall>ev\<in>set es1. Event_Level ev = ''error'' \<longrightarrow> isErrorEvent ''Failed to join control plane: '' ev"
    using joinControlPlane_round [OF room s1_def run s2_def]
    by (elim exE conjE) (rule that, assumption+)
  have p1: "\<not> parked s1"
    unfolding s1_def by (rule logEvent_sent(2) [OF room])
  have p2: "\<not> parked s2"
    by (rule roomFor_running [OF round(1)])
  have unfold: "joinControlPlanes env cid p result (w # ws) s = joinControlPlanes env cid p result ws s2"
    using run p1 p2 by (simp add: s1_def [symmetric] s2_def Let_def split: option.splits)
  obtain tr2 rounds es2 j2 where rest:
      "roomFor env (joinControlPlanes env cid p result ws s2) k"
      "trace (pst (joinControlPlanes env cid p result ws s2)) = trace (pst s2) @ tr2"
      "map fst rounds = ws" "marks tr2 = joinMarks ?c rounds"
      "adds s2 (joinControlPlanes env cid p result ws s2) es2 (replicate j2 ''failed'')"
      "j2 \<le> length ws"
      "\<forall>ev\<in>set es2. Event_Level ev = ''error'' \<longrightarrow> isErrorEvent ''Failed to join control plane: '' ev"
    using Cons.IH [OF round(1)] by (elim exE conjE) (rule that, assumption+)
  have "trace (pst (joinControlPlanes env cid p result ws s2)) = trace (pst s) @ (tr1 @ tr2)"
    by (simp add: rest(2) round(2))
  moreover have "map fst ((w, made) # rounds) = w # ws"
    by (simp add: rest(3))
  moreover have "marks (tr1 @ tr2) = joinMarks ?c ((w, made) # rounds)"
    using round(3) rest(4) by simp
  moreover have "adds s (joinControlPlanes env cid p result ws s2) (es1 @ es2)
      (replicate (j1 + j2) ''failed'')"
    using adds_trans [OF round(4) rest(5)] by (simp add: replicate_add)
  moreover have "j1 + j2 \<le> length (w # ws)"
    using round(5) rest(6) by simp
  moreover have "\<forall>ev\<in>set (es1 @ es2). Event_Level ev = ''error'' \<longrightarrow>
      isErrorEvent ''Failed to join control plane: '' ev"
    using round(6) rest(7) by auto
  ultimately show ?case
    unfolding unfold using rest(1)
    by (intro exI [of _ "tr1 @ tr2"] exI [of _ "(w, made) # rounds"] exI [of _ "es1 @ es2"]
        exI [of _ "j1 + j2"] conjI)
qed

lemma GetProvisioner_kubeadm: "GetProvisioner ''kubeadm'' = Inr NewKubeadmProvisioner"
  by (simp add: GetProvisioner_def)

text \<open>
  The run up to the end of the bootstrap, when the specification is valid and the
  preparation and the bootstrap succeed in the states in which they are called.
\<close>

lemma provisionCluster_reaches:
  fixes env cid req s st3 cp0
  defines "s2 \<equiv> logEvent env cid ''info'' ''localhost'' ''prepare'' ''Preparing hosts''
                  (updateStatus env cid ''provisioning'' s)"
  defines "s3 \<equiv> logEvent env cid ''info'' (HostSpec_Address cp0) ''bootstrap''
                  ''Bootstrapping control plane'' (s2\<lparr>pst := st3\<rparr>)"
  assumes valid: "ClusterSpec_Validate (specOfRequest req) = (None, spec)"
    and first: "ClusterSpec_ControlPlanes spec = cp0 # others"
    and room: "roomFor env s (Suc (Suc k))"
    and prepared: "PrepareHosts env NewKubeadmProvisioner
              (ClusterSpec_ControlPlanes spec @ ClusterSpec_Workers spec)
              (ClusterSpec_ContainerRuntime spec) (ClusterSpec_K8sVersion spec) (pst s2) = (None, st3)"
    and booted: "BootstrapControlPlane env NewKubeadmProvisioner cp0 spec (pst s3)
                   = (Inr (Some result, None), st4)"
  shows "provisionCluster env cid req s =
           (None, completeProvisioning env cid NewKubeadmProvisioner spec cp0 result (s3\<lparr>pst := st4\<rparr>))"
    and "roomFor env (s3\<lparr>pst := st4\<rparr>) k"
    and "\<exists>ev2 ev3. adds s (s3\<lparr>pst := st4\<rparr>) [ev2, ev3] [''provisioning'']
           \<and> Event_Level ev2 = ''info'' \<and> Event_Level ev3 = ''info''"
proof -
  define s1 where "s1 = updateStatus env cid ''provisioning'' s"
  have r1: "roomFor env s1 (Suc (Suc k))"
    using room by (simp add: s1_def)
  have r2: "roomFor env s2 (Suc k)" and p2: "\<not> parked s2"
    unfolding s2_def s1_def [symmetric] by (rule logEvent_sent [OF r1])+
  have r2': "roomFor env (s2\<lparr>pst := st3\<rparr>) (Suc k)"
    using r2 by simp
  have r3: "roomFor env s3 k" and p3: "\<not> parked s3"
    unfolding s3_def by (rule logEvent_sent [OF r2'])+
  show "roomFor env (s3\<lparr>pst := st4\<rparr>) k"
    using r3 by simp
  show "provisionCluster env cid req s =
           (None, completeProvisioning env cid NewKubeadmProvisioner spec cp0 result (s3\<lparr>pst := st4\<rparr>))"
    using prepared [unfolded s2_def] booted [unfolded s3_def s2_def] first
      p2 [unfolded s2_def] p3 [unfolded s3_def s2_def]
    by (simp add: provisionCluster_def GetProvisioner_kubeadm ValidateSpec_def valid Let_def
        s3_def s2_def del: PrepareHosts.simps logEvent_fields)
  have a1: "adds s s1 [] [''provisioning'']"
    by (simp add: adds_def s1_def)
  have a2: "adds s1 s2 [eventAt env (tick (pst s1)) cid ''info'' ''localhost'' ''prepare'' ''Preparing hosts''] []"
    unfolding s2_def s1_def [symmetric] by (rule adds_logEvent)
  have a3: "adds (s2\<lparr>pst := st3\<rparr>) s3
      [eventAt env (tick st3) cid ''info'' (HostSpec_Address cp0) ''bootstrap''
         ''Bootstrapping control plane''] []"
    unfolding s3_def using adds_logEvent [of "s2\<lparr>pst := st3\<rparr>" env cid "''info''"
        "HostSpec_Address cp0" "''bootstrap''" "''Bootstrapping control plane''"]
    by simp
  have "adds s (s3\<lparr>pst := st4\<rparr>)
      [eventAt env (tick (pst s1)) cid ''info'' ''localhost'' ''prepare'' ''Preparing hosts'',
       eventAt env (tick st3) cid ''info'' (HostSpec_Address cp0) ''bootstrap''
         ''Bootstrapping control plane''] [''provisioning'']"
    using a1 a2 a3 by (simp add: adds_def)
  then show "\<exists>ev2 ev3. adds s (s3\<lparr>pst := st4\<rparr>) [ev2, ev3] [''provisioning'']
           \<and> Event_Level ev2 = ''info'' \<and> Event_Level ev3 = ''info''"
    by (intro exI conjI) (assumption, simp_all)
qed

text \<open>The CNI step, whatever \<open>InstallCNI\<close> returns, and when it returns an error.\<close>

lemma installCNIStep_run:
  assumes room: "roomFor env s (Suc (Suc k))"
  shows "\<exists>es j. roomFor env (installCNIStep env cid p spec cp0 result s) k
     \<and> adds s (installCNIStep env cid p spec cp0 result s) es (replicate j ''failed'')
     \<and> (\<forall>ev\<in>set es. Event_Level ev = ''error'' \<longrightarrow> isErrorEvent ''Failed to install CNI: '' ev)"
proof -
  define s1 where "s1 = logEvent env cid ''info'' (HostSpec_Address cp0) ''cni'' ''Installing CNI'' s"
  let ?ev1 = "eventAt env (tick (pst s)) cid ''info'' (HostSpec_Address cp0) ''cni'' ''Installing CNI''"
  have r1: "roomFor env s1 (Suc k)" and p1: "\<not> parked s1"
    unfolding s1_def by (rule logEvent_sent [OF room])+
  have a1: "adds s s1 [?ev1] []"
    unfolding s1_def by (rule adds_logEvent)
  obtain r st where run:
    "InstallCNI env p (ProvisionResult_Kubeconfig result) (ClusterSpec_CNI spec) cp0 (pst s1) = (r, st)"
    by (cases "InstallCNI env p (ProvisionResult_Kubeconfig result) (ClusterSpec_CNI spec) cp0 (pst s1)")
  show ?thesis
  proof (cases r)
    case None
    then have eq: "installCNIStep env cid p spec cp0 result s = s1\<lparr>pst := st\<rparr>"
      using run p1 by (simp add: installCNIStep_def s1_def [symmetric] Let_def)
    have "roomFor env (s1\<lparr>pst := st\<rparr>) k"
      using roomFor_less [OF r1, of k] by simp
    moreover have "adds s (s1\<lparr>pst := st\<rparr>) [?ev1] (replicate 0 ''failed'')"
      using a1 by simp
    moreover have "\<forall>ev\<in>set [?ev1]. Event_Level ev = ''error'' \<longrightarrow>
        isErrorEvent ''Failed to install CNI: '' ev"
      by simp
    ultimately show ?thesis
      unfolding eq by (intro exI [of _ "[?ev1]"] exI [of _ 0] conjI)
  next
    case (Some err)
    let ?ev2 = "eventAt env (tick st) cid ''error'' ''localhost'' ''error''
        (''Failed to install CNI'' @ '': '' @ errorText err)"
    have eq: "installCNIStep env cid p spec cp0 result s =
        logError env cid ''Failed to install CNI'' err (s1\<lparr>pst := st\<rparr>)"
      using run p1 Some by (simp add: installCNIStep_def s1_def [symmetric] Let_def)
    have r1': "roomFor env (s1\<lparr>pst := st\<rparr>) (Suc k)"
      using r1 by simp
    have "roomFor env (logError env cid ''Failed to install CNI'' err (s1\<lparr>pst := st\<rparr>)) k"
      by (rule logError_sent(1) [OF r1'])
    moreover have "adds s (logError env cid ''Failed to install CNI'' err (s1\<lparr>pst := st\<rparr>))
        [?ev1, ?ev2] (replicate 1 ''failed'')"
      using adds_trans [OF a1, of _ "[?ev2]" "[''failed'']"]
        adds_logError [OF r1', of cid "''Failed to install CNI''" err]
      by simp
    moreover have "\<forall>ev\<in>set [?ev1, ?ev2]. Event_Level ev = ''error'' \<longrightarrow>
        isErrorEvent ''Failed to install CNI: '' ev"
      using isErrorEvent_eventAt [of "''Failed to install CNI''" env "tick st" cid "errorText err"]
      by simp
    ultimately show ?thesis
      unfolding eq by (intro exI [of _ "[?ev1, ?ev2]"] exI [of _ 1] conjI)
  qed
qed

lemma installCNIStep_fails:
  fixes env cid cp0 s
  defines "s1 \<equiv> logEvent env cid ''info'' (HostSpec_Address cp0) ''cni'' ''Installing CNI'' s"
  assumes room: "roomFor env s (Suc (Suc k))"
    and run: "InstallCNI env p (ProvisionResult_Kubeconfig result) (ClusterSpec_CNI spec) cp0 (pst s1)
                = (Some err, st)"
  shows "installCNIStep env cid p spec cp0 result s =
           updateStatus env cid ''failed''
             (logEvent env cid ''error'' ''localhost'' ''error''
                (''Failed to install CNI'' @ '': '' @ errorText err) (s1\<lparr>pst := st\<rparr>))"
    and "roomFor env (installCNIStep env cid p spec cp0 result s) k"
proof -
  have r1: "roomFor env s1 (Suc k)" and p1: "\<not> parked s1"
    unfolding s1_def by (rule logEvent_sent [OF room])+
  have r1': "roomFor env (s1\<lparr>pst := st\<rparr>) (Suc k)"
    using r1 by simp
  have eq: "installCNIStep env cid p spec cp0 result s =
        logError env cid ''Failed to install CNI'' err (s1\<lparr>pst := st\<rparr>)"
    using run p1 by (simp add: installCNIStep_def s1_def [symmetric] Let_def)
  show "installCNIStep env cid p spec cp0 result s =
           updateStatus env cid ''failed''
             (logEvent env cid ''error'' ''localhost'' ''error''
                (''Failed to install CNI'' @ '': '' @ errorText err) (s1\<lparr>pst := st\<rparr>))"
    unfolding eq by (rule logError_sent(3) [OF r1'])
  show "roomFor env (installCNIStep env cid p spec cp0 result s) k"
    unfolding eq by (rule logError_sent(1) [OF r1'])
qed

text \<open>The end of the run when no send blocks.\<close>

lemma completeProvisioning_running:
  fixes env cid p spec cp0 result s
  defines "s1 \<equiv> installCNIStep env cid p spec cp0 result (saveArtifacts env cid result s)"
  defines "s2 \<equiv> joinControlPlanes env cid p result (drop 1 (ClusterSpec_ControlPlanes spec)) s1"
  defines "s3 \<equiv> joinWorkers env cid p result (ClusterSpec_Workers spec) s2"
  assumes "\<not> parked s1" "\<not> parked s2" "\<not> parked s3"
  shows "completeProvisioning env cid p spec cp0 result s =
           logEvent env cid ''info'' ''localhost'' ''complete'' ''Cluster provisioned successfully''
             (updateStatus env cid ''ready'' s3)"
  using assms(4,5,6) unfolding s3_def s2_def s1_def
  by (simp add: completeProvisioning_def Let_def)

text \<open>
  A run in which the preparation and the bootstrap succeed ends with the status ready,
  whatever the CNI step and the joins do, when no send blocks.
\<close>

lemma provisionCluster_completes:
  fixes env cid req s st_p cp0
  defines "s2 \<equiv> logEvent env cid ''info'' ''localhost'' ''prepare'' ''Preparing hosts''
                  (updateStatus env cid ''provisioning'' s)"
  defines "s3 \<equiv> logEvent env cid ''info'' (HostSpec_Address cp0) ''bootstrap''
                  ''Bootstrapping control plane'' (s2\<lparr>pst := st_p\<rparr>)"
  assumes valid: "ClusterSpec_Validate (specOfRequest req) = (None, spec)"
    and first: "ClusterSpec_ControlPlanes spec = cp0 # others"
    and room: "roomFor env s (5 + 2 * (length others + length (ClusterSpec_Workers spec)))"
    and prepared: "PrepareHosts env NewKubeadmProvisioner
              (ClusterSpec_ControlPlanes spec @ ClusterSpec_Workers spec)
              (ClusterSpec_ContainerRuntime spec) (ClusterSpec_K8sVersion spec) (pst s2) = (None, st_p)"
    and booted: "BootstrapControlPlane env NewKubeadmProvisioner cp0 spec (pst s3)
                   = (Inr (Some result, None), st_b)"
  shows "\<exists>es j. fst (provisionCluster env cid req s) = None
     \<and> \<not> parked (snd (provisionCluster env cid req s))
     \<and> Cluster_Status (db_cluster (snd (provisionCluster env cid req s))) = ''ready''
     \<and> adds s (snd (provisionCluster env cid req s)) es
          (''provisioning'' # replicate j ''failed'' @ [''ready''])
     \<and> (\<forall>ev\<in>set es. Event_Level ev = ''error'' \<longrightarrow>
           Event_Step ev = ''error'' \<and> Event_Host ev = ''localhost'')"
proof -
  let ?p = NewKubeadmProvisioner
  let ?ws = "ClusterSpec_Workers spec"
  let ?n = "length others + length ?ws"
  define sb where "sb = s3\<lparr>pst := st_b\<rparr>"
  have room': "roomFor env s (Suc (Suc (3 + 2 * ?n)))"
    using room by (simp add: numeral_eq_Suc)
  note reach = provisionCluster_reaches [OF valid first room' prepared [unfolded s2_def]
      booted [unfolded s3_def s2_def], folded s2_def, folded s3_def, folded sb_def]
  obtain ev2 ev3 where a0: "adds s sb [ev2, ev3] [''provisioning'']"
      and info: "Event_Level ev2 = ''info''" "Event_Level ev3 = ''info''"
    using reach(3) by (elim exE conjE) (rule that, assumption+)
  define sa where "sa = saveArtifacts env cid result sb"
  have ra: "roomFor env sa (Suc (Suc (1 + 2 * ?n)))"
    using reach(2) by (simp add: sa_def numeral_eq_Suc)
  have aa: "adds sb sa [] []"
    by (simp add: adds_def sa_def)
  define sc where "sc = installCNIStep env cid ?p spec cp0 result sa"
  obtain esc jc where rc: "roomFor env sc (1 + 2 * ?n)"
      and ac: "adds sa sc esc (replicate jc ''failed'')"
      and ec: "\<forall>ev\<in>set esc. Event_Level ev = ''error'' \<longrightarrow> isErrorEvent ''Failed to install CNI: '' ev"
    using installCNIStep_run [OF ra, of cid ?p spec cp0 result]
    unfolding sc_def [symmetric] by (elim exE conjE) (rule that, assumption+)
  define sj where "sj = joinControlPlanes env cid ?p result others sc"
  have rc': "roomFor env sc (2 * length others + (1 + 2 * length ?ws))"
    using rc by (simp add: algebra_simps)
  obtain trj roundsj esj jj where rj: "roomFor env sj (1 + 2 * length ?ws)"
      and aj: "adds sc sj esj (replicate jj ''failed'')"
      and ej: "\<forall>ev\<in>set esj. Event_Level ev = ''error'' \<longrightarrow>
           isErrorEvent ''Failed to join control plane: '' ev"
    using joinControlPlanes_run [OF rc', of cid ?p result]
    unfolding sj_def [symmetric] by (elim exE conjE) (rule that, assumption+)
  define sw where "sw = joinWorkers env cid ?p result ?ws sj"
  have rj': "roomFor env sj (2 * length ?ws + 1)"
    using rj by (simp add: algebra_simps)
  obtain trw roundsw esw jw where rw: "roomFor env sw 1"
      and aw: "adds sj sw esw (replicate jw ''failed'')"
      and ew: "\<forall>ev\<in>set esw. Event_Level ev = ''error'' \<longrightarrow>
           isErrorEvent ''Failed to join worker: '' ev"
    using joinWorkers_run [OF rj', of cid ?p result]
    unfolding sw_def [symmetric] by (elim exE conjE) (rule that, assumption+)
  define final where "final = logEvent env cid ''info'' ''localhost'' ''complete''
      ''Cluster provisioned successfully'' (updateStatus env cid ''ready'' sw)"
  let ?done = "eventAt env (Suc (tick (pst sw))) cid ''info'' ''localhost'' ''complete''
      ''Cluster provisioned successfully''"
  have others: "drop 1 (ClusterSpec_ControlPlanes spec) = others"
    by (simp add: first)
  have "completeProvisioning env cid ?p spec cp0 result sb = final"
    using roomFor_running [OF rc] roomFor_running [OF rj] roomFor_running [OF rw]
    unfolding final_def sw_def sj_def sc_def sa_def others [symmetric]
    by (rule completeProvisioning_running)
  then have run: "provisionCluster env cid req s = (None, final)"
    unfolding reach(1) by simp
  have rw': "roomFor env (updateStatus env cid ''ready'' sw) (Suc 0)"
    using rw by simp
  have pf: "\<not> parked final"
    unfolding final_def by (rule logEvent_sent(2) [OF rw'])
  have af: "adds sw final [?done] [''ready'']"
    by (simp add: adds_def final_def)
  have status: "Cluster_Status (db_cluster final) = ''ready''"
    by (simp add: final_def)
  have total: "adds s final ([ev2, ev3] @ esc @ esj @ esw @ [?done])
      (''provisioning'' # replicate (jc + jj + jw) ''failed'' @ [''ready''])"
    using a0 aa ac aj aw af by (simp add: adds_def replicate_add)
  have errs: "\<forall>ev\<in>set ([ev2, ev3] @ esc @ esj @ esw @ [?done]). Event_Level ev = ''error'' \<longrightarrow>
           Event_Step ev = ''error'' \<and> Event_Host ev = ''localhost''"
    using info ec ej ew by (auto dest: isErrorEvent_fields)
  from total errs status pf show ?thesis
    unfolding run fst_conv snd_conv
    by (intro exI [of _ "[ev2, ev3] @ esc @ esj @ esw @ [?done]"] exI [of _ "jc + jj + jw"] conjI refl)
qed

lemma emitEvent_no_callback [simp]: "emitEvent env NewKubeadmProvisioner level host step message st = st"
  by (simp add: emitEvent_def NewKubeadmProvisioner_def)

text \<open>
  A run in which \<open>InstallCNI\<close> returns an error: the error is logged, the status is set to
  failed, and the loops over the control planes and the workers run as they would
  otherwise.
\<close>

lemma run_after_cni_error:
  fixes env cid req s st_p cp0 result st_b
  defines "s2 \<equiv> logEvent env cid ''info'' ''localhost'' ''prepare'' ''Preparing hosts''
                  (updateStatus env cid ''provisioning'' s)"
  defines "s3 \<equiv> logEvent env cid ''info'' (HostSpec_Address cp0) ''bootstrap''
                  ''Bootstrapping control plane'' (s2\<lparr>pst := st_p\<rparr>)"
  defines "s4 \<equiv> logEvent env cid ''info'' (HostSpec_Address cp0) ''cni'' ''Installing CNI''
                  (saveArtifacts env cid result (s3\<lparr>pst := st_b\<rparr>))"
  assumes valid: "ClusterSpec_Validate (specOfRequest req) = (None, spec)"
    and first: "ClusterSpec_ControlPlanes spec = cp0 # others"
    and room: "roomFor env s (5 + 2 * (length others + length (ClusterSpec_Workers spec)))"
    and prepared: "PrepareHosts env NewKubeadmProvisioner
              (ClusterSpec_ControlPlanes spec @ ClusterSpec_Workers spec)
              (ClusterSpec_ContainerRuntime spec) (ClusterSpec_K8sVersion spec) (pst s2) = (None, st_p)"
    and booted: "BootstrapControlPlane env NewKubeadmProvisioner cp0 spec (pst s3)
                   = (Inr (Some result, None), st_b)"
    and cni_fails: "InstallCNI env NewKubeadmProvisioner (ProvisionResult_Kubeconfig result)
                      (ClusterSpec_CNI spec) cp0 (pst s4) = (Some err, st_i)"
  shows "\<exists>trC trW roundsC roundsW j n.
       fst (provisionCluster env cid req s) = None
     \<and> \<not> parked (snd (provisionCluster env cid req s))
     \<and> Cluster_Status (db_cluster (snd (provisionCluster env cid req s))) = ''ready''
     \<and> trace (pst (snd (provisionCluster env cid req s))) =
         trace st_i @
         [Insert (eventAt env (tick st_i) cid ''error'' ''localhost'' ''error''
                    (''Failed to install CNI: '' @ errorText err)),
          Update ''failed''] @
         trC @ trW @
         [Update ''ready'',
          Insert (eventAt env n cid ''info'' ''localhost'' ''complete''
                    ''Cluster provisioned successfully'')]
     \<and> map fst roundsC = others
     \<and> marks trC = joinMarks (ProvisionResult_JoinCommand result
                               @ '' --control-plane --certificate-key ''
                               @ ProvisionResult_CertificateKey result) roundsC
     \<and> map fst roundsW = ClusterSpec_Workers spec
     \<and> marks trW = joinMarks (ProvisionResult_JoinCommand result) roundsW
     \<and> statusWrites (snd (provisionCluster env cid req s)) =
         statusWrites s @ [''provisioning'', ''failed''] @ replicate j ''failed'' @ [''ready'']
     \<and> j \<le> length others + length (ClusterSpec_Workers spec)"
proof -
  let ?p = NewKubeadmProvisioner
  let ?ws = "ClusterSpec_Workers spec"
  let ?n = "length others + length ?ws"
  define sb where "sb = s3\<lparr>pst := st_b\<rparr>"
  have room': "roomFor env s (Suc (Suc (3 + 2 * ?n)))"
    using room by (simp add: numeral_eq_Suc)
  note reach = provisionCluster_reaches [OF valid first room' prepared [unfolded s2_def]
      booted [unfolded s3_def s2_def], folded s2_def, folded s3_def, folded sb_def]
  obtain ev2 ev3 where a0: "adds s sb [ev2, ev3] [''provisioning'']"
    using reach(3) by (elim exE conjE) (rule that, assumption+)
  define sa where "sa = saveArtifacts env cid result sb"
  have ra: "roomFor env sa (Suc (Suc (1 + 2 * ?n)))"
    using reach(2) by (simp add: sa_def numeral_eq_Suc)
  define sc where "sc = installCNIStep env cid ?p spec cp0 result sa"
  let ?err = "eventAt env (tick st_i) cid ''error'' ''localhost'' ''error''
                    (''Failed to install CNI: '' @ errorText err)"
  have s4: "s4 = logEvent env cid ''info'' (HostSpec_Address cp0) ''cni'' ''Installing CNI'' sa"
    by (simp add: s4_def sa_def sb_def)
  note step = installCNIStep_fails [OF ra cni_fails [unfolded s4], folded sc_def, folded s4]
  have rc: "roomFor env sc (1 + 2 * ?n)"
    by (rule step(2))
  have trc: "trace (pst sc) = trace st_i @ [Insert ?err, Update ''failed'']"
    by (simp add: step(1))
  have wc: "statusWrites sc = statusWrites s @ [''provisioning'', ''failed'']"
    using a0 by (simp add: step(1) s4 sa_def adds_def)
  define sj where "sj = joinControlPlanes env cid ?p result others sc"
  have rc': "roomFor env sc (2 * length others + (1 + 2 * length ?ws))"
    using rc by (simp add: algebra_simps)
  obtain trj roundsj esj jj where rj: "roomFor env sj (1 + 2 * length ?ws)"
      and trj: "trace (pst sj) = trace (pst sc) @ trj"
      and mj: "map fst roundsj = others"
        "marks trj = joinMarks (ProvisionResult_JoinCommand result
                               @ '' --control-plane --certificate-key ''
                               @ ProvisionResult_CertificateKey result) roundsj"
      and aj: "adds sc sj esj (replicate jj ''failed'')" and bj: "jj \<le> length others"
    using joinControlPlanes_run [OF rc', of cid ?p result]
    unfolding sj_def [symmetric] by (elim exE conjE) (rule that, assumption+)
  define sw where "sw = joinWorkers env cid ?p result ?ws sj"
  have rj': "roomFor env sj (2 * length ?ws + 1)"
    using rj by (simp add: algebra_simps)
  obtain trw roundsw esw jw where rw: "roomFor env sw 1"
      and trw: "trace (pst sw) = trace (pst sj) @ trw"
      and mw: "map fst roundsw = ?ws" "marks trw = joinMarks (ProvisionResult_JoinCommand result) roundsw"
      and aw: "adds sj sw esw (replicate jw ''failed'')" and bw: "jw \<le> length ?ws"
    using joinWorkers_run [OF rj', of cid ?p result]
    unfolding sw_def [symmetric] by (elim exE conjE) (rule that, assumption+)
  define final where "final = logEvent env cid ''info'' ''localhost'' ''complete''
      ''Cluster provisioned successfully'' (updateStatus env cid ''ready'' sw)"
  let ?done = "eventAt env (Suc (tick (pst sw))) cid ''info'' ''localhost'' ''complete''
      ''Cluster provisioned successfully''"
  have others: "drop 1 (ClusterSpec_ControlPlanes spec) = others"
    by (simp add: first)
  have "completeProvisioning env cid ?p spec cp0 result sb = final"
    using roomFor_running [OF rc] roomFor_running [OF rj] roomFor_running [OF rw]
    unfolding final_def sw_def sj_def sc_def sa_def others [symmetric]
    by (rule completeProvisioning_running)
  then have run: "provisionCluster env cid req s = (None, final)"
    unfolding reach(1) by simp
  have rw': "roomFor env (updateStatus env cid ''ready'' sw) (Suc 0)"
    using rw by simp
  have pf: "\<not> parked final"
    unfolding final_def by (rule logEvent_sent(2) [OF rw'])
  have status: "Cluster_Status (db_cluster final) = ''ready''"
    by (simp add: final_def)
  have bound: "jj + jw \<le> length others + length ?ws"
    using bj bw by simp
  have tr: "trace (pst final) = trace st_i @ [Insert ?err, Update ''failed''] @ trj @ trw @
      [Update ''ready'', Insert ?done]"
    by (simp add: final_def trw trj trc)
  have ws: "statusWrites final =
      statusWrites s @ [''provisioning'', ''failed''] @ replicate (jj + jw) ''failed'' @ [''ready'']"
    using aj aw by (simp add: final_def adds_def wc replicate_add)
  from pf status tr mj mw ws bound show ?thesis
    unfolding run fst_conv snd_conv
    by (intro exI [of _ trj] exI [of _ trw] exI [of _ roundsj] exI [of _ roundsw]
        exI [of _ "jj + jw"] exI [of _ "Suc (tick (pst sw))"] conjI refl)
qed


section \<open>Scripted runs of the orchestrator\<close>

lemma joinControlPlanes_job [simp]:
  "db_job (joinControlPlanes env cid p result cps s) = db_job s"
  by (induction cps arbitrary: s) (simp_all add: Let_def split: prod.splits option.splits)

lemma joinWorkers_job [simp]:
  "db_job (joinWorkers env cid p result ws s) = db_job s"
  by (induction ws arbitrary: s) (simp_all add: Let_def split: prod.splits option.splits)

lemma installCNIStep_job [simp]:
  "db_job (installCNIStep env cid p spec cp0 result s) = db_job s"
  by (simp add: installCNIStep_def Let_def split: prod.splits option.splits)

lemma completeProvisioning_job [simp]:
  "db_job (completeProvisioning env cid p spec cp0 result s) = db_job s"
  by (simp add: completeProvisioning_def Let_def)

lemma provisionCluster_job:
  "db_job (snd (provisionCluster env cid req s)) = db_job s"
  unfolding provisionCluster_def Let_def
  by (simp split: sum.split prod.split option.split list.split)

lemma provisionCluster_invalid:
  "fst (ClusterSpec_Validate (specOfRequest req)) = Some err \<Longrightarrow>
   provisionCluster env cid req s =
     (None, logError env cid ''Invalid cluster spec'' err (updateStatus env cid ''provisioning'' s))"
  by (cases "ClusterSpec_Validate (specOfRequest req)")
    (simp add: provisionCluster_def GetProvisioner_kubeadm ValidateSpec_def)

lemma scripted_room: "k \<le> 256 \<Longrightarrow> roomFor (scriptedEnv failing) (createdState req) k"
  by (simp add: roomFor_def scriptedEnv_def createdState_def)

lemma scripted_NewSSHClient:
  "HostSpec_SSHKey host = [] \<Longrightarrow> HostSpec_SSHKeyPath host \<noteq> [] \<Longrightarrow>
   NewSSHClient (scriptedEnv failing) host st =
     (Inr \<lparr>SSHClient_host = host\<rparr>,
      st\<lparr>trace := trace st @ [Connect host], tick := Suc (Suc (tick st))\<rparr>)"
  by (simp add: NewSSHClient_def NewSSHClient_dial_def scriptedEnv_def Let_def)

lemma scripted_RunCommand:
  "RunCommand (scriptedEnv failing) client command st =
     (if command = failing then ([], ''boom'', Some (Error ''exit status 1''))
      else if HasPrefix command ''kubeadm init'' then (initTranscript, [], None)
      else ([], [], None),
      st\<lparr>tick := Suc (tick st), trace := trace st @ [Command (SSHClient_host client) command]\<rparr>)"
  by (simp add: RunCommand_def scriptedEnv_def)

lemma scripted_RunCommand_plain:
  "command \<noteq> failing \<Longrightarrow> \<not> HasPrefix command ''kubeadm init'' \<Longrightarrow>
   RunCommand (scriptedEnv failing) client command st =
     (([], [], None),
      st\<lparr>tick := Suc (tick st), trace := trace st @ [Command (SSHClient_host client) command]\<rparr>)"
  by (simp add: scripted_RunCommand)

lemma prepareCommands_not_init: "\<forall>c\<in>set prepareCommands. \<not> HasPrefix c ''kubeadm init''"
  by (simp add: prepareCommands_def HasPrefix_def osReleaseCommand_def loadModulesScript_def
      sysctlScript_def containerdScript_def k8sToolsScript_def newline_def)

lemma Split_version: "Split ''1.28.0'' ''.'' = [''1'', ''28'', ''0'']"
  by code_simp

lemma scripted_prepareHost:
  assumes "failing \<notin> set prepareCommands"
    and "HostSpec_SSHKey host = []" "HostSpec_SSHKeyPath host \<noteq> []"
  shows "fst (prepareHost (scriptedEnv failing) NewKubeadmProvisioner host ''containerd'' ''1.28.0'' st) = None"
proof -
  have plain: "\<And>c client st. c \<in> set prepareCommands \<Longrightarrow>
      RunCommand (scriptedEnv failing) client c st =
        (([], [], None),
         st\<lparr>tick := Suc (tick st), trace := trace st @ [Command (SSHClient_host client) c]\<rparr>)"
    using assms(1) prepareCommands_not_init by (intro scripted_RunCommand_plain) auto
  note cmds = plain [unfolded prepareCommands_def, simplified]
  show ?thesis
    by (simp add: prepareHost_def scripted_NewSSHClient [OF assms(2,3)] TestConnection_def
        GetHostInfo_def disableSwap_def mapIndex_def installContainerRuntime_def
        installContainerd_def installKubernetesTools_def Split_version cmds)
qed

lemma scripted_PrepareHosts:
  assumes "failing \<notin> set prepareCommands"
  shows "list_all (\<lambda>h. HostSpec_SSHKey h = [] \<and> HostSpec_SSHKeyPath h \<noteq> []) hosts \<Longrightarrow>
    fst (PrepareHosts (scriptedEnv failing) NewKubeadmProvisioner hosts ''containerd'' ''1.28.0'' st) = None"
proof (induction hosts arbitrary: st)
  case Nil
  show ?case by simp
next
  case (Cons h hosts)
  obtain r st1 where run:
    "prepareHost (scriptedEnv failing) NewKubeadmProvisioner h ''containerd'' ''1.28.0'' st = (r, st1)"
    by (cases "prepareHost (scriptedEnv failing) NewKubeadmProvisioner h ''containerd'' ''1.28.0'' st")
  have "r = None"
    using scripted_prepareHost [OF assms, of h st] Cons.prems run by simp
  with run Cons show ?case by simp
qed

lemma extract_initTranscript:
  "extractJoinCommand initTranscript = workerJoinCommand"
  "extractCertificateKey initTranscript = Inr ''KEY''"
  by code_simp+

lemma kubeadmInitCommand_prefix: "HasPrefix (kubeadmInitCommand spec) ''kubeadm init''"
  by (simp add: kubeadmInitCommand_def HasPrefix_def)

lemma scripted_Bootstrap:
  assumes "\<not> HasPrefix failing ''kubeadm init''"
    and "failing \<noteq> copyKubeconfigCommand" "failing \<noteq> ''cat /etc/kubernetes/admin.conf''"
    and "HostSpec_SSHKey host = []" "HostSpec_SSHKeyPath host \<noteq> []"
  shows "\<exists>result st'.
     BootstrapControlPlane (scriptedEnv failing) NewKubeadmProvisioner host spec st
       = (Inr (Some result, None), st')
     \<and> ProvisionResult_JoinCommand result = workerJoinCommand"
proof -
  have init: "kubeadmInitCommand spec \<noteq> failing"
    using assms(1) kubeadmInitCommand_prefix [of spec] by auto
  have copy: "\<not> HasPrefix copyKubeconfigCommand ''kubeadm init''"
    and cat: "\<not> HasPrefix ''cat /etc/kubernetes/admin.conf'' ''kubeadm init''"
    by (simp_all add: copyKubeconfigCommand_def HasPrefix_def)
  show ?thesis
    using init assms(2,3) copy cat
    by (simp add: BootstrapControlPlane_def bootstrapArtifacts_def scripted_NewSSHClient [OF assms(4,5)]
        scripted_RunCommand kubeadmInitCommand_prefix extract_initTranscript Let_def)
qed


lemma InstallCNI_cilium:
  "fst (InstallCNI env p kubeconfig ''cilium'' controlPlane st) \<noteq> None"
  by (simp add: InstallCNI_def cniManifest_def Let_def)

lemma not_prepare_commands:
  "workerJoinCommand \<notin> set prepareCommands" "''none'' \<notin> set prepareCommands"
  by (simp_all add: prepareCommands_def workerJoinCommand_def osReleaseCommand_def
      loadModulesScript_def sysctlScript_def containerdScript_def k8sToolsScript_def newline_def)

lemma not_bootstrap_commands:
  "\<not> HasPrefix workerJoinCommand ''kubeadm init''" "workerJoinCommand \<noteq> copyKubeconfigCommand"
  "workerJoinCommand \<noteq> ''cat /etc/kubernetes/admin.conf''"
  "\<not> HasPrefix ''none'' ''kubeadm init''" "''none'' \<noteq> copyKubeconfigCommand"
  "''none'' \<noteq> ''cat /etc/kubernetes/admin.conf''"
  by (simp_all add: workerJoinCommand_def copyKubeconfigCommand_def HasPrefix_def)

lemma hostAt_key [simp]:
  "HostSpec_SSHKey (hostAt name addr) = []" "HostSpec_SSHKeyPath (hostAt name addr) \<noteq> []"
  "HostSpec_Address (hostAt name addr) = addr"
  by (simp_all add: hostAt_def)

lemma validateHosts_hostAt:
  "addr \<noteq> [] \<Longrightarrow> fst (HostSpec_Validate (hostAt name addr)) = None"
  by (simp add: HostSpec_Validate_def hostAt_def Let_def)

lemma scripted_valid:
  assumes "cni \<noteq> []" and "validateHosts workers = None"
  shows "ClusterSpec_Validate (specOfRequest (requestWith cni workers)) = (None, scriptedSpec cni workers)"
proof -
  have "withDefaults (specOfRequest (requestWith cni workers)) = scriptedSpec cni workers"
    using assms(1) by (simp add: withDefaults_def specOfRequest_def requestWith_def scriptedSpec_def)
  moreover have "validateHosts (hostAt ''cp1'' ''10.0.0.1'' # workers) = None"
    using assms(2) by (simp add: validateHosts_hostAt)
  ultimately show ?thesis
    by (simp add: ClusterSpec_Validate_accepted specOfRequest_def requestWith_def)
qed

lemma scriptedSpec_fields [simp]:
  "ClusterSpec_ControlPlanes (scriptedSpec cni workers) = [hostAt ''cp1'' ''10.0.0.1'']"
  "ClusterSpec_Workers (scriptedSpec cni workers) = workers"
  "ClusterSpec_K8sVersion (scriptedSpec cni workers) = ''1.28.0''"
  "ClusterSpec_ContainerRuntime (scriptedSpec cni workers) = ''containerd''"
  "ClusterSpec_CNI (scriptedSpec cni workers) = cni"
  by (simp_all add: scriptedSpec_def)

lemma pair_with_snd: "fst p = a \<Longrightarrow> p = (a, snd p)"
  by (cases p) simp

text \<open>
  On the scripted remote side the preparation succeeds in whatever state it is called,
  and so does the bootstrap, which returns the join command of the transcript.
\<close>

lemma scripted_prepared:
  assumes "failing \<notin> set prepareCommands"
    and "list_all (\<lambda>h. HostSpec_SSHKey h = [] \<and> HostSpec_SSHKeyPath h \<noteq> []) workers"
  shows "PrepareHosts (scriptedEnv failing) NewKubeadmProvisioner
              (ClusterSpec_ControlPlanes (scriptedSpec cni workers)
                 @ ClusterSpec_Workers (scriptedSpec cni workers))
              (ClusterSpec_ContainerRuntime (scriptedSpec cni workers))
              (ClusterSpec_K8sVersion (scriptedSpec cni workers)) st =
           (None, snd (PrepareHosts (scriptedEnv failing) NewKubeadmProvisioner
              (ClusterSpec_ControlPlanes (scriptedSpec cni workers)
                 @ ClusterSpec_Workers (scriptedSpec cni workers))
              (ClusterSpec_ContainerRuntime (scriptedSpec cni workers))
              (ClusterSpec_K8sVersion (scriptedSpec cni workers)) st))"
proof (rule pair_with_snd)
  show "fst (PrepareHosts (scriptedEnv failing) NewKubeadmProvisioner
              (ClusterSpec_ControlPlanes (scriptedSpec cni workers)
                 @ ClusterSpec_Workers (scriptedSpec cni workers))
              (ClusterSpec_ContainerRuntime (scriptedSpec cni workers))
              (ClusterSpec_K8sVersion (scriptedSpec cni workers)) st) = None"
    using scripted_PrepareHosts [OF assms(1), of "hostAt ''cp1'' ''10.0.0.1'' # workers"] assms(2)
    by simp
qed

lemma scripted_bootstrapped:
  assumes "\<not> HasPrefix failing ''kubeadm init''"
    and "failing \<noteq> copyKubeconfigCommand" "failing \<noteq> ''cat /etc/kubernetes/admin.conf''"
  shows "\<exists>result st'.
     BootstrapControlPlane (scriptedEnv failing) NewKubeadmProvisioner (hostAt ''cp1'' ''10.0.0.1'')
        (scriptedSpec cni workers) st = (Inr (Some result, None), st')
     \<and> ProvisionResult_JoinCommand result = workerJoinCommand"
  using scripted_Bootstrap [OF assms, of "hostAt ''cp1'' ''10.0.0.1''"] by simp

lemma worker_key: "list_all (\<lambda>h. HostSpec_SSHKey h = [] \<and> HostSpec_SSHKeyPath h \<noteq> [])
    [hostAt ''w1'' ''10.0.0.2'']"
  by simp

lemma worker_valid: "validateHosts [hostAt ''w1'' ''10.0.0.2''] = None"
  by (simp add: validateHosts_hostAt)


lemma cilium_valid:
  "ClusterSpec_Validate (specOfRequest ciliumRequest) = (None, scriptedSpec ''cilium'' [hostAt ''w1'' ''10.0.0.2''])"
  unfolding ciliumRequest_def by (rule scripted_valid [OF _ worker_valid]) simp

lemma scripted_first:
  "ClusterSpec_ControlPlanes (scriptedSpec cni workers) = hostAt ''cp1'' ''10.0.0.1'' # []"
  by simp

lemma keyless_invalid:
  "fst (ClusterSpec_Validate (specOfRequest keylessRequest)) =
     Some (ErrInvalidSpec ''SSH key or key path is required for host 10.0.0.2'')"
  by (simp add: keylessRequest_def specOfRequest_def requestWith_def ClusterSpec_Validate_accepted
      validateHosts_hostAt HostSpec_Validate_def hostAt_def)

text \<open>
  A run on the scripted remote side, from the state \<open>CreateCluster\<close> leaves, for a
  request of one control plane and at most one worker, with no failing command among
  those of the preparation and the bootstrap: it returns with the cluster ready.
\<close>

lemma scripted_run_completes:
  assumes valid: "ClusterSpec_Validate (specOfRequest req) = (None, scriptedSpec cni workers)"
    and prep: "failing \<notin> set prepareCommands"
    and keys: "list_all (\<lambda>h. HostSpec_SSHKey h = [] \<and> HostSpec_SSHKeyPath h \<noteq> []) workers"
    and boot: "\<not> HasPrefix failing ''kubeadm init''" "failing \<noteq> copyKubeconfigCommand"
      "failing \<noteq> ''cat /etc/kubernetes/admin.conf''"
    and few: "length workers \<le> 100"
  shows "fst (provisionCluster (scriptedEnv failing) 1 req (createdState req)) = None"
    and "\<not> parked (snd (provisionCluster (scriptedEnv failing) 1 req (createdState req)))"
    and "Cluster_Status (db_cluster (snd (provisionCluster (scriptedEnv failing) 1 req
           (createdState req)))) = ''ready''"
    and "\<forall>ev\<in>set (eventsSince (createdState req)
             (snd (provisionCluster (scriptedEnv failing) 1 req (createdState req)))).
           Event_Level ev = ''error'' \<longrightarrow> Event_Step ev = ''error'' \<and> Event_Host ev = ''localhost''"
proof -
  let ?env = "scriptedEnv failing"
  let ?s = "createdState req"
  let ?spec = "scriptedSpec cni workers"
  have room: "roomFor ?env ?s (5 + 2 * (length ([]::HostSpec list) + length (ClusterSpec_Workers ?spec)))"
    using few by (intro scripted_room) simp
  let ?s2 = "logEvent ?env 1 ''info'' ''localhost'' ''prepare'' ''Preparing hosts''
      (updateStatus ?env 1 ''provisioning'' ?s)"
  let ?st_p = "snd (PrepareHosts ?env NewKubeadmProvisioner
      (ClusterSpec_ControlPlanes ?spec @ ClusterSpec_Workers ?spec)
      (ClusterSpec_ContainerRuntime ?spec) (ClusterSpec_K8sVersion ?spec) (pst ?s2))"
  let ?s3 = "logEvent ?env 1 ''info'' (HostSpec_Address (hostAt ''cp1'' ''10.0.0.1'')) ''bootstrap''
      ''Bootstrapping control plane'' (?s2\<lparr>pst := ?st_p\<rparr>)"
  obtain result st_b where booted: "BootstrapControlPlane ?env NewKubeadmProvisioner
        (hostAt ''cp1'' ''10.0.0.1'') ?spec (pst ?s3) = (Inr (Some result, None), st_b)"
    using scripted_bootstrapped [OF boot, of cni workers "pst ?s3"]
    by (elim exE conjE) (rule that)
  obtain es j where c: "fst (provisionCluster ?env 1 req ?s) = None"
      "\<not> parked (snd (provisionCluster ?env 1 req ?s))"
      "Cluster_Status (db_cluster (snd (provisionCluster ?env 1 req ?s))) = ''ready''"
      "adds ?s (snd (provisionCluster ?env 1 req ?s)) es
          (''provisioning'' # replicate j ''failed'' @ [''ready''])"
      "\<forall>ev\<in>set es. Event_Level ev = ''error'' \<longrightarrow>
           Event_Step ev = ''error'' \<and> Event_Host ev = ''localhost''"
    using provisionCluster_completes [OF valid scripted_first room scripted_prepared [OF prep keys]
        booted]
    by (elim exE conjE) (rule that, assumption+)
  show "fst (provisionCluster ?env 1 req ?s) = None"
    and "\<not> parked (snd (provisionCluster ?env 1 req ?s))"
    and "Cluster_Status (db_cluster (snd (provisionCluster ?env 1 req ?s))) = ''ready''"
    by (rule c)+
  have "eventsSince ?s (snd (provisionCluster ?env 1 req ?s)) = es"
    using c(4) by (simp add: adds_def eventsSince_def)
  with c(5) show "\<forall>ev\<in>set (eventsSince ?s (snd (provisionCluster ?env 1 req ?s))).
           Event_Level ev = ''error'' \<longrightarrow> Event_Step ev = ''error'' \<and> Event_Host ev = ''localhost''"
    by simp
qed

text \<open>
  C1 (status monotonicity). A request for one control plane and no worker with the CNI
  cilium, on a remote side where everything succeeds: \<open>InstallCNI\<close> refuses cilium,
  \<open>logError\<close> writes the status failed, the run goes on and writes ready. The values
  written to the status are provisioning, failed, ready.
\<close>

theorem status_failed_then_ready:
  "statusWrites (snd (provisionCluster (scriptedEnv ''none'') 1 soloCiliumRequest
      (createdState soloCiliumRequest))) = [''provisioning'', ''failed'', ''ready'']"
proof -
  let ?env = "scriptedEnv ''none''"
  let ?s = "createdState soloCiliumRequest"
  let ?spec = "scriptedSpec ''cilium'' []"
  let ?cp = "hostAt ''cp1'' ''10.0.0.1''"
  have valid: "ClusterSpec_Validate (specOfRequest soloCiliumRequest) = (None, ?spec)"
    unfolding soloCiliumRequest_def by (rule scripted_valid) simp_all
  have keys: "list_all (\<lambda>h. HostSpec_SSHKey h = [] \<and> HostSpec_SSHKeyPath h \<noteq> []) []"
    by simp
  have room: "roomFor ?env ?s (5 + 2 * (length ([]::HostSpec list) + length (ClusterSpec_Workers ?spec)))"
    by (intro scripted_room) simp
  let ?s2 = "logEvent ?env 1 ''info'' ''localhost'' ''prepare'' ''Preparing hosts''
      (updateStatus ?env 1 ''provisioning'' ?s)"
  let ?st_p = "snd (PrepareHosts ?env NewKubeadmProvisioner
      (ClusterSpec_ControlPlanes ?spec @ ClusterSpec_Workers ?spec)
      (ClusterSpec_ContainerRuntime ?spec) (ClusterSpec_K8sVersion ?spec) (pst ?s2))"
  let ?s3 = "logEvent ?env 1 ''info'' (HostSpec_Address ?cp) ''bootstrap''
      ''Bootstrapping control plane'' (?s2\<lparr>pst := ?st_p\<rparr>)"
  obtain result st_b where booted: "BootstrapControlPlane ?env NewKubeadmProvisioner ?cp ?spec (pst ?s3)
      = (Inr (Some result, None), st_b)"
    using scripted_bootstrapped [OF not_bootstrap_commands(4,5,6), of "''cilium''" "[]" "pst ?s3"]
    by (elim exE conjE) (rule that)
  let ?s4 = "logEvent ?env 1 ''info'' (HostSpec_Address ?cp) ''cni'' ''Installing CNI''
      (saveArtifacts ?env 1 result (?s3\<lparr>pst := st_b\<rparr>))"
  obtain err st_i where cni: "InstallCNI ?env NewKubeadmProvisioner (ProvisionResult_Kubeconfig result)
      (ClusterSpec_CNI ?spec) ?cp (pst ?s4) = (Some err, st_i)"
    using InstallCNI_cilium [of ?env NewKubeadmProvisioner "ProvisionResult_Kubeconfig result" ?cp
        "pst ?s4"]
    by (cases "InstallCNI ?env NewKubeadmProvisioner (ProvisionResult_Kubeconfig result)
      (ClusterSpec_CNI ?spec) ?cp (pst ?s4)") auto
  obtain j where writes: "statusWrites (snd (provisionCluster ?env 1 soloCiliumRequest ?s)) =
         statusWrites ?s @ [''provisioning'', ''failed''] @ replicate j ''failed'' @ [''ready'']"
      and few: "j \<le> length ([]::HostSpec list) + length (ClusterSpec_Workers ?spec)"
    using run_after_cni_error [OF valid scripted_first room
        scripted_prepared [OF not_prepare_commands(2) keys] booted cni]
    by (elim exE conjE) (rule that, assumption+)
  from few have "j = 0" by simp
  with writes show ?thesis
    by (simp add: createdState_def)
qed

text \<open>
  C3 as stated fails. On a run that ends with the cluster ready (the request with the CNI
  cilium on a remote side where everything succeeds) the job still has status pending
  and progress 0; on a run that fails (a worker without a key) the cluster is failed and
  the job still has status pending and no error text.
\<close>

theorem job_lifecycle_counterexample:
  "Cluster_Status (db_cluster (snd (provisionCluster (scriptedEnv ''none'') 1 ciliumRequest
       (createdState ciliumRequest)))) = ''ready''
   \<and> Job_Status (db_job (snd (provisionCluster (scriptedEnv ''none'') 1 ciliumRequest
       (createdState ciliumRequest)))) = ''pending''
   \<and> Job_Progress (db_job (snd (provisionCluster (scriptedEnv ''none'') 1 ciliumRequest
       (createdState ciliumRequest)))) = 0
   \<and> Cluster_Status (db_cluster (snd (provisionCluster (scriptedEnv ''none'') 1 keylessRequest
       (createdState keylessRequest)))) = ''failed''
   \<and> Job_Status (db_job (snd (provisionCluster (scriptedEnv ''none'') 1 keylessRequest
       (createdState keylessRequest)))) = ''pending''
   \<and> Job_Error (db_job (snd (provisionCluster (scriptedEnv ''none'') 1 keylessRequest
       (createdState keylessRequest)))) = []"
proof -
  have ready: "Cluster_Status (db_cluster (snd (provisionCluster (scriptedEnv ''none'') 1 ciliumRequest
       (createdState ciliumRequest)))) = ''ready''"
    by (rule scripted_run_completes(3) [OF cilium_valid not_prepare_commands(2) worker_key
          not_bootstrap_commands(4,5,6)]) simp
  have room: "roomFor (scriptedEnv ''none'')
      (updateStatus (scriptedEnv ''none'') 1 ''provisioning'' (createdState keylessRequest)) (Suc 0)"
    using scripted_room [of "Suc 0" "''none''" keylessRequest] by simp
  have failed: "Cluster_Status (db_cluster (snd (provisionCluster (scriptedEnv ''none'') 1 keylessRequest
       (createdState keylessRequest)))) = ''failed''"
    unfolding provisionCluster_invalid [OF keyless_invalid] snd_conv logError_sent(3) [OF room]
    by simp
  have job: "\<And>env req. db_job (snd (provisionCluster env 1 req (createdState req)))
      = newProvisionJob 1 1 0 0"
    unfolding provisionCluster_job by (simp add: createdState_def)
  have pending: "Job_Status (newProvisionJob 1 1 0 0) = ''pending''"
    and zero: "Job_Progress (newProvisionJob 1 1 0 0) = 0"
    and no_error: "Job_Error (newProvisionJob 1 1 0 0) = []"
    by (simp_all add: newProvisionJob_def)
  show ?thesis
    unfolding job pending zero no_error using ready failed by (intro conjI refl)
qed

text \<open>
  C3, amended. \<open>CreateCluster\<close> inserts the job with status pending, progress 0 and no
  error, and the provisioning task never writes to the job: whatever the request, the
  remote side and the outcome, the job after the run is the job before it.
\<close>

theorem job_untouched:
  "db_job (snd (provisionCluster env cid req s)) = db_job s
   \<and> Job_Status (newProvisionJob i cid t1 t2) = ''pending''
   \<and> Job_Progress (newProvisionJob i cid t1 t2) = 0
   \<and> Job_Error (newProvisionJob i cid t1 t2) = []"
  by (simp add: provisionCluster_job newProvisionJob_def)

theorem job_untouched_witness:
  "db_job (snd (provisionCluster (scriptedEnv ''none'') 1 ciliumRequest (createdState ciliumRequest)))
     = newProvisionJob 1 1 0 0
   \<and> Job_Status (newProvisionJob 1 1 0 0) = ''pending''
   \<and> Job_Progress (newProvisionJob 1 1 0 0) = 0"
  using job_untouched [of "scriptedEnv ''none''" 1 ciliumRequest "createdState ciliumRequest" 1 0 0]
  by (simp add: createdState_def)






lemma NewProvisionEvent_Level [simp]:
  "ProvisionEvent_Level (NewProvisionEvent t level host step message) = level"
  by (simp add: NewProvisionEvent_def)








section \<open>Properties of the JSON views\<close>

text \<open>
  C8 (secret exposure). The JSON view of a cluster, alone, in the envelope of a
  response or in a list, does not depend on the kubeconfig, the join command and the
  certificate key: two clusters that differ only there have the same views.
\<close>

theorem secrets_not_serialized:
  "marshalCluster (withSecrets kubeconfig joinCommand certificateKey c) = marshalCluster c
   \<and> GetCluster_response (withSecrets kubeconfig joinCommand certificateKey c) = GetCluster_response c
   \<and> CreateCluster_response (withSecrets kubeconfig joinCommand certificateKey c)
       = CreateCluster_response c
   \<and> ListClusters_response (map (withSecrets kubeconfig joinCommand certificateKey) cs)
       = ListClusters_response cs"
proof -
  have m: "\<And>c. marshalCluster (withSecrets kubeconfig joinCommand certificateKey c) = marshalCluster c"
    by (simp add: marshalCluster_def withSecrets_def)
  show ?thesis
    by (simp add: m GetCluster_response_def CreateCluster_response_def ListClusters_response_def
        comp_def)
qed

text \<open>
  A row with a kubeconfig, a join command and a certificate key has the view of the row
  as \<open>CreateCluster\<close> first wrote it, without them.
\<close>

theorem secrets_not_serialized_witness:
  "marshalCluster (withSecrets (Some ''apiVersion: v1'') workerJoinCommand ''KEY''
       (newClusterRow 1 calicoRequest 0 0))
     = marshalCluster (newClusterRow 1 calicoRequest 0 0)"
  using secrets_not_serialized [of "Some ''apiVersion: v1''" workerJoinCommand "''KEY''"
      "newClusterRow 1 calicoRequest 0 0" "[]"]
  by (elim conjE)

section \<open>Properties of the event stream\<close>

text \<open>
  What the replay writes when nothing else writes to the connection: the rows found by
  the query, earliest first. They are the latest rows of the cluster, at most 50, in
  ascending order of timestamp.
\<close>

lemma replay_writes:
  assumes "replays s c = Some (Writing events n)" and "n \<le> length events"
  shows "\<exists>s'. exec (replicate n (ReplayWrite c True)) s = Some s'
           \<and> carried s' c = carried s c @ rev (take n events)
           \<and> replays s' c = Some (Writing events 0)"
  using assms
proof (induction n arbitrary: s)
  case 0
  then show ?case by simp
next
  case (Suc n)
  define s1 where "s1 = s\<lparr>replays := (replays s)(c \<mapsto> Writing events n),
      carried := (carried s)(c := carried s c @ [events ! n])\<rparr>"
  have step: "fire (ReplayWrite c True) s = Some s1"
    using Suc.prems(1) by (simp add: s1_def)
  have "replays s1 c = Some (Writing events n)" and "n \<le> length events"
    using Suc.prems(2) by (simp_all add: s1_def)
  from Suc.IH [OF this] obtain s' where rest: "exec (replicate n (ReplayWrite c True)) s1 = Some s'"
      "carried s' c = carried s1 c @ rev (take n events)" "replays s' c = Some (Writing events 0)"
    by (elim exE conjE)
  have "carried s' c = carried s c @ rev (take (Suc n) events)"
    using rest(2) Suc.prems(2) by (simp add: s1_def take_Suc_conv_app_nth)
  with rest(1,3) step show ?case
    by (intro exI [of _ s']) simp
qed

lemma replay_alone:
  assumes "replays s c = Some (Querying cid)"
  shows "\<exists>s'. exec (Query c True # replicate (length (recentEvents cid (table s))) (ReplayWrite c True)) s
             = Some s'
           \<and> carried s' c = carried s c @ rev (recentEvents cid (table s))"
proof -
  let ?events = "recentEvents cid (table s)"
  define s1 where "s1 = s\<lparr>replays := (replays s)(c \<mapsto> Writing ?events (length ?events))\<rparr>"
  have step: "fire (Query c True) s = Some s1"
    using assms by (simp add: s1_def)
  have "replays s1 c = Some (Writing ?events (length ?events))"
    by (simp add: s1_def)
  from replay_writes [OF this order_refl] obtain s' where
    "exec (replicate (length ?events) (ReplayWrite c True)) s1 = Some s'"
    "carried s' c = carried s1 c @ rev (take (length ?events) ?events)"
    by (elim exE conjE)
  with step show ?thesis
    by (intro exI [of _ s']) (simp add: s1_def)
qed

lemma recent_split:
  fixes cid table
  defines "rows \<equiv> filter (\<lambda>e. Event_ClusterID e = cid) table"
  defines "older \<equiv> take (length rows - 50) (sort_key Event_Timestamp rows)"
  shows "mset (older @ rev (recentEvents cid table)) = mset rows"
    and "\<forall>a\<in>set older. \<forall>b\<in>set (rev (recentEvents cid table)).
           Event_Timestamp a \<le> Event_Timestamp b"
    and "sorted (map Event_Timestamp (rev (recentEvents cid table)))"
    and "length (rev (recentEvents cid table)) = min 50 (length rows)"
proof -
  let ?s = "sort_key Event_Timestamp rows"
  let ?k = "length rows - 50"
  have r: "rev (recentEvents cid table) = drop ?k ?s"
    by (simp add: recentEvents_def rows_def rev_take)
  have whole: "older @ rev (recentEvents cid table) = ?s"
    unfolding r older_def by (rule append_take_drop_id)
  show "mset (older @ rev (recentEvents cid table)) = mset rows"
    unfolding whole by (rule mset_sort)
  have "sorted (map Event_Timestamp (older @ rev (recentEvents cid table)))"
    unfolding whole by (rule sorted_sort_key)
  then show "\<forall>a\<in>set older. \<forall>b\<in>set (rev (recentEvents cid table)).
      Event_Timestamp a \<le> Event_Timestamp b"
    and "sorted (map Event_Timestamp (rev (recentEvents cid table)))"
    by (simp_all add: sorted_append del: set_rev)
  show "length (rev (recentEvents cid table)) = min 50 (length rows)"
    unfolding r by simp
qed

text \<open>
  A replay exists only for a connection that has been entered in the map of the hub:
  the handler sends on \<^verbatim>\<open>register\<close> before it starts the replay.
\<close>

lemma fire_registered:
  assumes "fire l s = Some s'"
    and "\<forall>c. replays s c \<noteq> None \<longrightarrow> c \<in> snd ` set (clients s)"
  shows "\<forall>c. replays s' c \<noteq> None \<longrightarrow> c \<in> snd ` set (clients s')"
proof (cases l)
  case (Upgrade c cid)
  with assms show ?thesis by (auto split: option.splits)
next
  case (Register c)
  with assms(1) obtain cid where s': "s' = s\<lparr>clients := clients s @ [(cid, c)],
      handlers := (handlers s)(c \<mapsto> Serving cid), replays := (replays s)(c \<mapsto> Querying cid)\<rparr>"
    by (auto split: option.splits hubState.splits handlerState.splits)
  show ?thesis
  proof (intro allI impI)
    fix d assume r: "replays s' d \<noteq> None"
    show "d \<in> snd ` set (clients s')"
    proof (cases "d = c")
      case True
      then show ?thesis by (simp add: s' image_iff)
    next
      case False
      with r have "replays s d \<noteq> None" by (simp add: s')
      with assms(2) have "d \<in> snd ` set (clients s)" by blast
      then show ?thesis by (auto simp: s')
    qed
  qed
next
  case (Query c ok)
  with assms show ?thesis
    by (auto split: option.splits replayState.splits if_splits)
next
  case (ReplayWrite c ok)
  with assms show ?thesis
    by (auto split: option.splits replayState.splits nat.splits if_splits)
next
  case (Create e)
  with assms show ?thesis by (auto split: option.splits)
next
  case Send
  with assms show ?thesis by (auto split: option.splits if_splits)
next
  case Receive
  with assms show ?thesis by (auto split: hubState.splits list.splits)
next
  case (HubWrite ok)
  with assms show ?thesis by (auto split: hubState.splits list.splits if_splits)
qed

lemma registered_before_replay:
  assumes "exec ls s = Some s'"
    and "\<forall>c. replays s c \<noteq> None \<longrightarrow> c \<in> snd ` set (clients s)"
  shows "\<forall>c. replays s' c \<noteq> None \<longrightarrow> c \<in> snd ` set (clients s')"
  using assms
proof (induction ls arbitrary: s)
  case Nil
  then show ?case by simp
next
  case (Cons l ls)
  from Cons.prems(1) obtain s1 where step: "fire l s = Some s1" and rest: "exec ls s1 = Some s'"
    by (auto split: option.splits)
  from fire_registered [OF step Cons.prems(2)] Cons.IH [OF rest] show ?case
    by blast
qed

text \<open>
  C9 (history replay on subscribe). The claim is what the repository's own description
  of the flow says, history first and registration after it; the handler does the
  opposite. With one row in the table, a client of cluster 1 on connection 7 and one
  event logged while the client connects: under the schedule \<open>liveFirst\<close> the connection
  carries the live event before the row of the table, which is earlier; under
  \<open>liveTwice\<close> it carries the live event twice, once from the replay and once from the
  hub.
\<close>

theorem live_event_overtakes_history:
  "map_option (\<lambda>s. carried s 7) (exec liveFirst (idle [historyEvent]))
     = Some [liveEvent, historyEvent]
   \<and> Event_Timestamp historyEvent < Event_Timestamp liveEvent
   \<and> map_option (\<lambda>s. (clients s, replays s 7)) (exec (take 2 liveFirst) (idle [historyEvent]))
     = Some ([(1, 7)], Some (Querying 1))
   \<and> map_option (\<lambda>s. carried s 7) (exec liveTwice (idle [historyEvent]))
     = Some [historyEvent, liveEvent, liveEvent]"
proof -
  have cluster: "Event_ClusterID liveEvent = 1" "Event_ClusterID historyEvent = 1"
    and time: "Event_Timestamp historyEvent < Event_Timestamp liveEvent"
    "Event_Timestamp historyEvent = 1" "Event_Timestamp liveEvent = 26"
    by (simp_all add: liveEvent_def historyEvent_def)
  have one: "recentEvents (Suc 0) [historyEvent] = [historyEvent]"
    by (simp add: recentEvents_def cluster)
  have two: "recentEvents (Suc 0) [historyEvent, liveEvent] = [liveEvent, historyEvent]"
    by (simp add: recentEvents_def cluster time)
  have "map_option (\<lambda>s. carried s 7) (exec liveFirst (idle [historyEvent]))
     = Some [liveEvent, historyEvent]"
    by (simp add: liveFirst_def idle_def cluster one deliverTo_def)
  moreover have "map_option (\<lambda>s. (clients s, replays s 7)) (exec (take 2 liveFirst) (idle [historyEvent]))
     = Some ([(1, 7)], Some (Querying 1))"
    by (simp add: liveFirst_def idle_def)
  moreover have "map_option (\<lambda>s. carried s 7) (exec liveTwice (idle [historyEvent]))
     = Some [historyEvent, liveEvent, liveEvent]"
    by (simp add: liveTwice_def idle_def cluster two deliverTo_def)
  ultimately show ?thesis
    using time(1) by (intro conjI)
qed

end
